theory Spec2Isabelle
  imports Main "HOL-Library.Monad_Syntax" "HOL-Library.Multiset"
begin

section \<open>Strings\<close>

text \<open>
  A JavaScript string is modelled as a \<^typ>\<open>string\<close>: the list of its characters, a
  character outside ASCII standing as its UTF-8 bytes (the form in which the command
  line reaches the shell). The quote characters and the backslash are named, since
  the program's escaping is about them.
\<close>

definition dq :: char where
  "dq = CHR 0x22"

definition sq :: char where
  "sq = CHR 0x27"

definition bs :: char where
  "bs = CHR 0x5C"

text \<open>\<^verbatim>\<open>s.startsWith(p)\<close> and \<^verbatim>\<open>s.includes(p)\<close>.\<close>

fun startsWith :: "string \<Rightarrow> string \<Rightarrow> bool" where
  "startsWith s [] = True"
| "startsWith [] (p # ps) = False"
| "startsWith (c # cs) (p # ps) = (c = p \<and> startsWith cs ps)"

fun str_includes :: "string \<Rightarrow> string \<Rightarrow> bool" where
  "str_includes [] p = (p = [])"
| "str_includes (c # cs) p = (startsWith (c # cs) p \<or> str_includes cs p)"

text \<open>
  \<^verbatim>\<open>s.replace(/c/g, r)\<close> for a one-character pattern \<open>c\<close>: every occurrence of the
  character is replaced by the string \<open>r\<close>, everything else is kept.
\<close>

definition replaceAll :: "char \<Rightarrow> string \<Rightarrow> string \<Rightarrow> string" where
  "replaceAll c r s = concat (map (\<lambda>x. if x = c then r else [x]) s)"

text \<open>
  The one escaping the program applies to a value before it puts it between the
  double quotes of a script literal: \<^verbatim>\<open>s.replace(/"/g, '\\"')\<close>, a backslash in
  front of every double quote.
\<close>

definition escapeQuotes :: "string \<Rightarrow> string" where
  "escapeQuotes s = replaceAll dq [bs, dq] s"

text \<open>
  \<^verbatim>\<open>s.trim()\<close>: white space is removed at both ends. The white space modelled is
  the ASCII part of JavaScript's (tab, line feed, vertical tab, form feed, carriage
  return, space).
\<close>

definition isSpace :: "char \<Rightarrow> bool" where
  "isSpace c = (c = CHR 0x09 \<or> c = CHR 0x0A \<or> c = CHR 0x0B \<or> c = CHR 0x0C
     \<or> c = CHR 0x0D \<or> c = CHR 0x20)"

definition trim :: "string \<Rightarrow> string" where
  "trim s = rev (dropWhile isSpace (rev (dropWhile isSpace s)))"

text \<open>\<^verbatim>\<open>lines.join(sep)\<close>.\<close>

fun join :: "string \<Rightarrow> string list \<Rightarrow> string" where
  "join sep [] = []"
| "join sep [x] = x"
| "join sep (x # y # ys) = x @ sep @ join sep (y # ys)"

text \<open>
  Decimal digits. \<open>pad k n\<close> is the last \<open>k\<close> decimal digits of \<open>n\<close>
  (\<^verbatim>\<open>padStart(k, "0")\<close> of a number below \<open>10 ^ k\<close>); \<open>showInt\<close> is the string a
  template literal puts for an integral number.
\<close>

definition digitChar :: "int \<Rightarrow> char" where
  "digitChar d = ''0123456789'' ! nat d"

fun pad :: "nat \<Rightarrow> int \<Rightarrow> string" where
  "pad 0 n = []"
| "pad (Suc k) n = pad k (n div 10) @ [digitChar (n mod 10)]"

fun showNat :: "nat \<Rightarrow> string" where
  "showNat n =
     (if n < 10 then [digitChar (int n)]
      else showNat (n div 10) @ [digitChar (int (n mod 10))])"

definition showInt :: "int \<Rightarrow> string" where
  "showInt i = (if i < 0 then ''-'' @ showNat (nat (- i)) else showNat (nat i))"

text \<open>
  An optional argument is a \<^typ>\<open>string option\<close>, \<open>None\<close> for \<^verbatim>\<open>undefined\<close>. It is
  truthy when it is there and not the empty string; a template literal prints
  \<^verbatim>\<open>undefined\<close> as that word.
\<close>

definition truthy :: "string option \<Rightarrow> bool" where
  "truthy x = (case x of None \<Rightarrow> False | Some s \<Rightarrow> s \<noteq> [])"

definition interpolate :: "string option \<Rightarrow> string" where
  "interpolate x = (case x of None \<Rightarrow> ''undefined'' | Some s \<Rightarrow> s)"

definition showBool :: "bool \<Rightarrow> string" where
  "showBool b = (if b then ''true'' else ''false'')"

section \<open>Data\<close>

text \<open>
  The interfaces \<^verbatim>\<open>CalendarInfo\<close> and \<^verbatim>\<open>CalendarEvent\<close>, field by field (the
  fields carry a prefix: \<open>id\<close> and several others are names of HOL or of the
  arguments below).
\<close>

record calendarInfo =
  cal_id :: string
  cal_name :: string
  cal_color :: string
  cal_writable :: bool

record calendarEvent =
  ev_id :: string
  ev_summary :: string
  ev_description :: string
  ev_location :: string
  ev_startDate :: string
  ev_endDate :: string
  ev_allDay :: bool
  ev_calendar :: string
  ev_url :: string
  ev_status :: string

text \<open>
  What the program takes from its runtime and cannot be read off its text is a
  parameter of the model, the \<open>host\<close>:
  \<^item> \<open>now\<close>: the clock, \<^verbatim>\<open>Date.now()\<close> and \<^verbatim>\<open>new Date()\<close>, in milliseconds since
    the epoch (one reading per call of the program);
  \<^item> \<open>localTZA\<close>: the offset of local time from UTC, in milliseconds, at a local
    time value (ECMAScript's \<open>LocalTZA(t, false)\<close>);
  \<^item> \<open>legacyParse\<close>: what \<^verbatim>\<open>Date.parse\<close> makes of a string that is not in the
    ECMAScript date-time format; the standard leaves it to the implementation;
  \<^item> \<open>localeString\<close>: \<^verbatim>\<open>date.toLocaleString("en-US", {month: "long", ...})\<close> with
    the options of \<^verbatim>\<open>formatDateForAppleScript\<close>, which depends on the time zone
    and the locale data;
  \<^item> \<open>setHours0\<close> and \<open>nextDate\<close>: \<^verbatim>\<open>setHours(0, 0, 0, 0)\<close> and
    \<^verbatim>\<open>setDate(getDate() + 1)\<close>, local-time arithmetic on a time value;
  \<^item> \<open>parseEvents\<close> and \<open>parseCalendars\<close>: \<^verbatim>\<open>JSON.parse\<close> of a text that is the
    JSON of a \<^verbatim>\<open>CalendarEvent[]\<close> or \<^verbatim>\<open>CalendarInfo[]\<close>, the type the program
    declares for it; \<open>None\<close> for every other text;
  \<^item> \<open>sortEvents\<close>: \<^verbatim>\<open>Array.prototype.sort(comparefn)\<close> on an array of events. The
    result of the comparator is an \<^typ>\<open>int option\<close>, \<open>None\<close> for \<^verbatim>\<open>NaN\<close>. ECMAScript
    fixes the array returned only when the comparator is consistent on its
    elements (the stable sort); for every other comparator the order is
    implementation-defined, and it is the runtime's sorting procedure that decides.
\<close>

record host =
  now :: int
  localTZA :: "int \<Rightarrow> int"
  legacyParse :: "string \<Rightarrow> int option"
  localeString :: "int \<Rightarrow> string"
  setHours0 :: "int \<Rightarrow> int"
  nextDate :: "int \<Rightarrow> int"
  parseEvents :: "string \<Rightarrow> calendarEvent list option"
  parseCalendars :: "string \<Rightarrow> calendarInfo list option"
  sortEvents :: "(calendarEvent \<Rightarrow> calendarEvent \<Rightarrow> int option) \<Rightarrow> calendarEvent list
                   \<Rightarrow> calendarEvent list"

section \<open>Dates\<close>

text \<open>
  A \<^verbatim>\<open>Date\<close> is its time value: an \<^typ>\<open>int option\<close>, the milliseconds since the
  epoch, or \<open>None\<close> for the invalid date (time value \<^verbatim>\<open>NaN\<close>). The day arithmetic
  is ECMAScript's: \<open>DayFromYear\<close>, \<open>InLeapYear\<close>, \<open>MakeDay\<close>, \<open>MakeTime\<close> and
  \<open>TimeClip\<close> of the standard.
\<close>

definition msPerDay :: int where
  "msPerDay = 86400000"

definition InLeapYear :: "int \<Rightarrow> bool" where
  "InLeapYear y = (y mod 4 = 0 \<and> (y mod 100 \<noteq> 0 \<or> y mod 400 = 0))"

definition DayFromYear :: "int \<Rightarrow> int" where
  "DayFromYear y =
     365 * (y - 1970) + (y - 1969) div 4 - (y - 1901) div 100 + (y - 1601) div 400"

definition DaysInMonth :: "int \<Rightarrow> int \<Rightarrow> int" where
  "DaysInMonth y m =
     (if m = 2 then (if InLeapYear y then 29 else 28)
      else if m = 4 \<or> m = 6 \<or> m = 9 \<or> m = 11 then 30 else 31)"

text \<open>The days of the year \<open>y\<close> that lie in its first \<open>k\<close> months.\<close>

fun DaysBeforeMonth :: "int \<Rightarrow> nat \<Rightarrow> int" where
  "DaysBeforeMonth y 0 = 0"
| "DaysBeforeMonth y (Suc k) = DaysBeforeMonth y k + DaysInMonth y (int (Suc k))"

definition MakeDay :: "int \<Rightarrow> int \<Rightarrow> int \<Rightarrow> int" where
  "MakeDay y m d = DayFromYear y + DaysBeforeMonth y (nat (m - 1)) + d - 1"

definition MakeTime :: "int \<Rightarrow> int \<Rightarrow> int \<Rightarrow> int \<Rightarrow> int" where
  "MakeTime hh mm ss ms = hh * 3600000 + mm * 60000 + ss * 1000 + ms"

definition TimeClip :: "int \<Rightarrow> int option" where
  "TimeClip t = (if \<bar>t\<bar> \<le> 8640000000000000 then Some t else None)"

subsection \<open>Reading a date: \<open>Date.parse\<close> and \<open>new Date(string)\<close>\<close>

text \<open>
  The ECMAScript date-time string format: \<^verbatim>\<open>YYYY\<close>, \<^verbatim>\<open>YYYY-MM\<close> or
  \<^verbatim>\<open>YYYY-MM-DD\<close> (the year also as a sign and six digits), alone or followed by
  \<^verbatim>\<open>THH:mm\<close>, \<^verbatim>\<open>THH:mm:ss\<close> or \<^verbatim>\<open>THH:mm:ss.sss\<close> and then by nothing, \<^verbatim>\<open>Z\<close>
  or \<^verbatim>\<open>+HH:mm\<close>, \<^verbatim>\<open>-HH:mm\<close>. \<open>fixedNum k\<close> reads exactly \<open>k\<close> digits.
\<close>

definition isDigit :: "char \<Rightarrow> bool" where
  "isDigit c = (48 \<le> (of_char c :: nat) \<and> (of_char c :: nat) \<le> 57)"

definition digitVal :: "char \<Rightarrow> int" where
  "digitVal c = int (of_char c) - 48"

definition digitsVal :: "string \<Rightarrow> int" where
  "digitsVal s = foldl (\<lambda>n c. 10 * n + digitVal c) 0 s"

definition fixedNum :: "nat \<Rightarrow> string \<Rightarrow> (int \<times> string) option" where
  "fixedNum k s =
     (if k \<le> length s \<and> list_all isDigit (take k s)
      then Some (digitsVal (take k s), drop k s) else None)"

definition parseYear :: "string \<Rightarrow> (int \<times> string) option" where
  "parseYear s =
     (case s of
        [] \<Rightarrow> None
      | c # cs \<Rightarrow>
          if c = CHR ''+'' then fixedNum 6 cs
          else if c = CHR ''-'' then
            (case fixedNum 6 cs of
               None \<Rightarrow> None
             | Some (y, r) \<Rightarrow> if y = 0 then None else Some (- y, r))
          else fixedNum 4 s)"

text \<open>
  A field that may be left out: when the text goes on with the separator, the
  field's \<open>k\<close> digits must follow; otherwise the field has its default.
\<close>

definition optNum :: "char \<Rightarrow> nat \<Rightarrow> int \<Rightarrow> string \<Rightarrow> (int \<times> string) option" where
  "optNum sep k dflt s =
     (case s of
        [] \<Rightarrow> Some (dflt, s)
      | c # cs \<Rightarrow> if c = sep then fixedNum k cs else Some (dflt, s))"

definition expect :: "char \<Rightarrow> string \<Rightarrow> string option" where
  "expect c s = (case s of [] \<Rightarrow> None | x # xs \<Rightarrow> if x = c then Some xs else None)"

text \<open>Seconds and milliseconds: \<^verbatim>\<open>:ss\<close> and, only after it, \<^verbatim>\<open>.sss\<close>.\<close>

definition parseSeconds :: "string \<Rightarrow> (int \<times> int \<times> string) option" where
  "parseSeconds s =
     (case s of
        [] \<Rightarrow> Some (0, 0, s)
      | c # cs \<Rightarrow>
          if c = CHR '':'' then
            do {
              (ss, r) \<leftarrow> fixedNum 2 cs;
              (ms, r') \<leftarrow> optNum (CHR ''.'') 3 0 r;
              Some (ss, ms, r')
            }
          else Some (0, 0, s))"

text \<open>
  The offset that ends a date-time: \<open>None\<close> inside is "no offset" (the time is
  local), \<open>Some m\<close> an offset of \<open>m\<close> minutes east of UTC.
\<close>

definition parseOffset :: "string \<Rightarrow> int option option" where
  "parseOffset s =
     (case s of
        [] \<Rightarrow> Some None
      | c # cs \<Rightarrow>
          if s = ''Z'' then Some (Some 0)
          else if c = CHR ''+'' \<or> c = CHR ''-'' then
            do {
              (hh, r) \<leftarrow> fixedNum 2 cs;
              r' \<leftarrow> expect (CHR '':'') r;
              (mm, r'') \<leftarrow> fixedNum 2 r';
              (if r'' = [] \<and> hh \<le> 23 \<and> mm \<le> 59
               then Some (Some ((if c = CHR ''+'' then 1 else - 1) * (hh * 60 + mm)))
               else None)
            }
          else None)"

text \<open>
  The time value of a string in the format. A date alone is read as UTC, a
  date-time with no offset as local time. The result is \<open>None\<close> when the string is
  not in the format, when a field is out of its range (month 1 to 12, hour 0 to
  24 with 24:00:00.000 the only time of hour 24, minute and second 0 to 59), and
  also when the day is past the end of its month, where implementations differ.
\<close>

definition isoTime :: "host \<Rightarrow> string \<Rightarrow> int option" where
  "isoTime h s =
     do {
       (y, r1) \<leftarrow> parseYear s;
       (m, r2) \<leftarrow> optNum (CHR ''-'') 2 1 r1;
       (d, r3) \<leftarrow> optNum (CHR ''-'') 2 1 r2;
       (if 1 \<le> m \<and> m \<le> 12 \<and> 1 \<le> d \<and> d \<le> DaysInMonth y m then
          (case r3 of
             [] \<Rightarrow> Some (MakeDay y m d * msPerDay)
           | c # r4 \<Rightarrow>
               if c = CHR ''T'' then
                 do {
                   (hh, r5) \<leftarrow> fixedNum 2 r4;
                   r6 \<leftarrow> expect (CHR '':'') r5;
                   (mm, r7) \<leftarrow> fixedNum 2 r6;
                   (ss, ms, r8) \<leftarrow> parseSeconds r7;
                   off \<leftarrow> parseOffset r8;
                   (if mm \<le> 59 \<and> ss \<le> 59
                       \<and> (hh \<le> 23 \<or> (hh = 24 \<and> mm = 0 \<and> ss = 0 \<and> ms = 0)) then
                      (let t = MakeDay y m d * msPerDay + MakeTime hh mm ss ms in
                       case off of
                         Some minutes \<Rightarrow> Some (t - minutes * 60000)
                       | None \<Rightarrow> Some (t - localTZA h t))
                    else None)
                 }
               else None)
        else None)
     }"

text \<open>
  \<^verbatim>\<open>Date.parse\<close>: the format of the standard first; a string outside it goes to
  the implementation's own reading, \<open>legacyParse\<close>. One fact about that reading is
  built in: a string with no digit in it is never a date (every date needs the
  number of its day), which is also what the repository's tests expect of
  \<^verbatim>\<open>""\<close>, \<^verbatim>\<open>"invalid"\<close> and \<^verbatim>\<open>"not-a-date"\<close>.
\<close>

definition Date_parse :: "host \<Rightarrow> string \<Rightarrow> int option" where
  "Date_parse h s =
     (case isoTime h s of
        Some t \<Rightarrow> Some t
      | None \<Rightarrow> if list_ex isDigit s then legacyParse h s else None)"

text \<open>\<^verbatim>\<open>new Date(s)\<close> for a string, and \<^verbatim>\<open>new Date(n)\<close> for a number: both clip.\<close>

definition newDate :: "host \<Rightarrow> string \<Rightarrow> int option" where
  "newDate h s = Option.bind (Date_parse h s) TimeClip"

subsection \<open>Writing a date: \<open>toISOString\<close>\<close>

text \<open>
  The year of a day number: an estimate from the mean length of a year, which is
  off by at most one, then corrected.
\<close>

definition YearFromDay :: "int \<Rightarrow> int" where
  "YearFromDay d =
     (let y = 1970 + (d * 400) div 146097 in
      if DayFromYear (y + 1) \<le> d then y + 1
      else if d < DayFromYear y then y - 1
      else y)"

text \<open>The months of year \<open>y\<close> that are over on its day \<open>n\<close> (counted from 0).\<close>

definition monthsBefore :: "int \<Rightarrow> int \<Rightarrow> nat" where
  "monthsBefore y n = length (filter (\<lambda>k. DaysBeforeMonth y k \<le> n) [1..<12])"

definition isoYear :: "int \<Rightarrow> string" where
  "isoYear y =
     (if 0 \<le> y \<and> y \<le> 9999 then pad 4 y
      else (if y < 0 then ''-'' else ''+'') @ pad 6 \<bar>y\<bar>)"

text \<open>
  \<^verbatim>\<open>date.toISOString()\<close>: \<^verbatim>\<open>YYYY-MM-DDTHH:mm:ss.sssZ\<close> in UTC; on the invalid
  date it throws a \<^verbatim>\<open>RangeError\<close>.
\<close>

datatype error = Error (message: string)

definition isoString :: "int \<Rightarrow> string" where
  "isoString t =
     (let day = t div msPerDay;
          ms = t mod msPerDay;
          y = YearFromDay day;
          n = day - DayFromYear y;
          k = monthsBefore y n
      in isoYear y @ ''-'' @ pad 2 (int k + 1) @ ''-'' @ pad 2 (n - DaysBeforeMonth y k + 1)
         @ ''T'' @ pad 2 (ms div 3600000) @ '':'' @ pad 2 (ms div 60000 mod 60)
         @ '':'' @ pad 2 (ms div 1000 mod 60) @ ''.'' @ pad 3 (ms mod 1000) @ ''Z'')"

definition toISOString :: "int option \<Rightarrow> error + string" where
  "toISOString date =
     (case date of
        None \<Rightarrow> Inl (Error ''Invalid time value'')
      | Some t \<Rightarrow> Inr (isoString t))"

subsection \<open>The date utilities of the program\<close>

text \<open>
  \<^verbatim>\<open>
  function formatDateForAppleScript(date: Date): string {
    return date.toLocaleString("en-US", { month: "long", day: "numeric", year: "numeric",
      hour: "numeric", minute: "2-digit", second: "2-digit", hour12: true });
  }
  function parseDate(dateStr: string): Date | null {
    const date = new Date(dateStr);
    return isNaN(date.getTime()) ? null : date;
  }
  function formatISODate(dateStr: string): string {
    if (!dateStr || dateStr === "missing value") return "";
    try {
      const date = new Date(dateStr);
      return isNaN(date.getTime()) ? "" : date.toISOString();
    } catch {
      return "";
    }
  }
  \<close>
  \<open>parseDate\<close> returns \<open>None\<close> for \<^verbatim>\<open>null\<close> and the time value of the date
  otherwise. \<open>formatDateForAppleScript\<close> takes a \<^verbatim>\<open>Date\<close>, which is never \<^verbatim>\<open>null\<close>
  there but can be the invalid date (\<^verbatim>\<open>new Date\<close> of a time past the last time
  value): \<^verbatim>\<open>toLocaleString\<close> prints the invalid date as \<^verbatim>\<open>Invalid Date\<close>.
\<close>

definition formatDateForAppleScript :: "host \<Rightarrow> int option \<Rightarrow> string" where
  "formatDateForAppleScript h date =
     (case date of
        None \<Rightarrow> ''Invalid Date''
      | Some t \<Rightarrow> localeString h t)"

definition parseDate :: "host \<Rightarrow> string \<Rightarrow> int option" where
  "parseDate h dateStr =
     (let date = newDate h dateStr in
      if date = None then None else date)"

definition formatISODate :: "host \<Rightarrow> string \<Rightarrow> error + string" where
  "formatISODate h dateStr =
     (if dateStr = [] \<or> dateStr = ''missing value'' then Inr []
      else
        (case (let date = newDate h dateStr in
               if date = None then Inr [] else toISOString date) of
           Inl e \<Rightarrow> Inr []
         | Inr r \<Rightarrow> Inr r))"

definition getDateRange :: "host \<Rightarrow> int option \<Rightarrow> int option \<Rightarrow> string \<times> string" where
  "getDateRange h startDate endDate =
     (formatDateForAppleScript h startDate, formatDateForAppleScript h endDate)"

section \<open>\<open>JSON.stringify(value, null, 2)\<close>\<close>

text \<open>
  The values the program prints are objects of strings and booleans, and arrays of
  them. \<open>JSON.stringify\<close> with indentation 2 puts every element of a non-empty
  array and every member of a non-empty object on a line of its own, indented two
  spaces deeper than its parent, and leaves out a member whose value is
  \<^verbatim>\<open>undefined\<close> (such a member is not in the list of a \<open>JObj\<close>).
\<close>

datatype json =
  JBool bool
| JStr string
| JArr "json list"
| JObj "(string \<times> json) list"

definition hexDigit :: "nat \<Rightarrow> char" where
  "hexDigit n = ''0123456789abcdef'' ! n"

text \<open>The characters of a string as \<^verbatim>\<open>JSON.stringify\<close> quotes them.\<close>

definition jsonChar :: "char \<Rightarrow> string" where
  "jsonChar c =
     (if c = dq then [bs, dq]
      else if c = bs then [bs, bs]
      else if c = CHR 0x08 then [bs, CHR ''b'']
      else if c = CHR 0x0C then [bs, CHR ''f'']
      else if c = CHR 0x0A then [bs, CHR ''n'']
      else if c = CHR 0x0D then [bs, CHR ''r'']
      else if c = CHR 0x09 then [bs, CHR ''t'']
      else if (of_char c :: nat) < 32 then
        [bs, CHR ''u'', CHR ''0'', CHR ''0'',
         hexDigit (of_char c div 16), hexDigit (of_char c mod 16)]
      else [c])"

definition quoteJSON :: "string \<Rightarrow> string" where
  "quoteJSON s = [dq] @ concat (map jsonChar s) @ [dq]"

fun stringify :: "nat \<Rightarrow> json \<Rightarrow> string" where
  "stringify n (JBool b) = showBool b"
| "stringify n (JStr s) = quoteJSON s"
| "stringify n (JArr xs) =
     (if xs = [] then ''[]''
      else ''['' @ [CHR 0x0A]
        @ join ('','' @ [CHR 0x0A])
            (map (\<lambda>x. replicate (n + 2) (CHR '' '') @ stringify (n + 2) x) xs)
        @ [CHR 0x0A] @ replicate n (CHR '' '') @ '']'')"
| "stringify n (JObj ms) =
     (if ms = [] then ''{}''
      else ''{'' @ [CHR 0x0A]
        @ join ('','' @ [CHR 0x0A])
            (map (\<lambda>m. replicate (n + 2) (CHR '' '') @ quoteJSON (fst m) @ '': ''
                        @ stringify (n + 2) (snd m)) ms)
        @ [CHR 0x0A] @ replicate n (CHR '' '') @ ''}'')"

definition JSON_stringify :: "json \<Rightarrow> string" where
  "JSON_stringify v = stringify 0 v"

text \<open>The objects of the program as JSON values, members in the order of the source.\<close>

definition calendarJSON :: "calendarInfo \<Rightarrow> json" where
  "calendarJSON c =
     JObj [(''id'', JStr (cal_id c)), (''name'', JStr (cal_name c)),
           (''color'', JStr (cal_color c)), (''writable'', JBool (cal_writable c))]"

definition eventJSON :: "calendarEvent \<Rightarrow> json" where
  "eventJSON e =
     JObj [(''id'', JStr (ev_id e)), (''summary'', JStr (ev_summary e)),
           (''description'', JStr (ev_description e)), (''location'', JStr (ev_location e)),
           (''startDate'', JStr (ev_startDate e)), (''endDate'', JStr (ev_endDate e)),
           (''allDay'', JBool (ev_allDay e)), (''calendar'', JStr (ev_calendar e)),
           (''url'', JStr (ev_url e)), (''status'', JStr (ev_status e))]"

text \<open>
  The result of the writing operations, \<^verbatim>\<open>{ success: boolean; id?: string; error?: string }\<close>.
\<close>

record opResult =
  success :: bool
  res_id :: "string option"
  res_error :: "string option"

definition optMember :: "string \<Rightarrow> string option \<Rightarrow> (string \<times> json) list" where
  "optMember k v = (case v of None \<Rightarrow> [] | Some s \<Rightarrow> [(k, JStr s)])"

definition resultJSON :: "opResult \<Rightarrow> json" where
  "resultJSON r =
     JObj ([(''success'', JBool (success r))] @ optMember ''id'' (res_id r)
           @ optMember ''error'' (res_error r))"

definition succeeded :: "string option \<Rightarrow> opResult" where
  "succeeded i = \<lparr>success = True, res_id = i, res_error = None\<rparr>"

definition failed :: "string \<Rightarrow> opResult" where
  "failed m = \<lparr>success = False, res_id = None, res_error = Some m\<rparr>"

text \<open>\<^verbatim>\<open>PermissionStatus\<close>: \<^verbatim>\<open>{ calendar: boolean; details: string[] }\<close>.\<close>

record permissionStatus =
  perm_calendar :: bool
  perm_details :: "string list"

definition statusJSON :: "permissionStatus \<Rightarrow> json" where
  "statusJSON s =
     JObj [(''calendar'', JBool (perm_calendar s)),
           (''details'', JArr (map JStr (perm_details s)))]"

section \<open>The execution adapter and \<open>runAppleScript\<close>\<close>

text \<open>
  A thrown \<^verbatim>\<open>Error\<close> is a value carrying its message; a function of the program
  that can throw returns \<open>error + 'a\<close>, with \<open>Inl\<close> for the throw.

  \<^verbatim>\<open>execAsync\<close> (the promisified \<^verbatim>\<open>child_process.exec\<close>) is the external
  collaborator: a function from the command line to either the message of the
  failure it rejects with or the standard output of the command. Every function
  that reaches it also returns the list of command lines it submitted, in order,
  so that "the adapter was not invoked" is the statement that this list is empty.
\<close>

type_synonym adapter = "string \<Rightarrow> string + string"

definition accessDenied :: string where
  "accessDenied = ''Calendar access denied. Grant permission in System Settings > Privacy & Security > Calendars''"

text \<open>
  \<^verbatim>\<open>
  async function runAppleScript(script: string): Promise<string> {
    try {
      const escaped = script.replace(/'/g, "'\\''");
      const result = await execAsync(`osascript -e '${escaped}'`, ...);
      return result.stdout.trim();
    } catch (error: any) {
      if (error.message?.includes("Not authorized")) {
        throw new Error("Calendar access denied. ...");
      }
      throw error;
    }
  }
  \<close>
\<close>

definition osascript :: "string \<Rightarrow> string" where
  "osascript script =
     ''osascript -e '' @ [sq] @ replaceAll sq [sq, bs, sq, sq] script @ [sq]"

definition runAppleScript :: "adapter \<Rightarrow> string \<Rightarrow> (error + string) \<times> string list" where
  "runAppleScript exec script =
     (case exec (osascript script) of
        Inr stdout \<Rightarrow> Inr (trim stdout)
      | Inl m \<Rightarrow>
          if str_includes m ''Not authorized'' then Inl (Error accessDenied)
          else Inl (Error m),
      [osascript script])"

text \<open>
  \<^verbatim>\<open>
  async function runAppleScriptJSON<T>(script: string): Promise<T> {
    const result = await runAppleScript(script);
    if (!result) return [] as unknown as T;
    try { return JSON.parse(result); } catch { return result as unknown as T; }
  }
  \<close>
  The result is the decoded list or, when the text does not decode, the text
  itself. (The model also takes the second branch for a text that is JSON of
  another shape than the declared type.)
\<close>

datatype 'a parsed = Structured 'a | Opaque string

definition runAppleScriptJSON ::
  "(string \<Rightarrow> 'a list option) \<Rightarrow> adapter \<Rightarrow> string \<Rightarrow> (error + 'a list parsed) \<times> string list" where
  "runAppleScriptJSON decode exec script =
     (case runAppleScript exec script of
        (Inl e, log) \<Rightarrow> (Inl e, log)
      | (Inr result, log) \<Rightarrow>
          (if result = [] then Inr (Structured [])
           else (case decode result of
                   Some v \<Rightarrow> Inr (Structured v)
                 | None \<Rightarrow> Inr (Opaque result)),
           log))"

text \<open>A script is written as the list of its lines; the text submitted joins them.\<close>

definition scriptText :: "string list \<Rightarrow> string" where
  "scriptText ls = join [CHR 0x0A] ls"

text \<open>\<^verbatim>\<open>x ? f(x) : d\<close> for an optional string \<open>x\<close>.\<close>

definition whenTruthy :: "string option \<Rightarrow> (string \<Rightarrow> 'a) \<Rightarrow> 'a \<Rightarrow> 'a" where
  "whenTruthy x f d = (case x of None \<Rightarrow> d | Some s \<Rightarrow> if s = [] then d else f s)"

section \<open>The scripts\<close>

text \<open>
  The template literals of the source, line by line; what a \<^verbatim>\<open>${...}\<close> inserts
  is a parameter or the expression itself.
\<close>

definition getCalendarsScript :: "string list" where
  \<open>getCalendarsScript =
    ['''',
     ''    tell application "Calendar"'',
     ''      set output to "["'',
     ''      set allCals to calendars'',
     ''      repeat with i from 1 to count of allCals'',
     ''        set theCal to item i of allCals'',
     ''        set calId to uid of theCal'',
     ''        set calName to name of theCal'',
     ''        set calColor to color of theCal'',
     ''        set calWritable to writable of theCal'',
     '''',
     ''        set calName to my replaceText(calName, "'' @ [bs, bs] @ ''", "'' @ [bs, bs, bs, bs] @ ''")'',
     ''        set calName to my replaceText(calName, "'' @ [bs] @ ''"", "'' @ [bs, bs, bs] @ ''"")'',
     '''',
     ''        if i > 1 then set output to output & ","'',
     ''        set output to output & "{'' @ [bs] @ ''"id'' @ [bs] @ ''":'' @ [bs] @ ''"" & calId & "'' @ [bs] @ ''",'' @ [bs] @ ''"name'' @ [bs] @ ''":'' @ [bs] @ ''"" & calName & "'' @ [bs] @ ''",'' @ [bs] @ ''"color'' @ [bs] @ ''":'' @ [bs] @ ''"" & calColor & "'' @ [bs] @ ''",'' @ [bs] @ ''"writable'' @ [bs] @ ''":" & calWritable & "}"'',
     ''      end repeat'',
     ''      set output to output & "]"'',
     ''      return output'',
     ''    end tell'',
     '''',
     ''    on replaceText(theText, searchStr, replaceStr)'',
     ''      set AppleScript'' @ [sq] @ ''s text item delimiters to searchStr'',
     ''      set theItems to text items of theText'',
     ''      set AppleScript'' @ [sq] @ ''s text item delimiters to replaceStr'',
     ''      set theText to theItems as text'',
     ''      set AppleScript'' @ [sq] @ ''s text item delimiters to ""'',
     ''      return theText'',
     ''    end replaceText'',
     ''  '']\<close>

definition getEventsScript :: "string option \<Rightarrow> string \<Rightarrow> string \<Rightarrow> int \<Rightarrow> string list" where
  \<open>getEventsScript calendar rangeStart rangeEnd limit =
    ['''',
     ''    tell application "Calendar"'',
     ''      set output to "["'',
     ''      set startDate to date "'' @ rangeStart @ ''"'',
     ''      set endDate to date "'' @ rangeEnd @ ''"'',
     ''      set matchCount to 0'',
     '''',
     ''      if "'' @ interpolate calendar @ ''" is "" then'',
     ''        set targetCals to calendars'',
     ''      else'',
     ''        set targetCals to {calendar "'' @ (case calendar of None \<Rightarrow> [] | Some c \<Rightarrow> escapeQuotes c) @ ''"}'',
     ''      end if'',
     '''',
     ''      repeat with theCal in targetCals'',
     ''        set calEvents to (events of theCal whose start date '' @ [CHR 0xE2, CHR 0x89, CHR 0xA5] @ '' startDate and start date '' @ [CHR 0xE2, CHR 0x89, CHR 0xA4] @ '' endDate)'',
     ''        repeat with e in calEvents'',
     ''          if matchCount < '' @ showInt limit @ '' then'',
     ''            set eId to uid of e'',
     ''            set eSummary to summary of e'',
     ''            set eDesc to description of e'',
     ''            if eDesc is missing value then set eDesc to ""'',
     ''            set eLoc to location of e'',
     ''            if eLoc is missing value then set eLoc to ""'',
     ''            set eStart to start date of e'',
     ''            set eEnd to end date of e'',
     ''            set eAllDay to allday event of e'',
     ''            set eCalName to name of theCal'',
     ''            set eUrl to url of e'',
     ''            if eUrl is missing value then set eUrl to ""'',
     ''            set eStatus to status of e'',
     '''',
     ''            set eSummary to my replaceText(eSummary, "'' @ [bs, bs] @ ''", "'' @ [bs, bs, bs, bs] @ ''")'',
     ''            set eSummary to my replaceText(eSummary, "'' @ [bs] @ ''"", "'' @ [bs, bs, bs] @ ''"")'',
     ''            set eSummary to my replaceText(eSummary, return, "'' @ [bs, bs] @ ''n")'',
     ''            set eDesc to my replaceText(eDesc, "'' @ [bs, bs] @ ''", "'' @ [bs, bs, bs, bs] @ ''")'',
     ''            set eDesc to my replaceText(eDesc, "'' @ [bs] @ ''"", "'' @ [bs, bs, bs] @ ''"")'',
     ''            set eDesc to my replaceText(eDesc, return, "'' @ [bs, bs] @ ''n")'',
     ''            set eLoc to my replaceText(eLoc, "'' @ [bs, bs] @ ''", "'' @ [bs, bs, bs, bs] @ ''")'',
     ''            set eLoc to my replaceText(eLoc, "'' @ [bs] @ ''"", "'' @ [bs, bs, bs] @ ''"")'',
     '''',
     ''            if matchCount > 0 then set output to output & ","'',
     ''            set output to output & "{'' @ [bs] @ ''"id'' @ [bs] @ ''":'' @ [bs] @ ''"" & eId & "'' @ [bs] @ ''","'',
     ''            set output to output & "'' @ [bs] @ ''"summary'' @ [bs] @ ''":'' @ [bs] @ ''"" & eSummary & "'' @ [bs] @ ''","'',
     ''            set output to output & "'' @ [bs] @ ''"description'' @ [bs] @ ''":'' @ [bs] @ ''"" & eDesc & "'' @ [bs] @ ''","'',
     ''            set output to output & "'' @ [bs] @ ''"location'' @ [bs] @ ''":'' @ [bs] @ ''"" & eLoc & "'' @ [bs] @ ''","'',
     ''            set output to output & "'' @ [bs] @ ''"startDate'' @ [bs] @ ''":'' @ [bs] @ ''"" & (eStart as '' @ [CHR 0xC2, CHR 0xAB] @ ''class isot'' @ [CHR 0xC2, CHR 0xBB] @ '' as string) & "'' @ [bs] @ ''","'',
     ''            set output to output & "'' @ [bs] @ ''"endDate'' @ [bs] @ ''":'' @ [bs] @ ''"" & (eEnd as '' @ [CHR 0xC2, CHR 0xAB] @ ''class isot'' @ [CHR 0xC2, CHR 0xBB] @ '' as string) & "'' @ [bs] @ ''","'',
     ''            set output to output & "'' @ [bs] @ ''"allDay'' @ [bs] @ ''":" & eAllDay & ","'',
     ''            set output to output & "'' @ [bs] @ ''"calendar'' @ [bs] @ ''":'' @ [bs] @ ''"" & eCalName & "'' @ [bs] @ ''","'',
     ''            set output to output & "'' @ [bs] @ ''"url'' @ [bs] @ ''":'' @ [bs] @ ''"" & eUrl & "'' @ [bs] @ ''","'',
     ''            set output to output & "'' @ [bs] @ ''"status'' @ [bs] @ ''":'' @ [bs] @ ''"" & eStatus & "'' @ [bs] @ ''"}"'',
     ''            set matchCount to matchCount + 1'',
     ''          end if'',
     ''        end repeat'',
     ''      end repeat'',
     ''      set output to output & "]"'',
     ''      return output'',
     ''    end tell'',
     '''',
     ''    on replaceText(theText, searchStr, replaceStr)'',
     ''      set AppleScript'' @ [sq] @ ''s text item delimiters to searchStr'',
     ''      set theItems to text items of theText'',
     ''      set AppleScript'' @ [sq] @ ''s text item delimiters to replaceStr'',
     ''      set theText to theItems as text'',
     ''      set AppleScript'' @ [sq] @ ''s text item delimiters to ""'',
     ''      return theText'',
     ''    end replaceText'',
     ''  '']\<close>

definition createEventScript :: "string \<Rightarrow> string \<Rightarrow> string \<Rightarrow> string \<Rightarrow> bool \<Rightarrow> string option \<Rightarrow> string option \<Rightarrow> string option \<Rightarrow> string list" where
  \<open>createEventScript calendarTarget escapedSummary startText endText allDay description location url =
    ['''',
     ''    tell application "Calendar"'',
     ''      set newEvent to make new event at end of events of '' @ calendarTarget @ '' with properties {summary:"'' @ escapedSummary @ ''", start date:date "'' @ startText @ ''", end date:date "'' @ endText @ ''", allday event:'' @ showBool allDay @ ''}'',
     ''      '' @ whenTruthy description (\<lambda>d. ''set description of newEvent to "'' @ escapeQuotes d @ ''"'') [],
     ''      '' @ whenTruthy location (\<lambda>l. ''set location of newEvent to "'' @ escapeQuotes l @ ''"'') [],
     ''      '' @ whenTruthy url (\<lambda>u. ''set url of newEvent to "'' @ escapeQuotes u @ ''"'') [],
     ''      return uid of newEvent'',
     ''    end tell'',
     ''  '']\<close>

definition updateEventScript :: "string \<Rightarrow> string \<Rightarrow> string list \<Rightarrow> string list" where
  \<open>updateEventScript eventId calendarName updLines =
    ['''',
     ''    tell application "Calendar"'',
     ''      set theCal to calendar "'' @ escapeQuotes calendarName @ ''"'',
     ''      set theEvent to (first event of theCal whose uid is "'' @ escapeQuotes eventId @ ''")'',
     ''      '' @ join ([CHR 0x0A] @ ''      '') updLines,
     ''      return "done"'',
     ''    end tell'',
     ''  '']\<close>

definition deleteEventScript :: "string \<Rightarrow> string \<Rightarrow> string list" where
  \<open>deleteEventScript eventId calendarName =
    ['''',
     ''    tell application "Calendar"'',
     ''      set theCal to calendar "'' @ escapeQuotes calendarName @ ''"'',
     ''      set theEvent to (first event of theCal whose uid is "'' @ escapeQuotes eventId @ ''")'',
     ''      delete theEvent'',
     ''      return "done"'',
     ''    end tell'',
     ''  '']\<close>

definition searchEventsScript :: "string \<Rightarrow> string option \<Rightarrow> string \<Rightarrow> string \<Rightarrow> int \<Rightarrow> string list" where
  \<open>searchEventsScript escapedQuery calendar rangeStart rangeEnd limit =
    ['''',
     ''    tell application "Calendar"'',
     ''      set output to "["'',
     ''      set searchQuery to "'' @ escapedQuery @ ''"'',
     ''      set matchCount to 0'',
     ''      set startDate to date "'' @ rangeStart @ ''"'',
     ''      set endDate to date "'' @ rangeEnd @ ''"'',
     '''',
     ''      '' @ whenTruthy calendar (\<lambda>c. ''set targetCals to {calendar "'' @ escapeQuotes c @ ''"}'') ''set targetCals to calendars'',
     '''',
     ''      repeat with theCal in targetCals'',
     ''        set calEvents to (events of theCal whose start date '' @ [CHR 0xE2, CHR 0x89, CHR 0xA5] @ '' startDate and start date '' @ [CHR 0xE2, CHR 0x89, CHR 0xA4] @ '' endDate)'',
     ''        repeat with e in calEvents'',
     ''          if matchCount < '' @ showInt limit @ '' then'',
     ''            set eSummary to summary of e'',
     ''            set eDesc to description of e'',
     ''            if eDesc is missing value then set eDesc to ""'',
     ''            set eLoc to location of e'',
     ''            if eLoc is missing value then set eLoc to ""'',
     '''',
     ''            set lowerSummary to my toLowerCase(eSummary)'',
     ''            set lowerDesc to my toLowerCase(eDesc)'',
     ''            set lowerLoc to my toLowerCase(eLoc)'',
     '''',
     ''            if lowerSummary contains searchQuery or lowerDesc contains searchQuery or lowerLoc contains searchQuery then'',
     ''              set eId to uid of e'',
     ''              set eStart to start date of e'',
     ''              set eEnd to end date of e'',
     ''              set eAllDay to allday event of e'',
     ''              set eCalName to name of theCal'',
     ''              set eUrl to url of e'',
     ''              if eUrl is missing value then set eUrl to ""'',
     ''              set eStatus to status of e'',
     '''',
     ''              set eSummary to my replaceText(eSummary, "'' @ [bs, bs] @ ''", "'' @ [bs, bs, bs, bs] @ ''")'',
     ''              set eSummary to my replaceText(eSummary, "'' @ [bs] @ ''"", "'' @ [bs, bs, bs] @ ''"")'',
     ''              set eSummary to my replaceText(eSummary, return, "'' @ [bs, bs] @ ''n")'',
     ''              set eDesc to my replaceText(eDesc, "'' @ [bs, bs] @ ''", "'' @ [bs, bs, bs, bs] @ ''")'',
     ''              set eDesc to my replaceText(eDesc, "'' @ [bs] @ ''"", "'' @ [bs, bs, bs] @ ''"")'',
     ''              set eDesc to my replaceText(eDesc, return, "'' @ [bs, bs] @ ''n")'',
     ''              set eLoc to my replaceText(eLoc, "'' @ [bs, bs] @ ''", "'' @ [bs, bs, bs, bs] @ ''")'',
     ''              set eLoc to my replaceText(eLoc, "'' @ [bs] @ ''"", "'' @ [bs, bs, bs] @ ''"")'',
     '''',
     ''              if matchCount > 0 then set output to output & ","'',
     ''              set output to output & "{'' @ [bs] @ ''"id'' @ [bs] @ ''":'' @ [bs] @ ''"" & eId & "'' @ [bs] @ ''","'',
     ''              set output to output & "'' @ [bs] @ ''"summary'' @ [bs] @ ''":'' @ [bs] @ ''"" & eSummary & "'' @ [bs] @ ''","'',
     ''              set output to output & "'' @ [bs] @ ''"description'' @ [bs] @ ''":'' @ [bs] @ ''"" & eDesc & "'' @ [bs] @ ''","'',
     ''              set output to output & "'' @ [bs] @ ''"location'' @ [bs] @ ''":'' @ [bs] @ ''"" & eLoc & "'' @ [bs] @ ''","'',
     ''              set output to output & "'' @ [bs] @ ''"startDate'' @ [bs] @ ''":'' @ [bs] @ ''"" & (eStart as '' @ [CHR 0xC2, CHR 0xAB] @ ''class isot'' @ [CHR 0xC2, CHR 0xBB] @ '' as string) & "'' @ [bs] @ ''","'',
     ''              set output to output & "'' @ [bs] @ ''"endDate'' @ [bs] @ ''":'' @ [bs] @ ''"" & (eEnd as '' @ [CHR 0xC2, CHR 0xAB] @ ''class isot'' @ [CHR 0xC2, CHR 0xBB] @ '' as string) & "'' @ [bs] @ ''","'',
     ''              set output to output & "'' @ [bs] @ ''"allDay'' @ [bs] @ ''":" & eAllDay & ","'',
     ''              set output to output & "'' @ [bs] @ ''"calendar'' @ [bs] @ ''":'' @ [bs] @ ''"" & eCalName & "'' @ [bs] @ ''","'',
     ''              set output to output & "'' @ [bs] @ ''"url'' @ [bs] @ ''":'' @ [bs] @ ''"" & eUrl & "'' @ [bs] @ ''","'',
     ''              set output to output & "'' @ [bs] @ ''"status'' @ [bs] @ ''":'' @ [bs] @ ''"" & eStatus & "'' @ [bs] @ ''"}"'',
     ''              set matchCount to matchCount + 1'',
     ''            end if'',
     ''          end if'',
     ''        end repeat'',
     ''      end repeat'',
     ''      set output to output & "]"'',
     ''      return output'',
     ''    end tell'',
     '''',
     ''    on toLowerCase(theText)'',
     ''      set lowercaseChars to "abcdefghijklmnopqrstuvwxyz"'',
     ''      set uppercaseChars to "ABCDEFGHIJKLMNOPQRSTUVWXYZ"'',
     ''      set resultText to ""'',
     ''      repeat with c in theText'',
     ''        set charOffset to offset of c in uppercaseChars'',
     ''        if charOffset > 0 then'',
     ''          set resultText to resultText & character charOffset of lowercaseChars'',
     ''        else'',
     ''          set resultText to resultText & c'',
     ''        end if'',
     ''      end repeat'',
     ''      return resultText'',
     ''    end toLowerCase'',
     '''',
     ''    on replaceText(theText, searchStr, replaceStr)'',
     ''      set AppleScript'' @ [sq] @ ''s text item delimiters to searchStr'',
     ''      set theItems to text items of theText'',
     ''      set AppleScript'' @ [sq] @ ''s text item delimiters to replaceStr'',
     ''      set theText to theItems as text'',
     ''      set AppleScript'' @ [sq] @ ''s text item delimiters to ""'',
     ''      return theText'',
     ''    end replaceText'',
     ''  '']\<close>

section \<open>The operations\<close>

definition checkPermissions :: "adapter \<Rightarrow> permissionStatus \<times> string list" where
  \<open>checkPermissions exec =
     (case runAppleScript exec ''tell application "Calendar" to count of calendars'' of
        (Inr r, log) \<Rightarrow>
          (\<lparr>perm_calendar = True, perm_details = [''Calendar: accessible'']\<rparr>, log)
      | (Inl e, log) \<Rightarrow>
          (\<lparr>perm_calendar = False,
            perm_details = [''Calendar: NOT accessible (grant Calendar permission in System Settings)'']\<rparr>,
           log))\<close>

definition getCalendars ::
  "host \<Rightarrow> adapter \<Rightarrow> (error + calendarInfo list parsed) \<times> string list" where
  "getCalendars h exec =
     runAppleScriptJSON (parseCalendars h) exec (scriptText getCalendarsScript)"

subsection \<open>Event lists: normalising and sorting\<close>

text \<open>
  Both \<open>getEvents\<close> and \<open>searchEvents\<close> end with
  \<^verbatim>\<open>
  return events
    .map((e) => ({ ...e, startDate: formatISODate(e.startDate), endDate: formatISODate(e.endDate) }))
    .sort((a, b) => new Date(a.startDate).getTime() - new Date(b.startDate).getTime());
  \<close>
  \<open>mapE\<close> is \<^verbatim>\<open>map\<close> with a callback that may throw. The comparator's result is
  an \<^typ>\<open>int option\<close>, \<open>None\<close> for \<^verbatim>\<open>NaN\<close>: the difference of two time values,
  of which only the sign is used, and \<^verbatim>\<open>NaN\<close> as soon as one of the two dates is
  invalid.
\<close>

definition normalizeEvent :: "host \<Rightarrow> calendarEvent \<Rightarrow> error + calendarEvent" where
  "normalizeEvent h e =
     (case formatISODate h (ev_startDate e) of
        Inl x \<Rightarrow> Inl x
      | Inr s \<Rightarrow>
          (case formatISODate h (ev_endDate e) of
             Inl x \<Rightarrow> Inl x
           | Inr t \<Rightarrow> Inr (e\<lparr>ev_startDate := s, ev_endDate := t\<rparr>)))"

fun mapE :: "('a \<Rightarrow> error + 'b) \<Rightarrow> 'a list \<Rightarrow> error + 'b list" where
  "mapE f [] = Inr []"
| "mapE f (x # xs) =
     (case f x of
        Inl e \<Rightarrow> Inl e
      | Inr y \<Rightarrow> (case mapE f xs of Inl e \<Rightarrow> Inl e | Inr ys \<Rightarrow> Inr (y # ys)))"

definition compareStart :: "host \<Rightarrow> calendarEvent \<Rightarrow> calendarEvent \<Rightarrow> int option" where
  "compareStart h a b =
     (case (newDate h (ev_startDate a), newDate h (ev_startDate b)) of
        (Some x, Some y) \<Rightarrow> Some (x - y)
      | _ \<Rightarrow> None)"

text \<open>
  \<^verbatim>\<open>.sort(comparefn)\<close> is the sort of the runtime, \<open>sortEvents\<close> of the host, called
  with this comparator on the array that \<^verbatim>\<open>map\<close> returns.
\<close>

definition normalizeAndSort :: "host \<Rightarrow> calendarEvent list parsed \<Rightarrow> error + calendarEvent list" where
  "normalizeAndSort h events =
     (case events of
        Opaque s \<Rightarrow> Inl (Error ''events.map is not a function'')
      | Structured es \<Rightarrow>
          (case mapE (normalizeEvent h) es of
             Inl e \<Rightarrow> Inl e
           | Inr ns \<Rightarrow> Inr (sortEvents h (compareStart h) ns)))"

subsection \<open>\<open>getEvents\<close>\<close>

text \<open>
  \<^verbatim>\<open>
  const { calendar, startDate, endDate, limit = 100 } = options;
  const start = startDate ? parseDate(startDate) : new Date();
  const end = endDate ? parseDate(endDate) : new Date(Date.now() + 30 * 24 * 60 * 60 * 1000);
  if (!start || !end) { throw new Error("Invalid date format"); }
  const dateRange = getDateRange(start, end);
  \<close>
  (The source also computes a \<^verbatim>\<open>calendarFilter\<close>, which it never uses.)
  \<open>start\<close> and \<open>end\<close> are a \<^verbatim>\<open>Date\<close> or \<^verbatim>\<open>null\<close>: \<open>None\<close> for \<^verbatim>\<open>null\<close>, and \<open>Some d\<close>
  for the \<^verbatim>\<open>Date\<close> \<open>d\<close>. Only \<open>parseDate\<close> gives \<^verbatim>\<open>null\<close>. The default end is a
  \<^verbatim>\<open>Date\<close> also when thirty days from now is past the last time value: the invalid
  date, which is an object and passes the test \<^verbatim>\<open>!end\<close>.
\<close>

definition eventsWindow ::
  "host \<Rightarrow> string option \<Rightarrow> string option \<Rightarrow> error + int option \<times> int option" where
  "eventsWindow h startDate endDate =
     (let start = whenTruthy startDate (\<lambda>s. map_option Some (parseDate h s))
                    (Some (Some (now h)));
          end' = whenTruthy endDate (\<lambda>s. map_option Some (parseDate h s))
                   (Some (TimeClip (now h + 30 * 24 * 60 * 60 * 1000)))
      in case (start, end') of
           (Some s, Some e) \<Rightarrow> Inr (s, e)
         | _ \<Rightarrow> Inl (Error ''Invalid date format''))"

definition getEvents ::
  "host \<Rightarrow> adapter \<Rightarrow> string option \<Rightarrow> string option \<Rightarrow> string option \<Rightarrow> int option
     \<Rightarrow> (error + calendarEvent list) \<times> string list" where
  "getEvents h exec calendar startDate endDate limit0 =
     (let limit = (case limit0 of None \<Rightarrow> 100 | Some n \<Rightarrow> n) in
      case eventsWindow h startDate endDate of
        Inl e \<Rightarrow> (Inl e, [])
      | Inr (start, end') \<Rightarrow>
          (let dateRange = getDateRange h start end' in
           case runAppleScriptJSON (parseEvents h) exec
                  (scriptText (getEventsScript calendar (fst dateRange) (snd dateRange) limit)) of
             (Inl e, log) \<Rightarrow> (Inl e, log)
           | (Inr events, log) \<Rightarrow> (normalizeAndSort h events, log)))"

subsection \<open>\<open>createEvent\<close>, \<open>updateEvent\<close>, \<open>deleteEvent\<close>\<close>

text \<open>
  \<^verbatim>\<open>
  const start = parseDate(startDate);
  if (!start) { return { success: false, error: "Invalid start date" }; }
  const end = endDate ? parseDate(endDate)
    : new Date(start.getTime() + (allDay ? 24 * 60 * 60 * 1000 : 60 * 60 * 1000));
  if (!end) { return { success: false, error: "Invalid end date" }; }
  ...
  try { const id = await runAppleScript(script); return { success: true, id }; }
  catch (error: any) { return { success: false, error: error.message }; }
  \<close>
  \<open>end\<close> is \<^verbatim>\<open>null\<close> (\<open>None\<close>) only when \<open>parseDate\<close> returns \<^verbatim>\<open>null\<close> for a given end
  date. The default end is a \<^verbatim>\<open>Date\<close>, the invalid date when it is past the last
  time value, and the script is then written with \<^verbatim>\<open>Invalid Date\<close> for it.
\<close>

definition createEvent ::
  "host \<Rightarrow> adapter \<Rightarrow> string \<Rightarrow> string \<Rightarrow> string option \<Rightarrow> bool option \<Rightarrow> string option
     \<Rightarrow> string option \<Rightarrow> string option \<Rightarrow> string option \<Rightarrow> opResult \<times> string list" where
  \<open>createEvent h exec summary startDate endDate allDay0 calendar description location url =
     (let allDay = (case allDay0 of None \<Rightarrow> False | Some b \<Rightarrow> b) in
      case parseDate h startDate of
        None \<Rightarrow> (failed ''Invalid start date'', [])
      | Some start \<Rightarrow>
          (case whenTruthy endDate (\<lambda>s. map_option Some (parseDate h s))
                  (Some (TimeClip (start + (if allDay then 24 * 60 * 60 * 1000
                                            else 60 * 60 * 1000)))) of
             None \<Rightarrow> (failed ''Invalid end date'', [])
           | Some end' \<Rightarrow>
               (let escapedSummary = escapeQuotes summary;
                    calendarTarget =
                      whenTruthy calendar (\<lambda>c. ''calendar "'' @ escapeQuotes c @ ''"'')
                        ''first calendar''
                in case runAppleScript exec
                          (scriptText (createEventScript calendarTarget escapedSummary
                             (formatDateForAppleScript h (Some start))
                             (formatDateForAppleScript h end')
                             allDay description location url)) of
                     (Inr i, log) \<Rightarrow> (succeeded (Some i), log)
                   | (Inl e, log) \<Rightarrow> (failed (message e), log))))\<close>

text \<open>
  \<^verbatim>\<open>
  let updateLines: string[] = [];
  if (summary !== undefined) { updateLines.push(`set summary of theEvent to "${...}"`); }
  if (description !== undefined) { ... }
  if (location !== undefined) { ... }
  if (startDate) {
    const date = parseDate(startDate);
    if (date) { updateLines.push(`set start date of theEvent to date "${...}"`); }
  }
  if (endDate) { ... }
  if (allDay !== undefined) { updateLines.push(`set allday event of theEvent to ${allDay}`); }
  if (updateLines.length === 0) { return { success: false, error: "No updates provided" }; }
  \<close>
\<close>

definition textLine :: "string \<Rightarrow> string option \<Rightarrow> string list" where
  \<open>textLine property v =
     (case v of
        None \<Rightarrow> []
      | Some s \<Rightarrow> [''set '' @ property @ '' of theEvent to "'' @ escapeQuotes s @ ''"''])\<close>

definition dateLine :: "host \<Rightarrow> string \<Rightarrow> string option \<Rightarrow> string list" where
  \<open>dateLine h property v =
     whenTruthy v
       (\<lambda>s. case parseDate h s of
               None \<Rightarrow> []
             | Some date \<Rightarrow>
                 [''set '' @ property @ '' of theEvent to date "''
                    @ formatDateForAppleScript h (Some date) @ ''"''])
       []\<close>

definition updateLines ::
  "host \<Rightarrow> string option \<Rightarrow> string option \<Rightarrow> string option \<Rightarrow> string option \<Rightarrow> string option
     \<Rightarrow> bool option \<Rightarrow> string list" where
  "updateLines h summary startDate endDate description location allDay =
     textLine ''summary'' summary
     @ textLine ''description'' description
     @ textLine ''location'' location
     @ dateLine h ''start date'' startDate
     @ dateLine h ''end date'' endDate
     @ (case allDay of
          None \<Rightarrow> []
        | Some b \<Rightarrow> [''set allday event of theEvent to '' @ showBool b])"

definition updateEvent ::
  "host \<Rightarrow> adapter \<Rightarrow> string \<Rightarrow> string \<Rightarrow> string option \<Rightarrow> string option \<Rightarrow> string option
     \<Rightarrow> string option \<Rightarrow> string option \<Rightarrow> bool option \<Rightarrow> opResult \<times> string list" where
  "updateEvent h exec eventId calendarName summary startDate endDate description location allDay =
     (let ls = updateLines h summary startDate endDate description location allDay in
      if length ls = 0 then (failed ''No updates provided'', [])
      else
        (case runAppleScript exec (scriptText (updateEventScript eventId calendarName ls)) of
           (Inr r, log) \<Rightarrow> (succeeded None, log)
         | (Inl e, log) \<Rightarrow> (failed (message e), log)))"

definition deleteEvent :: "adapter \<Rightarrow> string \<Rightarrow> string \<Rightarrow> opResult \<times> string list" where
  "deleteEvent exec eventId calendarName =
     (case runAppleScript exec (scriptText (deleteEventScript eventId calendarName)) of
        (Inr r, log) \<Rightarrow> (succeeded None, log)
      | (Inl e, log) \<Rightarrow> (failed (message e), log))"

subsection \<open>\<open>searchEvents\<close>, \<open>getTodayEvents\<close>, \<open>getUpcomingEvents\<close>\<close>

text \<open>
  \<^verbatim>\<open>
  const { calendar, limit = 50 } = options;
  const escapedQuery = query.toLowerCase().replace(/"/g, '\\"');
  const start = new Date();
  const end = new Date(Date.now() + 365 * 24 * 60 * 60 * 1000);
  const dateRange = getDateRange(start, end);
  \<close>
  \<open>toLowerCase\<close> folds the ASCII letters; a letter outside ASCII is left as it is.
  When the end of the window is past the last time value, its date is the invalid
  date.
\<close>

definition lowerChar :: "char \<Rightarrow> char" where
  "lowerChar c =
     (if 65 \<le> (of_char c :: nat) \<and> (of_char c :: nat) \<le> 90
      then char_of ((of_char c :: nat) + 32) else c)"

definition toLowerCase :: "string \<Rightarrow> string" where
  "toLowerCase s = map lowerChar s"

definition searchEvents ::
  "host \<Rightarrow> adapter \<Rightarrow> string \<Rightarrow> string option \<Rightarrow> int option
     \<Rightarrow> (error + calendarEvent list) \<times> string list" where
  "searchEvents h exec query calendar limit0 =
     (let limit = (case limit0 of None \<Rightarrow> 50 | Some n \<Rightarrow> n);
          escapedQuery = escapeQuotes (toLowerCase query);
          start = Some (now h);
          end' = TimeClip (now h + 365 * 24 * 60 * 60 * 1000);
          dateRange = getDateRange h start end'
      in case runAppleScriptJSON (parseEvents h) exec
                (scriptText (searchEventsScript escapedQuery calendar
                               (fst dateRange) (snd dateRange) limit)) of
           (Inl e, log) \<Rightarrow> (Inl e, log)
         | (Inr events, log) \<Rightarrow> (normalizeAndSort h events, log))"

text \<open>
  \<^verbatim>\<open>
  const today = new Date();  today.setHours(0, 0, 0, 0);
  const tomorrow = new Date(today);  tomorrow.setDate(tomorrow.getDate() + 1);
  return getEvents({ startDate: today.toISOString(), endDate: tomorrow.toISOString() });
  \<close>
\<close>

definition getTodayEvents :: "host \<Rightarrow> adapter \<Rightarrow> (error + calendarEvent list) \<times> string list" where
  "getTodayEvents h exec =
     (let today = TimeClip (setHours0 h (now h));
          tomorrow = Option.bind today (\<lambda>t. TimeClip (nextDate h t))
      in case toISOString today of
           Inl e \<Rightarrow> (Inl e, [])
         | Inr s \<Rightarrow>
             (case toISOString tomorrow of
                Inl e \<Rightarrow> (Inl e, [])
              | Inr t \<Rightarrow> getEvents h exec None (Some s) (Some t) None))"

text \<open>
  \<^verbatim>\<open>
  const now = new Date();
  const future = new Date(now.getTime() + days * 24 * 60 * 60 * 1000);
  return getEvents({ startDate: now.toISOString(), endDate: future.toISOString() });
  \<close>
\<close>

definition getUpcomingEvents ::
  "host \<Rightarrow> adapter \<Rightarrow> int \<Rightarrow> (error + calendarEvent list) \<times> string list" where
  "getUpcomingEvents h exec days =
     (let future = TimeClip (now h + days * 24 * 60 * 60 * 1000) in
      case toISOString (Some (now h)) of
        Inl e \<Rightarrow> (Inl e, [])
      | Inr s \<Rightarrow>
          (case toISOString future of
             Inl e \<Rightarrow> (Inl e, [])
           | Inr t \<Rightarrow> getEvents h exec None (Some s) (Some t) None))"

section \<open>The tool dispatcher\<close>

text \<open>
  The argument bag of a call, \<^verbatim>\<open>Record<string, any>\<close>, with every argument at the
  type its tool's \<^verbatim>\<open>inputSchema\<close> declares: a string, a boolean or a number (an
  integer here), \<open>None\<close> when the call does not give it.
\<close>

record args =
  arg_calendar :: "string option"
  arg_start_date :: "string option"
  arg_end_date :: "string option"
  arg_limit :: "int option"
  arg_summary :: "string option"
  arg_all_day :: "bool option"
  arg_description :: "string option"
  arg_location :: "string option"
  arg_url :: "string option"
  arg_event_id :: "string option"
  arg_query :: "string option"
  arg_days :: "int option"

definition noArgs :: args where
  "noArgs =
     \<lparr>arg_calendar = None, arg_start_date = None, arg_end_date = None, arg_limit = None,
      arg_summary = None, arg_all_day = None, arg_description = None, arg_location = None,
      arg_url = None, arg_event_id = None, arg_query = None, arg_days = None\<rparr>"

text \<open>The string argument of a given name (the names of the schemas).\<close>

definition stringArg :: "args \<Rightarrow> string \<Rightarrow> string option" where
  "stringArg a k =
     (if k = ''calendar'' then arg_calendar a
      else if k = ''start_date'' then arg_start_date a
      else if k = ''end_date'' then arg_end_date a
      else if k = ''summary'' then arg_summary a
      else if k = ''description'' then arg_description a
      else if k = ''location'' then arg_location a
      else if k = ''url'' then arg_url a
      else if k = ''event_id'' then arg_event_id a
      else if k = ''query'' then arg_query a
      else None)"

text \<open>
  The table \<^verbatim>\<open>tools\<close>: each tool's name with the \<^verbatim>\<open>required\<close> list of its
  \<^verbatim>\<open>inputSchema\<close> (descriptions and property types are left out).
\<close>

definition tools :: "(string \<times> string list) list" where
  "tools =
     [(''calendar_check_permissions'', []),
      (''calendar_get_calendars'', []),
      (''calendar_get_events'', []),
      (''calendar_create_event'', [''summary'', ''start_date'']),
      (''calendar_update_event'', [''event_id'', ''calendar'']),
      (''calendar_delete_event'', [''event_id'', ''calendar'']),
      (''calendar_search'', [''query'']),
      (''calendar_get_today'', []),
      (''calendar_get_upcoming'', [])]"

definition required :: "string \<Rightarrow> string list" where
  "required name = (case map_of tools name of None \<Rightarrow> [] | Some r \<Rightarrow> r)"

text \<open>The string of an argument that the validation has found truthy.\<close>

definition str :: "string option \<Rightarrow> string" where
  "str x = (case x of None \<Rightarrow> [] | Some s \<Rightarrow> s)"

definition eventsText :: "(error + calendarEvent list) \<times> string list \<Rightarrow> (error + string) \<times> string list" where
  "eventsText r =
     (case r of
        (Inl e, log) \<Rightarrow> (Inl e, log)
      | (Inr events, log) \<Rightarrow> (Inr (JSON_stringify (JArr (map eventJSON events))), log))"

definition resultText :: "opResult \<times> string list \<Rightarrow> (error + string) \<times> string list" where
  "resultText r = (case r of (result, log) \<Rightarrow> (Inr (JSON_stringify (resultJSON result)), log))"

text \<open>
  \<open>handleToolCall\<close>: the \<^verbatim>\<open>switch\<close> on the tool's name, case by case; a
  \<^verbatim>\<open>throw\<close> is \<open>Inl\<close>, the text returned is \<open>Inr\<close>.
\<close>

definition handleToolCall ::
  "host \<Rightarrow> adapter \<Rightarrow> string \<Rightarrow> args \<Rightarrow> (error + string) \<times> string list" where
  "handleToolCall h exec name a =
     (if name = ''calendar_check_permissions'' then
        (case checkPermissions exec of
           (status, log) \<Rightarrow> (Inr (JSON_stringify (statusJSON status)), log))
      else if name = ''calendar_get_calendars'' then
        (case getCalendars h exec of
           (Inl e, log) \<Rightarrow> (Inl e, log)
         | (Inr (Structured calendars), log) \<Rightarrow>
             (Inr (JSON_stringify (JArr (map calendarJSON calendars))), log)
         | (Inr (Opaque s), log) \<Rightarrow> (Inr (JSON_stringify (JStr s)), log))
      else if name = ''calendar_get_events'' then
        eventsText (getEvents h exec (arg_calendar a) (arg_start_date a) (arg_end_date a)
                      (arg_limit a))
      else if name = ''calendar_create_event'' then
        (if \<not> truthy (arg_summary a) \<or> \<not> truthy (arg_start_date a) then
           (Inl (Error ''summary and start_date are required''), [])
         else
           resultText (createEvent h exec (str (arg_summary a)) (str (arg_start_date a))
                         (arg_end_date a) (arg_all_day a) (arg_calendar a) (arg_description a)
                         (arg_location a) (arg_url a)))
      else if name = ''calendar_update_event'' then
        (if \<not> truthy (arg_event_id a) \<or> \<not> truthy (arg_calendar a) then
           (Inl (Error ''event_id and calendar are required''), [])
         else
           resultText (updateEvent h exec (str (arg_event_id a)) (str (arg_calendar a))
                         (arg_summary a) (arg_start_date a) (arg_end_date a)
                         (arg_description a) (arg_location a) (arg_all_day a)))
      else if name = ''calendar_delete_event'' then
        (if \<not> truthy (arg_event_id a) \<or> \<not> truthy (arg_calendar a) then
           (Inl (Error ''event_id and calendar are required''), [])
         else
           resultText (deleteEvent exec (str (arg_event_id a)) (str (arg_calendar a))))
      else if name = ''calendar_search'' then
        (if \<not> truthy (arg_query a) then (Inl (Error ''query is required''), [])
         else
           eventsText (searchEvents h exec (str (arg_query a)) (arg_calendar a) (arg_limit a)))
      else if name = ''calendar_get_today'' then
        eventsText (getTodayEvents h exec)
      else if name = ''calendar_get_upcoming'' then
        eventsText (getUpcomingEvents h exec
                      (case arg_days a of None \<Rightarrow> 7 | Some d \<Rightarrow> if d = 0 then 7 else d))
      else (Inl (Error (''Unknown tool: '' @ name)), []))"

text \<open>
  The handler that \<^verbatim>\<open>main\<close> registers for \<^verbatim>\<open>CallToolRequestSchema\<close>:
  \<^verbatim>\<open>
  const { name, arguments: args } = request.params;
  try {
    const result = await handleToolCall(name, args || {});
    return { content: [{ type: "text", text: result }] };
  } catch (error: any) {
    return { content: [{ type: "text", text: `Error: ${error.message}` }], isError: true };
  }
  \<close>
  The envelope's \<open>isError\<close> is \<open>None\<close> when the object has no such member.
\<close>

record contentItem =
  item_type :: string
  item_text :: string

record envelope =
  content :: "contentItem list"
  isError :: "bool option"

definition callTool :: "host \<Rightarrow> adapter \<Rightarrow> string \<Rightarrow> args option \<Rightarrow> envelope \<times> string list" where
  "callTool h exec name arguments =
     (case handleToolCall h exec name (case arguments of None \<Rightarrow> noArgs | Some a \<Rightarrow> a) of
        (Inr result, log) \<Rightarrow>
          (\<lparr>content = [\<lparr>item_type = ''text'', item_text = result\<rparr>], isError = None\<rparr>, log)
      | (Inl error, log) \<Rightarrow>
          (\<lparr>content = [\<lparr>item_type = ''text'', item_text = ''Error: '' @ message error\<rparr>],
            isError = Some True\<rparr>,
           log))"

section \<open>String literals of the script language\<close>

text \<open>
  What a double-quoted literal of AppleScript denotes, as a function of the text
  between its quotes. A backslash escapes the character after it: \<^verbatim>\<open>\"\<close> is a
  double quote, \<^verbatim>\<open>\\\<close> a backslash, \<^verbatim>\<open>\n\<close>, \<^verbatim>\<open>\r\<close> and \<^verbatim>\<open>\t\<close> a line feed, a
  carriage return and a tab; every other character, a line break included, stands
  for itself. The text is not the inside of one literal (\<open>None\<close>) when it has a
  double quote that no backslash escapes, which would end the literal there, a
  backslash before another character, or a backslash at its end, which would
  escape the closing quote.
\<close>

definition unescape :: "char \<Rightarrow> char option" where
  "unescape c =
     (if c = dq then Some dq
      else if c = bs then Some bs
      else if c = CHR ''n'' then Some (CHR 0x0A)
      else if c = CHR ''r'' then Some (CHR 0x0D)
      else if c = CHR ''t'' then Some (CHR 0x09)
      else None)"

fun literalValue :: "string \<Rightarrow> string option" where
  "literalValue [] = Some []"
| "literalValue [c] = (if c = dq \<or> c = bs then None else Some [c])"
| "literalValue (c # e # r) =
     (if c = dq then None
      else if c = bs then
        (case unescape e of
           None \<Rightarrow> None
         | Some x \<Rightarrow> map_option ((#) x) (literalValue r))
      else map_option ((#) c) (literalValue (e # r)))"

text \<open>
  The start instant of an item of an event list: the time value the comparator
  reads from it, \<^verbatim>\<open>new Date(a.startDate).getTime()\<close>; \<open>None\<close> when the start field
  is not a date.
\<close>

definition startInstant :: "host \<Rightarrow> calendarEvent \<Rightarrow> int option" where
  "startInstant h e = newDate h (ev_startDate e)"

section \<open>A concrete host\<close>

subsection \<open>The sort of V8\<close>

text \<open>
  The program runs on Node, whose \<^verbatim>\<open>Array.prototype.sort\<close> is V8's
  (\<^verbatim>\<open>third_party/v8/builtins/array-sort.tq\<close>). The result of the comparator goes
  through \<^verbatim>\<open>ToNumber\<close>, and \<^verbatim>\<open>NaN\<close> counts as \<open>0\<close> (\<open>order\<close>). An array of fewer
  than 64 elements is sorted in two steps:
  \<^item> \<^verbatim>\<open>CountAndMakeRun\<close> takes the longest run at the start of the array, descending
    when the second element compares below the first (each element below the one
    before it) and ascending otherwise (no element below the one before it), and
    reverses a descending run;
  \<^item> \<^verbatim>\<open>BinaryInsertionSort\<close> inserts every later element, from left to right, into
    the sorted part before it, at the place a binary search finds: with
    \<^verbatim>\<open>mid = left + ((right - left) >> 1)\<close>, the search goes on in the left half
    when the element compares below the one at \<^verbatim>\<open>mid\<close>, and to the right of \<^verbatim>\<open>mid\<close>
    otherwise.

  A longer array is cut into runs that are sorted in this way and then merged;
  \<open>v8Sort\<close> is V8's sort on the arrays of fewer than 64 elements, and the same two
  steps on a longer one.
\<close>

definition order :: "int option \<Rightarrow> int" where
  "order v = (case v of None \<Rightarrow> 0 | Some n \<Rightarrow> n)"

fun runLength :: "('a \<Rightarrow> 'a \<Rightarrow> int option) \<Rightarrow> bool \<Rightarrow> 'a \<Rightarrow> 'a list \<Rightarrow> nat" where
  "runLength cmp isDescending previousElement [] = 0"
| "runLength cmp isDescending previousElement (currentElement # r) =
     (if (if isDescending then 0 \<le> order (cmp currentElement previousElement)
          else order (cmp currentElement previousElement) < 0)
      then 0
      else Suc (runLength cmp isDescending currentElement r))"

text \<open>The run at the start of the array, made ascending, and the rest of the array.\<close>

definition CountAndMakeRun :: "('a \<Rightarrow> 'a \<Rightarrow> int option) \<Rightarrow> 'a list \<Rightarrow> 'a list \<times> 'a list" where
  "CountAndMakeRun cmp xs =
     (case xs of
        elementHigh # elementLow # r \<Rightarrow>
          (let isDescending = order (cmp elementLow elementHigh) < 0;
               n = 2 + runLength cmp isDescending elementLow r
           in (if isDescending then rev (take n xs) else take n xs, drop n xs))
      | _ \<Rightarrow> (xs, []))"

function binarySearch ::
  "('a \<Rightarrow> 'a \<Rightarrow> int option) \<Rightarrow> 'a \<Rightarrow> 'a list \<Rightarrow> nat \<Rightarrow> nat \<Rightarrow> nat" where
  "binarySearch cmp pivot xs left right =
     (if left < right then
        (if order (cmp pivot (xs ! (left + (right - left) div 2))) < 0
         then binarySearch cmp pivot xs left (left + (right - left) div 2)
         else binarySearch cmp pivot xs (left + (right - left) div 2 + 1) right)
      else left)"
  by pat_completeness auto

termination
  by (relation "measure (\<lambda>(cmp, pivot, xs, left, right). right - left)") auto

definition insertPivot :: "('a \<Rightarrow> 'a \<Rightarrow> int option) \<Rightarrow> 'a list \<Rightarrow> 'a \<Rightarrow> 'a list" where
  "insertPivot cmp xs pivot =
     (let left = binarySearch cmp pivot xs 0 (length xs)
      in take left xs @ pivot # drop left xs)"

definition BinaryInsertionSort :: "('a \<Rightarrow> 'a \<Rightarrow> int option) \<Rightarrow> 'a list \<Rightarrow> 'a list \<Rightarrow> 'a list" where
  "BinaryInsertionSort cmp run rest = foldl (insertPivot cmp) run rest"

definition v8Sort :: "('a \<Rightarrow> 'a \<Rightarrow> int option) \<Rightarrow> 'a list \<Rightarrow> 'a list" where
  "v8Sort cmp xs =
     (case CountAndMakeRun cmp xs of (run, rest) \<Rightarrow> BinaryInsertionSort cmp run rest)"

subsection \<open>The host\<close>

text \<open>An event with a given id and start, every other field empty.\<close>

definition sampleEvent :: "string \<Rightarrow> string \<Rightarrow> calendarEvent" where
  "sampleEvent i start =
     \<lparr>ev_id = i, ev_summary = [], ev_description = [], ev_location = [],
      ev_startDate = start, ev_endDate = [], ev_allDay = False, ev_calendar = [],
      ev_url = [], ev_status = []\<rparr>"

text \<open>
  A text as the scripts of \<open>getEvents\<close> and \<open>searchEvents\<close> print it, for three
  events: \<open>b\<close> starts on January 16, \<open>x\<close> has no start date, \<open>a\<close> starts on January 15.
\<close>

definition sampleOutput :: string where
  \<open>sampleOutput =
     ''[{"id":"b","summary":"","description":"","location":"",''
     @ ''"startDate":"2025-01-16T09:00:00","endDate":"","allDay":false,''
     @ ''"calendar":"","url":"","status":""},''
     @ ''{"id":"x","summary":"","description":"","location":"",''
     @ ''"startDate":"missing value","endDate":"","allDay":false,''
     @ ''"calendar":"","url":"","status":""},''
     @ ''{"id":"a","summary":"","description":"","location":"",''
     @ ''"startDate":"2025-01-15T09:00:00","endDate":"","allDay":false,''
     @ ''"calendar":"","url":"","status":""}]''\<close>

definition sampleEvents :: "calendarEvent list" where
  "sampleEvents =
     [sampleEvent ''b'' ''2025-01-16T09:00:00'', sampleEvent ''x'' ''missing value'',
      sampleEvent ''a'' ''2025-01-15T09:00:00'']"

text \<open>
  A host to run the model on: the clock stands at 2025-01-15T10:00:00Z, local time
  is UTC, \<open>Date.parse\<close> knows the standard format only, every date is formatted
  as the same sample text, \<open>JSON.parse\<close> decodes \<open>sampleOutput\<close> (to \<open>sampleEvents\<close>)
  and no other text, and the sort is \<open>v8Sort\<close>.
\<close>

definition utcHost :: host where
  "utcHost =
     \<lparr>now = 1736935200000,
      localTZA = (\<lambda>t. 0),
      legacyParse = (\<lambda>s. None),
      localeString = (\<lambda>t. ''January 15, 2025 at 10:00:00 AM''),
      setHours0 = (\<lambda>t. t - t mod 86400000),
      nextDate = (\<lambda>t. t + 86400000),
      parseEvents = (\<lambda>s. if s = sampleOutput then Some sampleEvents else None),
      parseCalendars = (\<lambda>s. None),
      sortEvents = v8Sort\<rparr>"

section \<open>Properties\<close>

subsection \<open>Strings and the adapter\<close>

lemma startsWith_iff: "startsWith s p \<longleftrightarrow> (\<exists>r. s = p @ r)"
  by (induction s p rule: startsWith.induct) auto

lemma includes_iff: "str_includes s p \<longleftrightarrow> (\<exists>a b. s = a @ p @ b)"
proof (induction s)
  case Nil
  then show ?case by simp
next
  case (Cons c cs)
  have "(\<exists>a b. c # cs = a @ p @ b) \<longleftrightarrow>
        (\<exists>b. c # cs = p @ b) \<or> (\<exists>a b. cs = a @ p @ b)"
  proof
    assume "\<exists>a b. c # cs = a @ p @ b"
    then obtain a b where ab: "c # cs = a @ p @ b" by blast
    show "(\<exists>b. c # cs = p @ b) \<or> (\<exists>a b. cs = a @ p @ b)"
    proof (cases a)
      case Nil
      with ab show ?thesis by auto
    next
      case (Cons x a')
      with ab have "cs = a' @ p @ b" by simp
      then show ?thesis by blast
    qed
  next
    assume "(\<exists>b. c # cs = p @ b) \<or> (\<exists>a b. cs = a @ p @ b)"
    then show "\<exists>a b. c # cs = a @ p @ b"
    proof
      assume "\<exists>b. c # cs = p @ b"
      then obtain b where "c # cs = [] @ p @ b" by auto
      then show ?thesis by blast
    next
      assume "\<exists>a b. cs = a @ p @ b"
      then obtain a b where "c # cs = (c # a) @ p @ b" by auto
      then show ?thesis by blast
    qed
  qed
  with Cons show ?case by (simp add: startsWith_iff)
qed

lemma runAppleScript_log: "snd (runAppleScript exec script) = [osascript script]"
  by (simp add: runAppleScript_def)

lemma runAppleScript_fails:
  "exec (osascript script) = Inl m \<Longrightarrow>
   fst (runAppleScript exec script) =
     Inl (Error (if str_includes m ''Not authorized'' then accessDenied else m))"
  by (simp add: runAppleScript_def)

subsection \<open>Dates written and read back\<close>

text \<open>
  \<open>isoString\<close> and \<open>isoTime\<close> are inverse on the time values of \<^verbatim>\<open>Date\<close>: the text
  that \<open>toISOString\<close> writes for a valid date is read back by \<open>new Date\<close> as the
  same time value, on every host.
\<close>

lemma newDate_range:
  "newDate h s = Some t \<Longrightarrow> - 8640000000000000 \<le> t \<and> t \<le> 8640000000000000"
  by (cases "Date_parse h s") (auto simp: newDate_def TimeClip_def split: if_splits)


subsubsection \<open>Digits\<close>

lemma digitChar_digit:
  assumes "0 \<le> d" and "d < 10"
  shows "isDigit (digitChar d) \<and> digitVal (digitChar d) = d"
proof -
  from assms have "d = 0 \<or> d = 1 \<or> d = 2 \<or> d = 3 \<or> d = 4 \<or> d = 5 \<or> d = 6 \<or> d = 7
      \<or> d = 8 \<or> d = 9"
    by presburger
  then show ?thesis
    by (elim disjE) (simp_all add: digitChar_def isDigit_def digitVal_def)
qed

lemma length_pad: "length (pad k n) = k"
  by (induction k arbitrary: n) simp_all

lemma pad_digits: "0 \<le> n \<Longrightarrow> list_all isDigit (pad k n)"
proof (induction k arbitrary: n)
  case 0
  then show ?case by simp
next
  case (Suc k)
  from Suc.prems have "0 \<le> n div 10" "0 \<le> n mod 10" "n mod 10 < 10"
    by simp_all
  with Suc.IH [of "n div 10"] digitChar_digit [of "n mod 10"] show ?case
    by simp
qed

lemma digitsVal_snoc: "digitsVal (xs @ [c]) = 10 * digitsVal xs + digitVal c"
  by (simp add: digitsVal_def)

lemma digitsVal_pad: "0 \<le> n \<Longrightarrow> n < 10 ^ k \<Longrightarrow> digitsVal (pad k n) = n"
proof (induction k arbitrary: n)
  case 0
  then show ?case by (simp add: digitsVal_def)
next
  case (Suc k)
  from Suc.prems have d: "0 \<le> n div 10" "n div 10 < 10 ^ k" "0 \<le> n mod 10" "n mod 10 < 10"
    by simp_all
  have "digitsVal (pad (Suc k) n) = 10 * digitsVal (pad k (n div 10)) + digitVal (digitChar (n mod 10))"
    by (simp add: digitsVal_snoc)
  also have "\<dots> = 10 * (n div 10) + n mod 10"
    using Suc.IH [OF d(1,2)] digitChar_digit [OF d(3,4)] by simp
  also have "\<dots> = n"
    by simp
  finally show ?case .
qed

lemma fixedNum_pad:
  assumes "0 \<le> n" and "n < 10 ^ k"
  shows "fixedNum k (pad k n @ r) = Some (n, r)"
  using assms by (simp add: fixedNum_def length_pad pad_digits digitsVal_pad)

lemma pad_Cons:
  assumes "0 \<le> n"
  shows "\<exists>c cs. pad (Suc k) n = c # cs \<and> isDigit c"
proof -
  have "length (pad (Suc k) n) = Suc k"
    by (rule length_pad)
  then obtain c cs where c: "pad (Suc k) n = c # cs"
    by (cases "pad (Suc k) n") auto
  have "list_all isDigit (pad (Suc k) n)"
    using assms by (rule pad_digits)
  then have "isDigit c"
    unfolding c by simp
  with c show ?thesis by blast
qed

subsubsection \<open>Years\<close>

lemma div_bounds:
  fixes x k :: int
  assumes "0 < k"
  shows "k * (x div k) \<le> x" and "x < k * (x div k) + k"
proof -
  have "x = k * (x div k) + x mod k"
    by simp
  moreover have "0 \<le> x mod k" "x mod k < k"
    using assms by simp_all
  ultimately show "k * (x div k) \<le> x" and "x < k * (x div k) + k"
    by linarith+
qed

lemma DayFromYear_bounds:
  "400 * DayFromYear y \<le> 146097 * (y - 1970) + 589"
  "146097 * (y - 1970) - 506 \<le> 400 * DayFromYear y"
proof -
  define a where "a = (y - 1969) div 4"
  define b where "b = (y - 1901) div 100"
  define c where "c = (y - 1601) div 400"
  have a: "4 * a \<le> y - 1969" "y - 1969 < 4 * a + 4"
    unfolding a_def by (rule div_bounds; simp)+
  have b: "100 * b \<le> y - 1901" "y - 1901 < 100 * b + 100"
    unfolding b_def by (rule div_bounds; simp)+
  have c: "400 * c \<le> y - 1601" "y - 1601 < 400 * c + 400"
    unfolding c_def by (rule div_bounds; simp)+
  have d: "DayFromYear y = 365 * (y - 1970) + a - b + c"
    by (simp add: DayFromYear_def a_def b_def c_def)
  show "400 * DayFromYear y \<le> 146097 * (y - 1970) + 589"
    unfolding d using a b c by (simp add: algebra_simps)
  show "146097 * (y - 1970) - 506 \<le> 400 * DayFromYear y"
    unfolding d using a b c by (simp add: algebra_simps)
qed

lemma YearFromDay_correct:
  "DayFromYear (YearFromDay d) \<le> d \<and> d < DayFromYear (YearFromDay d + 1)"
proof -
  define q where "q = (d * 400) div 146097"
  have q: "146097 * q \<le> d * 400" "d * 400 < 146097 * q + 146097"
    unfolding q_def by (rule div_bounds; simp)+
  define lo where "lo = DayFromYear (q + 1969)"
  define mid where "mid = DayFromYear (q + 1970)"
  define up where "up = DayFromYear (q + 1971)"
  define hi where "hi = DayFromYear (q + 1972)"
  have 1: "lo \<le> d"
    using DayFromYear_bounds(1) [of "q + 1969"] q unfolding lo_def by (simp add: algebra_simps)
  have 2: "d < hi"
    using DayFromYear_bounds(2) [of "q + 1972"] q unfolding hi_def by (simp add: algebra_simps)
  have y: "YearFromDay d = (if up \<le> d then q + 1971 else if d < mid then q + 1969 else q + 1970)"
    by (simp add: YearFromDay_def Let_def q_def up_def mid_def algebra_simps)
  show ?thesis
    unfolding y using 1 2
    by (simp add: lo_def mid_def up_def hi_def algebra_simps)
qed

lemma YearFromDay_range:
  assumes "- 100000000 \<le> d" and "d \<le> 100000000"
  shows "- 271822 < YearFromDay d \<and> YearFromDay d < 275761"
proof -
  define y where "y = YearFromDay d"
  define lo where "lo = DayFromYear y"
  define hi where "hi = DayFromYear (y + 1)"
  have "lo \<le> d" "d < hi"
    using YearFromDay_correct [of d] by (simp_all add: lo_def hi_def y_def)
  moreover have "146097 * (y - 1970) - 506 \<le> 400 * lo" "400 * hi \<le> 146097 * (y + 1 - 1970) + 589"
    unfolding lo_def hi_def by (rule DayFromYear_bounds)+
  ultimately show ?thesis
    unfolding y_def [symmetric] using assms by (simp add: algebra_simps)
qed

lemma div_step:
  fixes x k :: int
  assumes "1 < k"
  shows "(x + 1) div k = x div k + (if (x + 1) mod k = 0 then 1 else 0)"
proof -
  define z where "z = (x + 1) div k - x div k"
  have kp: "0 < k" using assms by simp
  have e: "x + 1 = k * ((x + 1) div k) + (x + 1) mod k" "x = k * (x div k) + x mod k"
    by simp_all
  have r: "0 \<le> (x + 1) mod k" "(x + 1) mod k < k" "0 \<le> x mod k" "x mod k < k"
    using assms by simp_all
  have kz: "k * z = x mod k + 1 - (x + 1) mod k"
    using e unfolding z_def by (simp add: algebra_simps)
  have "z = (if (x + 1) mod k = 0 then 1 else 0)"
  proof (cases "(x + 1) mod k = 0")
    case True
    with kz r have "k * 0 < k * z" "k * z \<le> k * 1"
      by simp_all
    then have "0 < z" "z \<le> 1"
      using mult_less_cancel_left_pos [OF kp, of 0 z] mult_le_cancel_left_pos [OF kp, of z 1]
      by blast+
    with True show ?thesis by simp
  next
    case False
    with r(1) have p: "0 < (x + 1) mod k" by linarith
    have "- k < x mod k + 1 - (x + 1) mod k" "x mod k + 1 - (x + 1) mod k < k"
      using r p by linarith+
    with kz have "k * (- 1) < k * z" "k * z < k * 1"
      by simp_all
    then have "- 1 < z" "z < 1"
      using mult_less_cancel_left_pos [OF kp, of "- 1" z] mult_less_cancel_left_pos [OF kp, of z 1]
      by blast+
    with False show ?thesis by simp
  qed
  then show ?thesis
    unfolding z_def by simp
qed

lemma mod_shift:
  fixes y :: int
  shows "(y - 1968) mod 4 = y mod 4" "(y - 1900) mod 100 = y mod 100"
    "(y - 1600) mod 400 = y mod 400"
proof -
  have "(y - 1968) mod 4 = (y + 4 * (- 492)) mod 4" by simp
  also have "\<dots> = y mod 4" by (rule mod_mult_self2)
  finally show "(y - 1968) mod 4 = y mod 4" .
  have "(y - 1900) mod 100 = (y + 100 * (- 19)) mod 100" by simp
  also have "\<dots> = y mod 100" by (rule mod_mult_self2)
  finally show "(y - 1900) mod 100 = y mod 100" .
  have "(y - 1600) mod 400 = (y + 400 * (- 4)) mod 400" by simp
  also have "\<dots> = y mod 400" by (rule mod_mult_self2)
  finally show "(y - 1600) mod 400 = y mod 400" .
qed

lemma mod_chain:
  fixes y :: int
  shows "y mod 400 = 0 \<Longrightarrow> y mod 100 = 0" and "y mod 100 = 0 \<Longrightarrow> y mod 4 = 0"
proof -
  assume "y mod 400 = 0"
  then have "400 dvd y" by (simp add: dvd_eq_mod_eq_0)
  moreover have "(100::int) dvd 400" by simp
  ultimately have "100 dvd y" by (rule dvd_trans [rotated])
  then show "y mod 100 = 0" by (simp add: dvd_eq_mod_eq_0)
next
  assume "y mod 100 = 0"
  then have "100 dvd y" by (simp add: dvd_eq_mod_eq_0)
  moreover have "(4::int) dvd 100" by simp
  ultimately have "4 dvd y" by (rule dvd_trans [rotated])
  then show "y mod 4 = 0" by (simp add: dvd_eq_mod_eq_0)
qed

lemma DaysInYear:
  "DayFromYear (y + 1) - DayFromYear y = (if InLeapYear y then 366 else 365)"
proof -
  define p4 where "p4 \<longleftrightarrow> y mod 4 = 0"
  define p100 where "p100 \<longleftrightarrow> y mod 100 = 0"
  define p400 where "p400 \<longleftrightarrow> y mod 400 = 0"
  define A where "A = (y - 1969) div 4"
  define B where "B = (y - 1901) div 100"
  define C where "C = (y - 1601) div 400"
  have a: "(y - 1968) div 4 = A + (if p4 then 1 else 0)"
    using div_step [of 4 "y - 1969"] mod_shift(1) [of y] by (simp add: A_def p4_def)
  have b: "(y - 1900) div 100 = B + (if p100 then 1 else 0)"
    using div_step [of 100 "y - 1901"] mod_shift(2) [of y] by (simp add: B_def p100_def)
  have c: "(y - 1600) div 400 = C + (if p400 then 1 else 0)"
    using div_step [of 400 "y - 1601"] mod_shift(3) [of y] by (simp add: C_def p400_def)
  have m: "p400 \<Longrightarrow> p100" "p100 \<Longrightarrow> p4"
    using mod_chain [of y] by (simp_all add: p4_def p100_def p400_def)
  have l: "InLeapYear y \<longleftrightarrow> p4 \<and> (\<not> p100 \<or> p400)"
    by (simp add: InLeapYear_def p4_def p100_def p400_def)
  have 1: "DayFromYear (y + 1) =
      365 * (y - 1969) + (A + (if p4 then 1 else 0)) - (B + (if p100 then 1 else 0))
        + (C + (if p400 then 1 else 0))"
    using a b c by (simp add: DayFromYear_def)
  have 0: "DayFromYear y = 365 * (y - 1970) + A - B + C"
    by (simp add: DayFromYear_def A_def B_def C_def)
  show ?thesis
    unfolding 0 1 l using m
    by (cases p4; cases p100; cases p400) simp_all
qed

subsubsection \<open>Months\<close>

lemma DaysInMonth_bounds: "28 \<le> DaysInMonth y m" "DaysInMonth y m \<le> 31"
  by (simp_all add: DaysInMonth_def)

lemma DaysBeforeMonth_mono: "i \<le> j \<Longrightarrow> DaysBeforeMonth y i \<le> DaysBeforeMonth y j"
proof (induction j)
  case 0
  then show ?case by simp
next
  case (Suc j)
  show ?case
  proof (cases "i = Suc j")
    case True
    then show ?thesis by simp
  next
    case False
    with Suc.prems have "i \<le> j" by simp
    from Suc.IH [OF this] DaysInMonth_bounds(1) [of y "int (Suc j)"] show ?thesis
      by simp
  qed
qed

lemma DaysBeforeMonth_numeral:
  "DaysBeforeMonth y (numeral k) =
     DaysBeforeMonth y (pred_numeral k) + DaysInMonth y (numeral k)"
proof -
  have "int (Suc (pred_numeral k)) = int (numeral k)"
    by (simp only: numeral_eq_Suc)
  then have i: "int (Suc (pred_numeral k)) = numeral k"
    by simp
  have "DaysBeforeMonth y (numeral k) = DaysBeforeMonth y (Suc (pred_numeral k))"
    by (simp only: numeral_eq_Suc)
  also have "\<dots> = DaysBeforeMonth y (pred_numeral k) + DaysInMonth y (int (Suc (pred_numeral k)))"
    by (simp only: DaysBeforeMonth.simps)
  finally show ?thesis
    by (simp only: i)
qed

lemma DaysBeforeMonth_12: "DaysBeforeMonth y 12 = (if InLeapYear y then 366 else 365)"
  by (simp add: DaysBeforeMonth_numeral DaysInMonth_def)

lemma count_prefix:
  assumes anti: "\<And>i j. i \<le> j \<Longrightarrow> P j \<Longrightarrow> P i"
  shows "(\<forall>j. a \<le> j \<and> j < a + length (filter P [a..<b]) \<longrightarrow> P j)
       \<and> (a + length (filter P [a..<b]) < b \<longrightarrow> \<not> P (a + length (filter P [a..<b])))"
proof (induction "b - a" arbitrary: a)
  case 0
  then have e: "[a..<b] = []" by simp
  have "length (filter P [a..<b]) = 0" unfolding e by simp
  moreover have "\<not> a < b" using 0 by simp
  ultimately show ?case by auto
next
  case (Suc n)
  define L where "L = length (filter P [a..<b])"
  define L' where "L' = length (filter P [Suc a..<b])"
  from Suc.hyps(2) have ab: "a < b" and n: "n = b - Suc a"
    by simp_all
  have u: "[a..<b] = a # [Suc a..<b]"
    using ab by (rule upt_conv_Cons)
  have ih1: "P j" if "Suc a \<le> j" "j < Suc a + L'" for j
    using Suc.hyps(1) [OF n] that unfolding L'_def by blast
  have ih2: "\<not> P (Suc a + L')" if "Suc a + L' < b"
    using Suc.hyps(1) [OF n] that unfolding L'_def by blast
  have "(\<forall>j. a \<le> j \<and> j < a + L \<longrightarrow> P j) \<and> (a + L < b \<longrightarrow> \<not> P (a + L))"
  proof (cases "P a")
    case True
    then have l: "L = Suc L'"
      by (simp add: L_def L'_def u)
    have "P j" if "a \<le> j" "j < a + L" for j
    proof (cases "j = a")
      case True
      with \<open>P a\<close> show ?thesis by simp
    next
      case False
      with that l have "Suc a \<le> j" "j < Suc a + L'"
        by simp_all
      then show ?thesis by (rule ih1)
    qed
    moreover have "\<not> P (a + L)" if "a + L < b"
    proof -
      from that l have "Suc a + L' < b" by simp
      then have "\<not> P (Suc a + L')" by (rule ih2)
      with l show ?thesis by simp
    qed
    ultimately show ?thesis by simp
  next
    case False
    have "\<not> P j" if "a \<le> j" for j
    proof
      assume "P j"
      with that have "P a" by (rule anti)
      with False show False ..
    qed
    then have "filter P [Suc a..<b] = []"
      by (simp add: filter_empty_conv)
    with False have "L = 0"
      by (simp add: L_def u)
    with False show ?thesis by auto
  qed
  then show ?case
    unfolding L_def .
qed

lemma monthsBefore_correct:
  assumes "0 \<le> n" and "n < (if InLeapYear y then 366 else 365)"
  shows "monthsBefore y n \<le> 11
       \<and> DaysBeforeMonth y (monthsBefore y n) \<le> n
       \<and> n < DaysBeforeMonth y (Suc (monthsBefore y n))"
proof -
  define P where "P = (\<lambda>j. DaysBeforeMonth y j \<le> n)"
  define k where "k = monthsBefore y n"
  have k: "k = length (filter P [1..<12])"
    by (simp add: k_def monthsBefore_def P_def)
  have anti: "P i" if "i \<le> j" "P j" for i j
    using DaysBeforeMonth_mono [OF that(1), of y] that(2) by (simp add: P_def)
  from count_prefix [of P 1 12] anti
  have c: "\<forall>j. 1 \<le> j \<and> j < 1 + k \<longrightarrow> P j" "1 + k < 12 \<longrightarrow> \<not> P (1 + k)"
    unfolding k by blast+
  have "k \<le> length [1..<12::nat]"
    unfolding k by (rule length_filter_le)
  then have k11: "k \<le> 11" by simp
  have lo: "DaysBeforeMonth y k \<le> n"
  proof (cases "k = 0")
    case True
    with assms(1) show ?thesis by simp
  next
    case False
    with c(1) have "P k" by simp
    then show ?thesis by (simp add: P_def)
  qed
  have hi: "n < DaysBeforeMonth y (Suc k)"
  proof (cases "k = 11")
    case True
    then have "Suc k = 12" by simp
    with assms(2) DaysBeforeMonth_12 [of y] show ?thesis by simp
  next
    case False
    with k11 have "1 + k < 12" by simp
    with c(2) have "\<not> P (1 + k)" by blast
    then show ?thesis by (simp add: P_def)
  qed
  from k11 lo hi show ?thesis
    unfolding k_def by blast
qed

subsubsection \<open>The time within the day\<close>

lemma time_fields:
  assumes "0 \<le> ms" and "ms < 86400000"
  shows "MakeTime (ms div 3600000) (ms div 60000 mod 60) (ms div 1000 mod 60) (ms mod 1000) = ms"
    and "0 \<le> ms div 3600000" and "ms div 3600000 \<le> 23"
proof -
  define s where "s = ms div 1000"
  define m where "m = ms div 60000"
  define hh where "hh = ms div 3600000"
  have m: "m = s div 60"
    unfolding m_def s_def by (simp add: div_mult2_eq [symmetric])
  have hh: "hh = m div 60"
    unfolding hh_def m_def by (simp add: div_mult2_eq [symmetric])
  have 1: "ms = 1000 * s + ms mod 1000"
    unfolding s_def by simp
  have 2: "s = 60 * m + s mod 60"
    unfolding m by simp
  have 3: "m = 60 * hh + m mod 60"
    unfolding hh by simp
  have "MakeTime hh (m mod 60) (s mod 60) (ms mod 1000) = ms"
    unfolding MakeTime_def using 1 2 3 by (simp add: algebra_simps)
  then show "MakeTime (ms div 3600000) (ms div 60000 mod 60) (ms div 1000 mod 60) (ms mod 1000) = ms"
    by (simp add: hh_def m_def s_def)
  show "0 \<le> ms div 3600000"
    using assms(1) by simp
  have "3600000 * hh \<le> ms"
    unfolding hh_def by (rule div_bounds) simp
  with assms(2) have "3600000 * hh < 3600000 * 24"
    by simp
  then have "hh < 24"
    by simp
  then show "ms div 3600000 \<le> 23"
    by (simp add: hh_def)
qed

subsubsection \<open>Reading back what \<open>isoString\<close> writes\<close>

lemma optNum_sep: "optNum c k d (c # s) = fixedNum k s"
  by (simp add: optNum_def)

lemma expect_sep: "expect c (c # s) = Some s"
  by (simp add: expect_def)

lemma isDigit_not_sign: "isDigit c \<Longrightarrow> c \<noteq> CHR ''+'' \<and> c \<noteq> CHR ''-''"
  by (auto simp: isDigit_def)

lemma pad_head:
  assumes "0 \<le> n" and "0 < k"
  shows "\<exists>c cs. pad k n = c # cs \<and> isDigit c"
proof -
  from assms(2) obtain j where "k = Suc j"
    by (cases k) simp_all
  with pad_Cons [OF assms(1), of j] show ?thesis
    by simp
qed

lemma parseYear_isoYear:
  assumes "- 1000000 < y" and "y < 1000000"
  shows "parseYear (isoYear y @ r) = Some (y, r)"
proof -
  consider (four) "0 \<le> y" "y \<le> 9999" | (neg) "y < 0" | (big) "9999 < y"
    by linarith
  then show ?thesis
  proof cases
    case four
    then have i: "isoYear y = pad 4 y"
      by (simp add: isoYear_def)
    have "\<exists>c cs. pad 4 y = c # cs \<and> isDigit c"
      using four(1) by (rule pad_head) simp
    then obtain c cs where c: "pad 4 y = c # cs" "isDigit c"
      by blast
    from four have f: "fixedNum 4 (pad 4 y @ r) = Some (y, r)"
      by (intro fixedNum_pad) simp_all
    have "parseYear (pad 4 y @ r) = fixedNum 4 (pad 4 y @ r)"
      using isDigit_not_sign [OF c(2)] unfolding c(1) by (simp add: parseYear_def)
    with f i show ?thesis by simp
  next
    case neg
    then have i: "isoYear y = CHR ''-'' # pad 6 (- y)"
      by (simp add: isoYear_def)
    from neg assms have f: "fixedNum 6 (pad 6 (- y) @ r) = Some (- y, r)"
      by (intro fixedNum_pad) simp_all
    show ?thesis
      unfolding i using f neg by (simp add: parseYear_def)
  next
    case big
    then have i: "isoYear y = CHR ''+'' # pad 6 y"
      by (simp add: isoYear_def)
    from big assms have f: "fixedNum 6 (pad 6 y @ r) = Some (y, r)"
      by (intro fixedNum_pad) simp_all
    show ?thesis
      unfolding i using f by (simp add: parseYear_def)
  qed
qed

lemma parseSeconds_written:
  assumes "0 \<le> ss" "ss < 100" "0 \<le> ms" "ms < 1000"
  shows "parseSeconds (CHR '':'' # pad 2 ss @ CHR ''.'' # pad 3 ms @ r) = Some (ss, ms, r)"
proof -
  have 1: "fixedNum 2 (pad 2 ss @ CHR ''.'' # pad 3 ms @ r) = Some (ss, CHR ''.'' # pad 3 ms @ r)"
    using assms by (intro fixedNum_pad) simp_all
  have 2: "fixedNum 3 (pad 3 ms @ r) = Some (ms, r)"
    using assms by (intro fixedNum_pad) simp_all
  show ?thesis
    by (simp add: parseSeconds_def 1 optNum_sep 2)
qed

lemma parseOffset_Z: "parseOffset ''Z'' = Some (Some 0)"
  by (simp add: parseOffset_def)

text \<open>The time value of a written date-time with the offset \<open>Z\<close>.\<close>

lemma isoTime_written:
  assumes y: "- 1000000 < y" "y < 1000000"
    and m: "1 \<le> m" "m \<le> 12"
    and d: "1 \<le> d" "d \<le> DaysInMonth y m"
    and hh: "0 \<le> hh" "hh \<le> 23"
    and mm: "0 \<le> mm" "mm \<le> 59"
    and ss: "0 \<le> ss" "ss \<le> 59"
    and ms: "0 \<le> ms" "ms < 1000"
  shows "isoTime h (isoYear y @ CHR ''-'' # pad 2 m @ CHR ''-'' # pad 2 d @ CHR ''T'' # pad 2 hh
           @ CHR '':'' # pad 2 mm @ CHR '':'' # pad 2 ss @ CHR ''.'' # pad 3 ms @ ''Z'') =
         Some (MakeDay y m d * msPerDay + MakeTime hh mm ss ms)"
proof -
  let ?r5 = "CHR '':'' # pad 2 ss @ CHR ''.'' # pad 3 ms @ ''Z''"
  let ?r4 = "CHR '':'' # pad 2 mm @ ?r5"
  let ?r3 = "CHR ''T'' # pad 2 hh @ ?r4"
  let ?r2 = "CHR ''-'' # pad 2 d @ ?r3"
  let ?r1 = "CHR ''-'' # pad 2 m @ ?r2"
  have d31: "d \<le> 31"
    using d(2) DaysInMonth_bounds(2) [of y m] by linarith
  have 1: "parseYear (isoYear y @ ?r1) = Some (y, ?r1)"
    using y by (rule parseYear_isoYear)
  have 2: "optNum (CHR ''-'') 2 1 ?r1 = Some (m, ?r2)"
    unfolding optNum_sep using m by (intro fixedNum_pad) simp_all
  have 3: "optNum (CHR ''-'') 2 1 ?r2 = Some (d, ?r3)"
    unfolding optNum_sep using d(1) d31 by (intro fixedNum_pad) simp_all
  have 4: "fixedNum 2 (pad 2 hh @ ?r4) = Some (hh, ?r4)"
    using hh by (intro fixedNum_pad) simp_all
  have 5: "fixedNum 2 (pad 2 mm @ ?r5) = Some (mm, ?r5)"
    using mm by (intro fixedNum_pad) simp_all
  have 6: "parseSeconds ?r5 = Some (ss, ms, ''Z'')"
    using ss ms by (intro parseSeconds_written) simp_all
  show ?thesis
    unfolding isoTime_def
    by (simp add: 1 2 3 4 5 6 expect_sep parseOffset_Z m d hh mm ss ms)
qed

text \<open>
  The text that \<open>isoString\<close> writes: the year, month and day of the month, and the
  hours, minutes, seconds and milliseconds, of the civil date of \<open>t\<close> in UTC, in
  the form \<^verbatim>\<open>YYYY-MM-DDTHH:mm:ss.sssZ\<close>.
\<close>

lemma isoString_fields:
  assumes "\<bar>t\<bar> \<le> 8640000000000000"
  shows "\<exists>y m d hh mm ss ms.
     isoString t =
       isoYear y @ ''-'' @ pad 2 m @ ''-'' @ pad 2 d @ ''T'' @ pad 2 hh
         @ '':'' @ pad 2 mm @ '':'' @ pad 2 ss @ ''.'' @ pad 3 ms @ ''Z''
     \<and> - 1000000 < y \<and> y < 1000000 \<and> 1 \<le> m \<and> m \<le> 12 \<and> 1 \<le> d \<and> d \<le> DaysInMonth y m
     \<and> 0 \<le> hh \<and> hh \<le> 23 \<and> 0 \<le> mm \<and> mm \<le> 59 \<and> 0 \<le> ss \<and> ss \<le> 59
     \<and> 0 \<le> ms \<and> ms < 1000
     \<and> MakeDay y m d * msPerDay + MakeTime hh mm ss ms = t"
proof -
  define day where "day = t div msPerDay"
  define ms where "ms = t mod msPerDay"
  define y where "y = YearFromDay day"
  define n where "n = day - DayFromYear y"
  define k where "k = monthsBefore y n"
  define d where "d = n - DaysBeforeMonth y k + 1"
  define hh where "hh = ms div 3600000"
  define mm where "mm = ms div 60000 mod 60"
  define ss where "ss = ms div 1000 mod 60"
  define f where "f = ms mod 1000"
  have t: "t = day * msPerDay + ms"
    by (simp add: day_def ms_def)
  have ms: "0 \<le> ms" "ms < 86400000"
    by (simp_all add: ms_def msPerDay_def)
  have day: "- 100000000 \<le> day" "day \<le> 100000000"
  proof -
    have "86400000 * day \<le> t" "t < 86400000 * day + 86400000"
      unfolding day_def msPerDay_def by (rule div_bounds; simp)+
    with assms show "- 100000000 \<le> day" "day \<le> 100000000"
      by linarith+
  qed
  have y: "- 1000000 < y" "y < 1000000"
    using YearFromDay_range [OF day] by (simp_all add: y_def)
  have yd: "DayFromYear y \<le> day" "day < DayFromYear (y + 1)"
    using YearFromDay_correct [of day] by (simp_all add: y_def)
  have n: "0 \<le> n" "n < (if InLeapYear y then 366 else 365)"
    using yd DaysInYear [of y] by (simp_all add: n_def)
  from monthsBefore_correct [OF n]
  have k: "k \<le> 11" "DaysBeforeMonth y k \<le> n" "n < DaysBeforeMonth y (Suc k)"
    by (simp_all add: k_def)
  have m: "1 \<le> int k + 1" "int k + 1 \<le> 12"
    using k(1) by simp_all
  have d: "1 \<le> d" "d \<le> DaysInMonth y (int k + 1)"
    using k(2,3) by (simp_all add: d_def add.commute)
  have md: "MakeDay y (int k + 1) d = day"
    by (simp add: MakeDay_def d_def n_def)
  have tf: "MakeTime hh mm ss f = ms" "0 \<le> hh" "hh \<le> 23"
    unfolding hh_def mm_def ss_def f_def by (rule time_fields [OF ms])+
  have r: "0 \<le> mm" "mm \<le> 59" "0 \<le> ss" "ss \<le> 59" "0 \<le> f" "f < 1000"
    by (simp_all add: mm_def ss_def f_def)
  have s0: "isoString t =
      isoYear y @ ''-'' @ pad 2 (int k + 1) @ ''-'' @ pad 2 d @ ''T'' @ pad 2 hh
        @ '':'' @ pad 2 mm @ '':'' @ pad 2 ss @ ''.'' @ pad 3 f @ ''Z''"
    unfolding d_def k_def n_def y_def hh_def mm_def ss_def f_def day_def ms_def
    by (simp only: isoString_def Let_def)
  have v: "MakeDay y (int k + 1) d * msPerDay + MakeTime hh mm ss f = t"
    using md tf(1) t by simp
  show ?thesis
    apply (rule exI [of _ y], rule exI [of _ "int k + 1"], rule exI [of _ d])
    apply (rule exI [of _ hh], rule exI [of _ mm], rule exI [of _ ss], rule exI [of _ f])
    apply (intro conjI)
    apply (rule s0, rule y, rule y, rule m, rule m, rule d, rule d, rule tf, rule tf)
    apply (rule r, rule r, rule r, rule r, rule r, rule r, rule v)
    done
qed

lemma isoTime_isoString:
  assumes "\<bar>t\<bar> \<le> 8640000000000000"
  shows "isoTime h (isoString t) = Some t"
proof -
  from isoString_fields [OF assms] obtain y m d hh mm ss ms where
    s0: "isoString t =
       isoYear y @ ''-'' @ pad 2 m @ ''-'' @ pad 2 d @ ''T'' @ pad 2 hh
         @ '':'' @ pad 2 mm @ '':'' @ pad 2 ss @ ''.'' @ pad 3 ms @ ''Z''"
    and b: "- 1000000 < y" "y < 1000000" "1 \<le> m" "m \<le> 12" "1 \<le> d" "d \<le> DaysInMonth y m"
      "0 \<le> hh" "hh \<le> 23" "0 \<le> mm" "mm \<le> 59" "0 \<le> ss" "ss \<le> 59" "0 \<le> ms" "ms < 1000"
    and v: "MakeDay y m d * msPerDay + MakeTime hh mm ss ms = t"
    by blast
  have s: "isoString t =
      isoYear y @ CHR ''-'' # pad 2 m @ CHR ''-'' # pad 2 d @ CHR ''T'' # pad 2 hh
        @ CHR '':'' # pad 2 mm @ CHR '':'' # pad 2 ss @ CHR ''.'' # pad 3 ms @ ''Z''"
    unfolding s0 by simp
  have "isoTime h (isoString t) = Some (MakeDay y m d * msPerDay + MakeTime hh mm ss ms)"
    unfolding s using b by (rule isoTime_written)
  with v show ?thesis
    by simp
qed

lemma newDate_isoString:
  assumes "\<bar>t\<bar> \<le> 8640000000000000"
  shows "newDate h (isoString t) = Some t"
  using assms by (simp add: newDate_def Date_parse_def isoTime_isoString TimeClip_def)

subsection \<open>Escaping (C1)\<close>

lemma escapeQuotes_Cons:
  "escapeQuotes (c # cs) = (if c = dq then [bs, dq] else [c]) @ escapeQuotes cs"
  by (simp add: escapeQuotes_def replaceAll_def)

lemma escapeQuotes_Nil: "escapeQuotes [] = []"
  by (simp add: escapeQuotes_def replaceAll_def)

lemma bs_neq_dq: "bs \<noteq> dq"
  by (simp add: bs_def dq_def)

lemma literalValue_plain:
  "c \<noteq> dq \<Longrightarrow> c \<noteq> bs \<Longrightarrow> literalValue (c # r) = map_option ((#) c) (literalValue r)"
  by (cases r) simp_all

lemma literalValue_escaped_quote:
  "literalValue (bs # dq # r) = map_option ((#) dq) (literalValue r)"
  using bs_neq_dq by (simp add: unescape_def)

lemma escapeQuotes_denotes:
  "bs \<notin> set s \<Longrightarrow> literalValue (escapeQuotes s) = Some s"
proof (induction s)
  case Nil
  then show ?case by (simp add: escapeQuotes_Nil)
next
  case (Cons c cs)
  then have ih: "literalValue (escapeQuotes cs) = Some cs" and c: "c \<noteq> bs"
    by auto
  show ?case
  proof (cases "c = dq")
    case True
    then have "escapeQuotes (c # cs) = bs # dq # escapeQuotes cs"
      by (simp add: escapeQuotes_Cons)
    then have "literalValue (escapeQuotes (c # cs)) = map_option ((#) dq) (literalValue (escapeQuotes cs))"
      by (simp only: literalValue_escaped_quote)
    with ih True show ?thesis
      by simp
  next
    case False
    then have "escapeQuotes (c # cs) = c # escapeQuotes cs"
      by (simp add: escapeQuotes_Cons)
    then have "literalValue (escapeQuotes (c # cs)) = map_option ((#) c) (literalValue (escapeQuotes cs))"
      using literalValue_plain [OF False c] by simp
    with ih show ?thesis
      by simp
  qed
qed

text \<open>
  C1. The escaping that the program applies before it puts a value between the
  quotes of a script literal replaces double quotes only. A value with a backslash
  is not escaped. For the value that is one backslash, the text between the quotes
  is that backslash, which is not the inside of a literal (it escapes the closing
  quote). For a backslash followed by a double quote it is two backslashes and a
  double quote: an escaped backslash, and then the end of the literal. For a
  backslash followed by the letter n the literal denotes a line feed. The third
  line of the create script shows the literal for a summary of one backslash. (For
  a value with no backslash the literal denotes the value: \<open>escapeQuotes_denotes\<close>.)
\<close>

theorem escapeQuotes_backslash:
  \<open>escapeQuotes [bs] = [bs]
   \<and> literalValue (escapeQuotes [bs]) = None
   \<and> escapeQuotes [bs, dq] = [bs, bs, dq]
   \<and> literalValue (escapeQuotes [bs, dq]) = None
   \<and> literalValue (escapeQuotes [bs, CHR ''n'']) = Some [CHR 0x0A]
   \<and> createEventScript ''first calendar'' (escapeQuotes [bs]) ''S'' ''E'' False None None None ! 2 =
       ''      set newEvent to make new event at end of events of first calendar with properties {summary:"''
         @ [bs] @ ''", start date:date "S", end date:date "E", allday event:false}''\<close>
  by code_simp

subsection \<open>The calendar of \<open>getEvents\<close> (C2)\<close>

text \<open>
  C2. When \<open>getEvents\<close> is called with no calendar, its script does not select all
  calendars: the template prints the absent argument as the word \<^verbatim>\<open>undefined\<close>, so
  the test that should find the name empty compares \<^verbatim>\<open>"undefined"\<close> with \<^verbatim>\<open>""\<close>, and
  the branch taken selects the calendar named \<^verbatim>\<open>""\<close>. The script of \<open>searchEvents\<close>
  has the line that selects all calendars.
\<close>

theorem getEvents_absent_calendar:
  \<open>interpolate None = ''undefined''
   \<and> take 5 (drop 7 (getEventsScript None rangeStart rangeEnd limit)) =
       [''      if "undefined" is "" then'',
        ''        set targetCals to calendars'',
        ''      else'',
        ''        set targetCals to {calendar ""}'',
        ''      end if'']
   \<and> searchEventsScript escapedQuery None rangeStart rangeEnd limit ! 8 =
        ''      set targetCals to calendars''\<close>
  by (simp add: getEventsScript_def searchEventsScript_def interpolate_def whenTruthy_def)

subsection \<open>Event lists are normalised and sorted (C3)\<close>

lemma formatISODate_Inr: "\<exists>r. formatISODate h s = Inr r"
  by (simp add: formatISODate_def toISOString_def Let_def split: option.splits)

lemma normalizeEvent_Inr:
  "\<exists>s t. formatISODate h (ev_startDate e) = Inr s \<and> formatISODate h (ev_endDate e) = Inr t
     \<and> normalizeEvent h e = Inr (e\<lparr>ev_startDate := s, ev_endDate := t\<rparr>)"
proof -
  obtain s where s: "formatISODate h (ev_startDate e) = Inr s"
    using formatISODate_Inr by blast
  obtain t where t: "formatISODate h (ev_endDate e) = Inr t"
    using formatISODate_Inr by blast
  from s t show ?thesis by (simp add: normalizeEvent_def)
qed

lemma mapE_normalizeEvent:
  "\<exists>ns. mapE (normalizeEvent h) es = Inr ns \<and> length ns = length es
     \<and> (\<forall>i<length es. normalizeEvent h (es ! i) = Inr (ns ! i))"
proof (induction es)
  case Nil
  then show ?case by simp
next
  case (Cons e es)
  then obtain ns where ns: "mapE (normalizeEvent h) es = Inr ns" "length ns = length es"
    "\<forall>i<length es. normalizeEvent h (es ! i) = Inr (ns ! i)" by blast
  obtain n where n: "normalizeEvent h e = Inr n"
    using normalizeEvent_Inr by blast
  have "\<forall>i<length (e # es). normalizeEvent h ((e # es) ! i) = Inr ((n # ns) ! i)"
    using n ns(3) by (auto simp: nth_Cons split: nat.splits)
  with n ns show ?case by simp
qed

text \<open>
  The normaliser keeps the instant: the text it returns for a start field is read
  by the comparator as the instant of the field, and as no date when the field
  is none.
\<close>

lemma newDate_empty: "newDate h [] = None"
  by (simp add: newDate_def Date_parse_def isoTime_def parseYear_def)

lemma newDate_missing_value: "newDate h ''missing value'' = None"
  by (simp add: newDate_def Date_parse_def isoTime_def parseYear_def fixedNum_def isDigit_def)

lemma formatISODate_start:
  assumes "formatISODate h s = Inr r"
  shows "newDate h r = newDate h s"
proof (cases "s = [] \<or> s = ''missing value''")
  case True
  with assms have "r = []" by (auto simp: formatISODate_def)
  with True show ?thesis
    using newDate_empty [of h] newDate_missing_value [of h] by auto
next
  case False
  show ?thesis
  proof (cases "newDate h s")
    case None
    with False assms have "r = []" by (simp add: formatISODate_def)
    with None show ?thesis by (simp add: newDate_empty)
  next
    case (Some t)
    with False assms have r: "r = isoString t"
      by (simp add: formatISODate_def toISOString_def)
    from newDate_range [OF Some] have "\<bar>t\<bar> \<le> 8640000000000000"
      by linarith
    then have "newDate h (isoString t) = Some t"
      by (rule newDate_isoString)
    with r Some show ?thesis by simp
  qed
qed

text \<open>
  Where the claim holds. On a host whose sort returns the stable sort for this
  comparator on every list whose starts are all dates (what ECMAScript requires
  of a sort, the comparator being consistent on such a list), and for a decoded
  list \<open>es\<close> whose starts are all dates: the list returned has the items of \<open>es\<close>,
  each with its start and end normalised (the list \<open>ns\<close>), in the order of their
  start instants, items with the same start instant in the order they have in
  \<open>es\<close>.
\<close>

lemma normalizeAndSort_dated:
  assumes conforms: "\<And>xs. \<forall>e\<in>set xs. startInstant h e \<noteq> None \<Longrightarrow>
      sortEvents h (compareStart h) xs = sort_key (\<lambda>e. the (startInstant h e)) xs"
    and dated: "\<forall>e\<in>set es. startInstant h e \<noteq> None"
  shows "\<exists>ns res. mapE (normalizeEvent h) es = Inr ns
     \<and> normalizeAndSort h (Structured es) = Inr res
     \<and> mset res = mset ns
     \<and> sorted_wrt (\<lambda>a b. \<exists>x y. startInstant h a = Some x \<and> startInstant h b = Some y \<and> x \<le> y) res
     \<and> (\<forall>k. filter (\<lambda>e. startInstant h e = Some k) res = filter (\<lambda>e. startInstant h e = Some k) ns)
     \<and> length ns = length es
     \<and> (\<forall>i<length es. \<exists>s t. formatISODate h (ev_startDate (es ! i)) = Inr s
            \<and> formatISODate h (ev_endDate (es ! i)) = Inr t
            \<and> ns ! i = (es ! i)\<lparr>ev_startDate := s, ev_endDate := t\<rparr>
            \<and> startInstant h (ns ! i) = startInstant h (es ! i))"
proof -
  let ?key = "\<lambda>e. the (startInstant h e)"
  obtain ns where ns: "mapE (normalizeEvent h) es = Inr ns" "length ns = length es"
    "\<forall>i<length es. normalizeEvent h (es ! i) = Inr (ns ! i)"
    using mapE_normalizeEvent by blast
  let ?res = "sort_key ?key ns"
  have n: "\<forall>i<length es. \<exists>s t. formatISODate h (ev_startDate (es ! i)) = Inr s
            \<and> formatISODate h (ev_endDate (es ! i)) = Inr t
            \<and> ns ! i = (es ! i)\<lparr>ev_startDate := s, ev_endDate := t\<rparr>
            \<and> startInstant h (ns ! i) = startInstant h (es ! i)"
  proof (intro allI impI)
    fix i assume i: "i < length es"
    obtain s t where st: "formatISODate h (ev_startDate (es ! i)) = Inr s"
      "formatISODate h (ev_endDate (es ! i)) = Inr t"
      "normalizeEvent h (es ! i) = Inr ((es ! i)\<lparr>ev_startDate := s, ev_endDate := t\<rparr>)"
      using normalizeEvent_Inr by blast
    with ns(3) i have e: "ns ! i = (es ! i)\<lparr>ev_startDate := s, ev_endDate := t\<rparr>" by simp
    have "startInstant h (ns ! i) = startInstant h (es ! i)"
      unfolding e using formatISODate_start [OF st(1)] by (simp add: startInstant_def)
    with st e show "\<exists>s t. formatISODate h (ev_startDate (es ! i)) = Inr s
            \<and> formatISODate h (ev_endDate (es ! i)) = Inr t
            \<and> ns ! i = (es ! i)\<lparr>ev_startDate := s, ev_endDate := t\<rparr>
            \<and> startInstant h (ns ! i) = startInstant h (es ! i)" by blast
  qed
  have valid: "\<forall>e\<in>set ns. startInstant h e \<noteq> None"
  proof
    fix e assume "e \<in> set ns"
    then obtain i where i: "i < length ns" "e = ns ! i"
      by (auto simp: in_set_conv_nth)
    with ns(2) n have "startInstant h e = startInstant h (es ! i)" by auto
    moreover have "es ! i \<in> set es" using i(1) ns(2) by simp
    ultimately show "startInstant h e \<noteq> None" using dated by simp
  qed
  have r: "normalizeAndSort h (Structured es) = Inr ?res"
    using ns(1) conforms [OF valid] by (simp add: normalizeAndSort_def)
  have m: "mset ?res = mset ns" by simp
  have "sorted (map ?key ?res)" by (rule sorted_sort_key)
  then have sw: "sorted_wrt (\<lambda>a b. ?key a \<le> ?key b) ?res"
    by (simp add: sorted_map)
  have s: "sorted_wrt (\<lambda>a b. \<exists>x y. startInstant h a = Some x \<and> startInstant h b = Some y \<and> x \<le> y) ?res"
  proof (rule sorted_wrt_mono_rel [OF _ sw])
    fix a b assume "a \<in> set ?res" "b \<in> set ?res" "?key a \<le> ?key b"
    with valid show "\<exists>x y. startInstant h a = Some x \<and> startInstant h b = Some y \<and> x \<le> y"
      by (cases "startInstant h a"; cases "startInstant h b") auto
  qed
  have f: "filter (\<lambda>e. startInstant h e = Some k) ?res = filter (\<lambda>e. startInstant h e = Some k) ns" for k
  proof -
    have "filter (\<lambda>e. ?key e = k) ?res = filter (\<lambda>e. ?key e = k) ns"
      by (rule sort_key_stable)
    moreover have "filter (\<lambda>e. startInstant h e = Some k) ?res = filter (\<lambda>e. ?key e = k) ?res"
      using valid by (intro filter_cong) auto
    moreover have "filter (\<lambda>e. startInstant h e = Some k) ns = filter (\<lambda>e. ?key e = k) ns"
      using valid by (intro filter_cong) auto
    ultimately show ?thesis by simp
  qed
  from ns(1,2) r m s f n show ?thesis by blast
qed

lemma runAppleScriptJSON_fst:
  "fst (runAppleScriptJSON decode exec script) =
     (case exec (osascript script) of
        Inl m \<Rightarrow> Inl (Error (if str_includes m ''Not authorized'' then accessDenied else m))
      | Inr out \<Rightarrow>
          Inr (if trim out = [] then Structured []
               else case decode (trim out) of
                      Some v \<Rightarrow> Structured v
                    | None \<Rightarrow> Opaque (trim out)))"
  by (simp add: runAppleScriptJSON_def runAppleScript_def split: sum.splits option.splits)

lemma runAppleScriptJSON_snd: "snd (runAppleScriptJSON decode exec script) = [osascript script]"
  by (simp add: runAppleScriptJSON_def runAppleScript_def split: sum.splits option.splits)

lemma events_result:
  "(case r of (Inl e, log) \<Rightarrow> (Inl e, log) | (Inr events, log) \<Rightarrow> (f events, log)) =
     (case fst r of Inl e \<Rightarrow> Inl e | Inr events \<Rightarrow> f events, snd r)"
  by (cases r) (simp split: sum.splits)

lemma getEvents_eq:
  "getEvents h exec calendar startDate endDate limit =
     (case eventsWindow h startDate endDate of
        Inl e \<Rightarrow> (Inl e, [])
      | Inr w \<Rightarrow>
          (case fst (runAppleScriptJSON (parseEvents h) exec
                  (scriptText (getEventsScript calendar (formatDateForAppleScript h (fst w))
                     (formatDateForAppleScript h (snd w))
                     (case limit of None \<Rightarrow> 100 | Some n \<Rightarrow> n)))) of
             Inl e \<Rightarrow> Inl e
           | Inr events \<Rightarrow> normalizeAndSort h events,
           [osascript (scriptText (getEventsScript calendar (formatDateForAppleScript h (fst w))
                     (formatDateForAppleScript h (snd w))
                     (case limit of None \<Rightarrow> 100 | Some n \<Rightarrow> n)))]))"
proof (cases "eventsWindow h startDate endDate")
  case (Inl e)
  then show ?thesis by (simp add: getEvents_def)
next
  case (Inr w)
  then show ?thesis
    by (cases w)
       (simp add: getEvents_def Let_def getDateRange_def events_result runAppleScriptJSON_snd)
qed

lemma searchEvents_eq:
  "searchEvents h exec query calendar limit =
     (case fst (runAppleScriptJSON (parseEvents h) exec
             (scriptText (searchEventsScript (escapeQuotes (toLowerCase query)) calendar
                (formatDateForAppleScript h (Some (now h)))
                (formatDateForAppleScript h (TimeClip (now h + 365 * 24 * 60 * 60 * 1000)))
                (case limit of None \<Rightarrow> 50 | Some n \<Rightarrow> n)))) of
        Inl e \<Rightarrow> Inl e
      | Inr events \<Rightarrow> normalizeAndSort h events,
      [osascript (scriptText (searchEventsScript (escapeQuotes (toLowerCase query)) calendar
                (formatDateForAppleScript h (Some (now h)))
                (formatDateForAppleScript h (TimeClip (now h + 365 * 24 * 60 * 60 * 1000)))
                (case limit of None \<Rightarrow> 50 | Some n \<Rightarrow> n)))])"
  by (simp add: searchEvents_def Let_def getDateRange_def events_result runAppleScriptJSON_snd)

text \<open>
  The lists that \<open>getEvents\<close> and \<open>searchEvents\<close> return are those of
  \<open>normalizeAndSort\<close>: of the decoded output of the command, or of the empty list
  when the output is empty.
\<close>

lemma getEvents_returns:
  assumes "fst (getEvents h exec calendar startDate endDate limit) = Inr res"
  shows "\<exists>c out. snd (getEvents h exec calendar startDate endDate limit) = [c]
     \<and> exec c = Inr out
     \<and> normalizeAndSort h
         (if trim out = [] then Structured []
          else case parseEvents h (trim out) of
                 Some v \<Rightarrow> Structured v
               | None \<Rightarrow> Opaque (trim out)) = Inr res"
  using assms unfolding getEvents_eq runAppleScriptJSON_fst
  by (cases "eventsWindow h startDate endDate") (auto split: sum.splits)

lemma searchEvents_returns:
  assumes "fst (searchEvents h exec query calendar limit) = Inr res"
  shows "\<exists>c out. snd (searchEvents h exec query calendar limit) = [c]
     \<and> exec c = Inr out
     \<and> normalizeAndSort h
         (if trim out = [] then Structured []
          else case parseEvents h (trim out) of
                 Some v \<Rightarrow> Structured v
               | None \<Rightarrow> Opaque (trim out)) = Inr res"
  using assms unfolding searchEvents_eq runAppleScriptJSON_fst
  by (auto split: sum.splits)

lemma eventsText_fst:
  "fst (eventsText r) =
     (case fst r of
        Inl e \<Rightarrow> Inl e
      | Inr events \<Rightarrow> Inr (JSON_stringify (JArr (map eventJSON events))))"
  by (cases r) (simp add: eventsText_def split: sum.splits)

lemma eventsText_snd: "snd (eventsText r) = snd r"
  by (cases r) (simp add: eventsText_def split: sum.splits)

lemma callTool_result:
  "fst (callTool h exec name arguments) =
     (case fst (handleToolCall h exec name (case arguments of None \<Rightarrow> noArgs | Some a \<Rightarrow> a)) of
        Inr result \<Rightarrow> \<lparr>content = [\<lparr>item_type = ''text'', item_text = result\<rparr>], isError = None\<rparr>
      | Inl error \<Rightarrow>
          \<lparr>content = [\<lparr>item_type = ''text'', item_text = ''Error: '' @ message error\<rparr>],
           isError = Some True\<rparr>)"
  by (cases "handleToolCall h exec name (case arguments of None \<Rightarrow> noArgs | Some a \<Rightarrow> a)")
     (auto simp: callTool_def split: sum.splits)

text \<open>
  C3. The list that \<open>getEvents\<close> and \<open>searchEvents\<close> return is not sorted when the
  start of an item is not a date. The comparator subtracts the time values of the
  two starts; with the start that is no date the difference is \<^verbatim>\<open>NaN\<close>, which the
  sort takes as \<open>0\<close>, and nothing guards against it. For the output of the command
  that lists \<open>b\<close>, starting on January 16, then \<open>x\<close>, with no start date, then \<open>a\<close>,
  starting on January 15, both operations return \<open>b\<close>, \<open>x\<close>, \<open>a\<close>, and the tools
  \<^verbatim>\<open>calendar_get_events\<close> and \<^verbatim>\<open>calendar_search\<close> print them in this order: the item of
  January 16 before the item of January 15. (With a fourth item the same sort
  moves the item with no start date: \<open>c\<close>, \<open>a\<close>, \<open>x\<close>, \<open>b\<close> comes out as \<open>a\<close>, \<open>b\<close>, \<open>c\<close>,
  \<open>x\<close>.)
\<close>

theorem getEvents_unsorted:
  "parseEvents utcHost sampleOutput =
     Some [sampleEvent ''b'' ''2025-01-16T09:00:00'', sampleEvent ''x'' ''missing value'',
           sampleEvent ''a'' ''2025-01-15T09:00:00'']
   \<and> fst (getEvents utcHost (\<lambda>c. Inr sampleOutput) None None None None) =
       Inr [sampleEvent ''b'' ''2025-01-16T09:00:00.000Z'', sampleEvent ''x'' [],
            sampleEvent ''a'' ''2025-01-15T09:00:00.000Z'']
   \<and> fst (searchEvents utcHost (\<lambda>c. Inr sampleOutput) ''standup'' None None) =
       Inr [sampleEvent ''b'' ''2025-01-16T09:00:00.000Z'', sampleEvent ''x'' [],
            sampleEvent ''a'' ''2025-01-15T09:00:00.000Z'']
   \<and> fst (callTool utcHost (\<lambda>c. Inr sampleOutput) ''calendar_get_events'' None) =
       \<lparr>content = [\<lparr>item_type = ''text'', item_text = JSON_stringify (JArr (map eventJSON
          [sampleEvent ''b'' ''2025-01-16T09:00:00.000Z'', sampleEvent ''x'' [],
           sampleEvent ''a'' ''2025-01-15T09:00:00.000Z'']))\<rparr>], isError = None\<rparr>
   \<and> fst (callTool utcHost (\<lambda>c. Inr sampleOutput) ''calendar_search''
           (Some (noArgs\<lparr>arg_query := Some ''standup''\<rparr>))) =
       \<lparr>content = [\<lparr>item_type = ''text'', item_text = JSON_stringify (JArr (map eventJSON
          [sampleEvent ''b'' ''2025-01-16T09:00:00.000Z'', sampleEvent ''x'' [],
           sampleEvent ''a'' ''2025-01-15T09:00:00.000Z'']))\<rparr>], isError = None\<rparr>
   \<and> startInstant utcHost (sampleEvent ''b'' ''2025-01-16T09:00:00.000Z'') = Some 1737018000000
   \<and> startInstant utcHost (sampleEvent ''x'' []) = None
   \<and> startInstant utcHost (sampleEvent ''a'' ''2025-01-15T09:00:00.000Z'') = Some 1736931600000
   \<and> map ev_id (sortEvents utcHost (compareStart utcHost)
        [sampleEvent ''c'' ''2025-01-17T09:00:00.000Z'', sampleEvent ''a'' ''2025-01-15T09:00:00.000Z'',
         sampleEvent ''x'' [], sampleEvent ''b'' ''2025-01-16T09:00:00.000Z'']) =
       [''a'', ''b'', ''c'', ''x'']"
proof -
  let ?exec = "(\<lambda>c. Inr sampleOutput) :: adapter"
  let ?res = "[sampleEvent ''b'' ''2025-01-16T09:00:00.000Z'', sampleEvent ''x'' [],
            sampleEvent ''a'' ''2025-01-15T09:00:00.000Z'']"
  have p: "parseEvents utcHost sampleOutput =
     Some [sampleEvent ''b'' ''2025-01-16T09:00:00'', sampleEvent ''x'' ''missing value'',
           sampleEvent ''a'' ''2025-01-15T09:00:00'']"
    by code_simp
  have t: "trim sampleOutput = sampleOutput"
    by code_simp
  have e: "sampleOutput \<noteq> []"
    by code_simp
  have n: "normalizeAndSort utcHost
      (Structured [sampleEvent ''b'' ''2025-01-16T09:00:00'', sampleEvent ''x'' ''missing value'',
           sampleEvent ''a'' ''2025-01-15T09:00:00'']) = Inr ?res"
    by code_simp
  have w: "eventsWindow utcHost None None = Inr (Some 1736935200000, Some 1739527200000)"
    by code_simp
  have g: "fst (getEvents utcHost ?exec None None None None) = Inr ?res"
    unfolding getEvents_eq runAppleScriptJSON_fst w by (simp add: t e p n)
  have s: "fst (searchEvents utcHost ?exec ''standup'' None None) = Inr ?res"
    unfolding searchEvents_eq runAppleScriptJSON_fst by (simp add: t e p n)
  have hg: "fst (callTool utcHost ?exec ''calendar_get_events'' None) =
       \<lparr>content = [\<lparr>item_type = ''text'',
          item_text = JSON_stringify (JArr (map eventJSON ?res))\<rparr>], isError = None\<rparr>"
    using g by (simp add: callTool_result handleToolCall_def eventsText_fst noArgs_def)
  have hs: "fst (callTool utcHost ?exec ''calendar_search''
           (Some (noArgs\<lparr>arg_query := Some ''standup''\<rparr>))) =
       \<lparr>content = [\<lparr>item_type = ''text'',
          item_text = JSON_stringify (JArr (map eventJSON ?res))\<rparr>], isError = None\<rparr>"
    using s
    by (simp add: callTool_result handleToolCall_def eventsText_fst noArgs_def truthy_def str_def)
  have i: "startInstant utcHost (sampleEvent ''b'' ''2025-01-16T09:00:00.000Z'') = Some 1737018000000"
    "startInstant utcHost (sampleEvent ''x'' []) = None"
    "startInstant utcHost (sampleEvent ''a'' ''2025-01-15T09:00:00.000Z'') = Some 1736931600000"
    by code_simp+
  have v: "map ev_id (sortEvents utcHost (compareStart utcHost)
        [sampleEvent ''c'' ''2025-01-17T09:00:00.000Z'', sampleEvent ''a'' ''2025-01-15T09:00:00.000Z'',
         sampleEvent ''x'' [], sampleEvent ''b'' ''2025-01-16T09:00:00.000Z'']) =
       [''a'', ''b'', ''c'', ''x'']"
    by code_simp
  from p g s hg hs i v show ?thesis
    by (intro conjI)
qed

subsection \<open>Validation comes first (C4)\<close>

lemma required_cases:
  "k \<in> set (required name) \<Longrightarrow>
     (name = ''calendar_create_event'' \<and> (k = ''summary'' \<or> k = ''start_date''))
   \<or> (name = ''calendar_update_event'' \<and> (k = ''event_id'' \<or> k = ''calendar''))
   \<or> (name = ''calendar_delete_event'' \<and> (k = ''event_id'' \<or> k = ''calendar''))
   \<or> (name = ''calendar_search'' \<and> k = ''query'')"
  by (auto simp: required_def tools_def split: if_splits)

lemma msg_create: "str_includes ''summary and start_date are required'' ''summary''"
  "str_includes ''summary and start_date are required'' ''start_date''"
  by simp_all

lemma msg_update: "str_includes ''event_id and calendar are required'' ''event_id''"
  "str_includes ''event_id and calendar are required'' ''calendar''"
  by simp_all

lemma msg_search: "str_includes ''query is required'' ''query''"
  by simp

lemma validation_throws:
  assumes "k \<in> set (required name)" and "\<not> truthy (stringArg a k)"
  shows "\<exists>m. handleToolCall h exec name a = (Inl (Error m), [])
           \<and> str_includes m k
           \<and> callTool h exec name (Some a) =
               (\<lparr>content = [\<lparr>item_type = ''text'', item_text = ''Error: '' @ m\<rparr>],
                 isError = Some True\<rparr>, [])"
proof -
  have err: "callTool h exec name (Some a) =
       (\<lparr>content = [\<lparr>item_type = ''text'', item_text = ''Error: '' @ m\<rparr>],
         isError = Some True\<rparr>, [])"
    if "handleToolCall h exec name a = (Inl (Error m), [])" for m
    using that by (simp add: callTool_def)
  from required_cases [OF assms(1)] show ?thesis
  proof (elim disjE conjE)
    assume n: "name = ''calendar_create_event''" and k: "k = ''summary''"
    with assms(2) have "handleToolCall h exec name a = (Inl (Error ''summary and start_date are required''), [])"
      by (simp add: handleToolCall_def stringArg_def)
    with err msg_create(1) k show ?thesis by metis
  next
    assume n: "name = ''calendar_create_event''" and k: "k = ''start_date''"
    with assms(2) have "handleToolCall h exec name a = (Inl (Error ''summary and start_date are required''), [])"
      by (simp add: handleToolCall_def stringArg_def)
    with err msg_create(2) k show ?thesis by metis
  next
    assume n: "name = ''calendar_update_event''" and k: "k = ''event_id''"
    with assms(2) have "handleToolCall h exec name a = (Inl (Error ''event_id and calendar are required''), [])"
      by (simp add: handleToolCall_def stringArg_def)
    with err msg_update(1) k show ?thesis by metis
  next
    assume n: "name = ''calendar_update_event''" and k: "k = ''calendar''"
    with assms(2) have "handleToolCall h exec name a = (Inl (Error ''event_id and calendar are required''), [])"
      by (simp add: handleToolCall_def stringArg_def)
    with err msg_update(2) k show ?thesis by metis
  next
    assume n: "name = ''calendar_delete_event''" and k: "k = ''event_id''"
    with assms(2) have "handleToolCall h exec name a = (Inl (Error ''event_id and calendar are required''), [])"
      by (simp add: handleToolCall_def stringArg_def)
    with err msg_update(1) k show ?thesis by metis
  next
    assume n: "name = ''calendar_delete_event''" and k: "k = ''calendar''"
    with assms(2) have "handleToolCall h exec name a = (Inl (Error ''event_id and calendar are required''), [])"
      by (simp add: handleToolCall_def stringArg_def)
    with err msg_update(2) k show ?thesis by metis
  next
    assume n: "name = ''calendar_search''" and k: "k = ''query''"
    with assms(2) have "handleToolCall h exec name a = (Inl (Error ''query is required''), [])"
      by (simp add: handleToolCall_def stringArg_def)
    with err msg_search k show ?thesis by metis
  qed
qed

text \<open>
  C4. A call of \<^verbatim>\<open>calendar_create_event\<close>, \<^verbatim>\<open>calendar_update_event\<close>,
  \<^verbatim>\<open>calendar_delete_event\<close> or \<^verbatim>\<open>calendar_search\<close> in which an argument \<open>k\<close> of the
  tool's \<^verbatim>\<open>required\<close> list is missing (absent or empty) throws before anything is
  submitted to the adapter; the message contains the name \<open>k\<close>, and the caller gets
  the error envelope with that message.
\<close>

theorem validation_first:
  assumes "k \<in> set (required name)" and "\<not> truthy (stringArg a k)"
  shows "\<exists>m. handleToolCall h exec name a = (Inl (Error m), [])
           \<and> str_includes m k
           \<and> callTool h exec name (Some a) =
               (\<lparr>content = [\<lparr>item_type = ''text'', item_text = ''Error: '' @ m\<rparr>],
                 isError = Some True\<rparr>, [])"
  using assms by (rule validation_throws)

theorem validation_first_witness:
  "\<exists>m. handleToolCall utcHost (\<lambda>c. Inr []) ''calendar_create_event''
          (noArgs\<lparr>arg_summary := Some ''Standup''\<rparr>) = (Inl (Error m), [])
       \<and> str_includes m ''start_date''
       \<and> callTool utcHost (\<lambda>c. Inr []) ''calendar_create_event''
            (Some (noArgs\<lparr>arg_summary := Some ''Standup''\<rparr>)) =
            (\<lparr>content = [\<lparr>item_type = ''text'', item_text = ''Error: '' @ m\<rparr>],
              isError = Some True\<rparr>, [])"
proof -
  have r: "''start_date'' \<in> set (required ''calendar_create_event'')"
    by (simp add: required_def tools_def)
  have m: "\<not> truthy (stringArg (noArgs\<lparr>arg_summary := Some ''Standup''\<rparr>) ''start_date'')"
    by (simp add: stringArg_def noArgs_def truthy_def)
  show ?thesis
    using validation_first [OF r m] .
qed

subsection \<open>Failures of the adapter (C5)\<close>

text \<open>
  C5. When the adapter fails with message \<open>m\<close>, \<open>runAppleScript\<close> throws: the fixed
  message that tells the user to grant calendar access in the system's privacy
  settings when \<open>m\<close> contains \<^verbatim>\<open>Not authorized\<close>, and an error with the message \<open>m\<close>
  itself, unchanged, in every other case. It submits the one command and no other.
\<close>

theorem runAppleScript_failure:
  assumes "exec (osascript script) = Inl m"
  shows "runAppleScript exec script =
     (Inl (Error (if str_includes m ''Not authorized''
        then ''Calendar access denied. Grant permission in System Settings > Privacy & Security > Calendars''
        else m)),
      [osascript script])"
  using assms by (simp add: runAppleScript_def accessDenied_def)

theorem runAppleScript_failure_witness:
  "fst (runAppleScript (\<lambda>c. Inl ''execution error: Not authorized to send Apple events to Calendar. (-1743)'') ''return 1'')
     = Inl (Error ''Calendar access denied. Grant permission in System Settings > Privacy & Security > Calendars'')
   \<and> fst (runAppleScript (\<lambda>c. Inl ''Command failed: timeout'') ''return 1'')
     = Inl (Error ''Command failed: timeout'')"
  using runAppleScript_failure [of "\<lambda>c. Inl ''execution error: Not authorized to send Apple events to Calendar. (-1743)''" "''return 1''" "''execution error: Not authorized to send Apple events to Calendar. (-1743)''"]
    runAppleScript_failure [of "\<lambda>c. Inl ''Command failed: timeout''" "''return 1''" "''Command failed: timeout''"]
  by simp

subsection \<open>\<open>parseDate\<close> and \<open>formatISODate\<close> (C6, C7)\<close>

lemma parseDate_empty: "parseDate h '''' = None"
  by (simp add: parseDate_def newDate_def Date_parse_def isoTime_def parseYear_def)

lemma parseDate_invalid: "parseDate h ''invalid'' = None"
  by (simp add: parseDate_def newDate_def Date_parse_def isoTime_def parseYear_def fixedNum_def isDigit_def)

lemma parseDate_not_a_date: "parseDate h ''not-a-date'' = None"
  by (simp add: parseDate_def newDate_def Date_parse_def isoTime_def parseYear_def fixedNum_def isDigit_def)

lemma parseDate_date_only: "parseDate h ''2025-01-15'' = Some 1736899200000"
  by code_simp

lemma parseDate_date_time: "parseDate h ''2025-01-15T10:00:00Z'' = Some 1736935200000"
  by code_simp

lemma parseDate_date_time_ms: "parseDate h ''2025-01-15T10:00:00.000Z'' = Some 1736935200000"
  by code_simp

text \<open>
  C6. For every string, \<open>parseDate\<close> returns null (\<open>None\<close>) or a valid instant, a time
  value within the range of \<^verbatim>\<open>Date\<close>; the model has no throw on its path, as the
  source has none. It returns null for \<^verbatim>\<open>""\<close>, \<^verbatim>\<open>"invalid"\<close> and
  \<^verbatim>\<open>"not-a-date"\<close>, and the instants of 2025-01-15 at 00:00 and at 10:00 UTC for
  \<^verbatim>\<open>"2025-01-15"\<close>, \<^verbatim>\<open>"2025-01-15T10:00:00Z"\<close> and \<^verbatim>\<open>"2025-01-15T10:00:00.000Z"\<close>,
  whatever the host.
\<close>

theorem parseDate_total:
  "(parseDate h s = None
      \<or> (\<exists>t. parseDate h s = Some t \<and> - 8640000000000000 \<le> t \<and> t \<le> 8640000000000000))
   \<and> parseDate h '''' = None
   \<and> parseDate h ''invalid'' = None
   \<and> parseDate h ''not-a-date'' = None
   \<and> parseDate h ''2025-01-15'' = Some 1736899200000
   \<and> parseDate h ''2025-01-15T10:00:00Z'' = Some 1736935200000
   \<and> parseDate h ''2025-01-15T10:00:00.000Z'' = Some 1736935200000"
proof -
  have "parseDate h s = newDate h s"
    by (simp add: parseDate_def Let_def)
  then have "parseDate h s = None
      \<or> (\<exists>t. parseDate h s = Some t \<and> - 8640000000000000 \<le> t \<and> t \<le> 8640000000000000)"
    using newDate_range [of h s] by (cases "newDate h s") auto
  then show ?thesis
    using parseDate_empty parseDate_invalid parseDate_not_a_date parseDate_date_only
      parseDate_date_time parseDate_date_time_ms by blast
qed

text \<open>
  C7. \<open>formatISODate\<close> never throws: its result is always a returned string (\<open>Inr\<close>).
  The string is empty when the input is empty or is \<^verbatim>\<open>missing value\<close>, and when
  the input does not parse. When the input parses, to the instant \<open>t\<close>, the string
  is \<open>isoString t\<close>, which is \<open>t\<close> in ISO 8601, in UTC, to the millisecond:
  \<^item> it has the form \<^verbatim>\<open>YYYY-MM-DDTHH:mm:ss.sssZ\<close> (the year with a sign and six
    digits outside 0 to 9999), every field with its fixed number of digits, the
    month within 1 to 12, the day within the month, the hour below 24, minutes and
    seconds below 60, three digits of milliseconds, and the zone \<^verbatim>\<open>Z\<close>;
  \<^item> its fields are those of \<open>t\<close>: the date and the time of day that they name in
    UTC are the instant \<open>t\<close>, to the millisecond;
  \<^item> it is read back by \<^verbatim>\<open>new Date\<close> as \<open>t\<close>, whatever the time zone and the
    date parser of the host that reads it.
\<close>

theorem formatISODate_cases:
  "formatISODate h s =
     Inr (if s = '''' \<or> s = ''missing value'' then ''''
          else case newDate h s of None \<Rightarrow> '''' | Some t \<Rightarrow> isoString t)
   \<and> (\<forall>t. newDate h s = Some t \<longrightarrow>
         (\<exists>y m d hh mm ss ms.
            isoString t =
              isoYear y @ ''-'' @ pad 2 m @ ''-'' @ pad 2 d @ ''T'' @ pad 2 hh
                @ '':'' @ pad 2 mm @ '':'' @ pad 2 ss @ ''.'' @ pad 3 ms @ ''Z''
            \<and> length (isoYear y) = (if 0 \<le> y \<and> y \<le> 9999 then 4 else 7)
            \<and> 1 \<le> m \<and> m \<le> 12 \<and> 1 \<le> d \<and> d \<le> DaysInMonth y m
            \<and> 0 \<le> hh \<and> hh \<le> 23 \<and> 0 \<le> mm \<and> mm \<le> 59 \<and> 0 \<le> ss \<and> ss \<le> 59
            \<and> 0 \<le> ms \<and> ms < 1000
            \<and> MakeDay y m d * msPerDay + MakeTime hh mm ss ms = t)
         \<and> newDate h' (isoString t) = Some t)"
proof (intro conjI allI impI)
  show "formatISODate h s =
     Inr (if s = '''' \<or> s = ''missing value'' then ''''
          else case newDate h s of None \<Rightarrow> '''' | Some t \<Rightarrow> isoString t)"
    by (simp add: formatISODate_def toISOString_def Let_def split: option.splits)
next
  fix t assume "newDate h s = Some t"
  from newDate_range [OF this] have r: "\<bar>t\<bar> \<le> 8640000000000000"
    by linarith
  from isoString_fields [OF r] obtain y m d hh mm ss ms where
    f: "isoString t =
       isoYear y @ ''-'' @ pad 2 m @ ''-'' @ pad 2 d @ ''T'' @ pad 2 hh
         @ '':'' @ pad 2 mm @ '':'' @ pad 2 ss @ ''.'' @ pad 3 ms @ ''Z''"
    "1 \<le> m" "m \<le> 12" "1 \<le> d" "d \<le> DaysInMonth y m"
    "0 \<le> hh" "hh \<le> 23" "0 \<le> mm" "mm \<le> 59" "0 \<le> ss" "ss \<le> 59" "0 \<le> ms" "ms < 1000"
    "MakeDay y m d * msPerDay + MakeTime hh mm ss ms = t"
    by blast
  have l: "length (isoYear y) = (if 0 \<le> y \<and> y \<le> 9999 then 4 else 7)"
    by (simp add: isoYear_def length_pad)
  show "\<exists>y m d hh mm ss ms.
            isoString t =
              isoYear y @ ''-'' @ pad 2 m @ ''-'' @ pad 2 d @ ''T'' @ pad 2 hh
                @ '':'' @ pad 2 mm @ '':'' @ pad 2 ss @ ''.'' @ pad 3 ms @ ''Z''
            \<and> length (isoYear y) = (if 0 \<le> y \<and> y \<le> 9999 then 4 else 7)
            \<and> 1 \<le> m \<and> m \<le> 12 \<and> 1 \<le> d \<and> d \<le> DaysInMonth y m
            \<and> 0 \<le> hh \<and> hh \<le> 23 \<and> 0 \<le> mm \<and> mm \<le> 59 \<and> 0 \<le> ss \<and> ss \<le> 59
            \<and> 0 \<le> ms \<and> ms < 1000
            \<and> MakeDay y m d * msPerDay + MakeTime hh mm ss ms = t"
    apply (rule exI [of _ y], rule exI [of _ m], rule exI [of _ d])
    apply (rule exI [of _ hh], rule exI [of _ mm], rule exI [of _ ss], rule exI [of _ ms])
    apply (intro conjI)
    apply (rule f, rule l)
    apply (rule f)+
    done
next
  fix t assume "newDate h s = Some t"
  from newDate_range [OF this] have "\<bar>t\<bar> \<le> 8640000000000000"
    by linarith
  then show "newDate h' (isoString t) = Some t"
    by (rule newDate_isoString)
qed

theorem formatISODate_cases_witness:
  "newDate utcHost ''2025-03-01T12:34:56.789+02:00'' = Some 1740825296789
   \<and> formatISODate utcHost ''2025-03-01T12:34:56.789+02:00'' = Inr ''2025-03-01T10:34:56.789Z''
   \<and> newDate utcHost ''2025-03-01T10:34:56.789Z'' = Some 1740825296789
   \<and> formatISODate utcHost ''2025-01-15'' = Inr ''2025-01-15T00:00:00.000Z''
   \<and> formatISODate utcHost ''2024-02-29T23:59:59.999Z'' = Inr ''2024-02-29T23:59:59.999Z''
   \<and> formatISODate utcHost '''' = Inr ''''
   \<and> formatISODate utcHost ''missing value'' = Inr ''''
   \<and> formatISODate utcHost ''not-a-date'' = Inr ''''"
proof -
  have n1: "newDate utcHost ''2025-03-01T12:34:56.789+02:00'' = Some 1740825296789"
    by code_simp
  have i1: "isoString 1740825296789 = ''2025-03-01T10:34:56.789Z''"
    by code_simp
  have n2: "newDate utcHost ''2025-01-15'' = Some 1736899200000"
    by code_simp
  have i2: "isoString 1736899200000 = ''2025-01-15T00:00:00.000Z''"
    by code_simp
  have n3: "newDate utcHost ''2024-02-29T23:59:59.999Z'' = Some 1709251199999"
    by code_simp
  have i3: "isoString 1709251199999 = ''2024-02-29T23:59:59.999Z''"
    by code_simp
  have n4: "newDate utcHost ''not-a-date'' = None"
    by code_simp
  have 1: "formatISODate utcHost ''2025-03-01T12:34:56.789+02:00'' = Inr ''2025-03-01T10:34:56.789Z''"
    "newDate utcHost ''2025-03-01T10:34:56.789Z'' = Some 1740825296789"
    using formatISODate_cases [of utcHost "''2025-03-01T12:34:56.789+02:00''" utcHost] n1 i1
    by simp_all
  have 2: "formatISODate utcHost ''2025-01-15'' = Inr ''2025-01-15T00:00:00.000Z''"
    using formatISODate_cases [of utcHost "''2025-01-15''" utcHost] n2 i2
    by simp
  have 3: "formatISODate utcHost ''2024-02-29T23:59:59.999Z'' = Inr ''2024-02-29T23:59:59.999Z''"
    using formatISODate_cases [of utcHost "''2024-02-29T23:59:59.999Z''" utcHost] n3 i3
    by simp
  have 4: "formatISODate utcHost '''' = Inr ''''"
    "formatISODate utcHost ''missing value'' = Inr ''''"
    "formatISODate utcHost ''not-a-date'' = Inr ''''"
    using formatISODate_cases [of utcHost "''''" utcHost]
      formatISODate_cases [of utcHost "''missing value''" utcHost]
      formatISODate_cases [of utcHost "''not-a-date''" utcHost] n4
    by simp_all
  from n1 1 2 3 4 show ?thesis
    by (intro conjI)
qed

subsection \<open>The lines of an update (C8)\<close>

lemma textLine_ex:
  "list_ex (\<lambda>l. startsWith l p) (textLine property v) \<longleftrightarrow>
     (\<exists>s. v = Some s \<and> startsWith (''set '' @ property @ '' of theEvent to '' @ [CHR 0x22] @ escapeQuotes s @ [CHR 0x22]) p)"
  by (cases v) (simp_all add: textLine_def)

lemma dateLine_ex:
  "list_ex (\<lambda>l. startsWith l p) (dateLine h property v) \<longleftrightarrow>
     (\<exists>s d. v = Some s \<and> s \<noteq> [] \<and> parseDate h s = Some d
        \<and> startsWith (''set '' @ property @ '' of theEvent to date '' @ [CHR 0x22] @ formatDateForAppleScript h (Some d) @ [CHR 0x22]) p)"
  by (cases v) (auto simp: dateLine_def whenTruthy_def split: option.splits)

lemma allDay_ex:
  "list_ex (\<lambda>l. startsWith l p)
     (case allDay of None \<Rightarrow> [] | Some b \<Rightarrow> [''set allday event of theEvent to '' @ showBool b]) \<longleftrightarrow>
     (\<exists>b. allDay = Some b \<and> startsWith (''set allday event of theEvent to '' @ showBool b) p)"
  by (cases allDay) simp_all

lemma length_textLine: "length (textLine property v) = (if v = None then 0 else 1)"
  by (cases v) (simp_all add: textLine_def)

lemma length_dateLine:
  "length (dateLine h property v) = (if truthy v \<and> parseDate h (str v) \<noteq> None then 1 else 0)"
  by (cases v) (auto simp: dateLine_def whenTruthy_def truthy_def str_def split: option.splits)

text \<open>
  C8, as amended. Let \<open>ls\<close> be the update lines. There is a line that sets the
  summary, the description, the location or the all-day flag exactly when that
  field is supplied, and a line that sets the start or the end date exactly when
  that field is supplied, is not empty and parses as a date; there are no other
  lines. When there is no line at all, in particular when no field is supplied, the
  operation returns the failure \<^verbatim>\<open>No updates provided\<close> and submits nothing; otherwise
  it submits the one script that holds these lines.
\<close>

theorem updateLines_fields:
  assumes "ls = updateLines h summary startDate endDate description location allDay"
  shows "(list_ex (\<lambda>l. startsWith l ''set summary of theEvent to '') ls \<longleftrightarrow> summary \<noteq> None)
     \<and> (list_ex (\<lambda>l. startsWith l ''set description of theEvent to '') ls \<longleftrightarrow> description \<noteq> None)
     \<and> (list_ex (\<lambda>l. startsWith l ''set location of theEvent to '') ls \<longleftrightarrow> location \<noteq> None)
     \<and> (list_ex (\<lambda>l. startsWith l ''set start date of theEvent to '') ls \<longleftrightarrow>
          truthy startDate \<and> parseDate h (str startDate) \<noteq> None)
     \<and> (list_ex (\<lambda>l. startsWith l ''set end date of theEvent to '') ls \<longleftrightarrow>
          truthy endDate \<and> parseDate h (str endDate) \<noteq> None)
     \<and> (list_ex (\<lambda>l. startsWith l ''set allday event of theEvent to '') ls \<longleftrightarrow> allDay \<noteq> None)
     \<and> length ls =
          (if summary = None then 0 else 1) + (if description = None then 0 else 1)
          + (if location = None then 0 else 1)
          + (if truthy startDate \<and> parseDate h (str startDate) \<noteq> None then 1 else 0)
          + (if truthy endDate \<and> parseDate h (str endDate) \<noteq> None then 1 else 0)
          + (if allDay = None then 0 else 1)
     \<and> updateEvent h exec eventId calendarName summary startDate endDate description location allDay =
          (if ls = [] then (failed ''No updates provided'', [])
           else (case exec (osascript (scriptText (updateEventScript eventId calendarName ls))) of
                   Inr out \<Rightarrow> succeeded None
                 | Inl m \<Rightarrow> failed (if str_includes m ''Not authorized'' then accessDenied else m),
                 [osascript (scriptText (updateEventScript eventId calendarName ls))]))"
proof -
  have 1: "list_ex (\<lambda>l. startsWith l ''set summary of theEvent to '') ls \<longleftrightarrow> summary \<noteq> None"
    unfolding assms updateLines_def
    by (simp add: list_ex_append textLine_ex dateLine_ex allDay_ex)
  have 2: "list_ex (\<lambda>l. startsWith l ''set description of theEvent to '') ls \<longleftrightarrow> description \<noteq> None"
    unfolding assms updateLines_def
    by (simp add: list_ex_append textLine_ex dateLine_ex allDay_ex)
  have 3: "list_ex (\<lambda>l. startsWith l ''set location of theEvent to '') ls \<longleftrightarrow> location \<noteq> None"
    unfolding assms updateLines_def
    by (simp add: list_ex_append textLine_ex dateLine_ex allDay_ex)
  have 4: "list_ex (\<lambda>l. startsWith l ''set start date of theEvent to '') ls \<longleftrightarrow>
          truthy startDate \<and> parseDate h (str startDate) \<noteq> None"
    unfolding assms updateLines_def
    by (cases startDate)
       (auto simp: list_ex_append textLine_ex dateLine_ex allDay_ex truthy_def str_def)
  have 5: "list_ex (\<lambda>l. startsWith l ''set end date of theEvent to '') ls \<longleftrightarrow>
          truthy endDate \<and> parseDate h (str endDate) \<noteq> None"
    unfolding assms updateLines_def
    by (cases endDate)
       (auto simp: list_ex_append textLine_ex dateLine_ex allDay_ex truthy_def str_def)
  have 6: "list_ex (\<lambda>l. startsWith l ''set allday event of theEvent to '') ls \<longleftrightarrow> allDay \<noteq> None"
    unfolding assms updateLines_def
    by (simp add: list_ex_append textLine_ex dateLine_ex allDay_ex)
  have 7: "length ls =
          (if summary = None then 0 else 1) + (if description = None then 0 else 1)
          + (if location = None then 0 else 1)
          + (if truthy startDate \<and> parseDate h (str startDate) \<noteq> None then 1 else 0)
          + (if truthy endDate \<and> parseDate h (str endDate) \<noteq> None then 1 else 0)
          + (if allDay = None then 0 else 1)"
    unfolding assms updateLines_def
    by (cases allDay) (simp_all add: length_textLine length_dateLine)
  have 8: "updateEvent h exec eventId calendarName summary startDate endDate description location allDay =
          (if ls = [] then (failed ''No updates provided'', [])
           else (case exec (osascript (scriptText (updateEventScript eventId calendarName ls))) of
                   Inr out \<Rightarrow> succeeded None
                 | Inl m \<Rightarrow> failed (if str_includes m ''Not authorized'' then accessDenied else m),
                 [osascript (scriptText (updateEventScript eventId calendarName ls))]))"
    unfolding assms
    by (simp add: updateEvent_def Let_def runAppleScript_def split: sum.splits)
  from 1 2 3 4 5 6 7 8 show ?thesis by blast
qed

theorem updateLines_fields_witness:
  "length (updateLines utcHost (Some ''Standup'') (Some ''2025-01-16T09:00:00Z'') None None None
             (Some True)) = 3
   \<and> list_ex (\<lambda>l. startsWith l ''set summary of theEvent to '')
         (updateLines utcHost (Some ''Standup'') (Some ''2025-01-16T09:00:00Z'') None None None
            (Some True))
   \<and> list_ex (\<lambda>l. startsWith l ''set start date of theEvent to '')
         (updateLines utcHost (Some ''Standup'') (Some ''2025-01-16T09:00:00Z'') None None None
            (Some True))
   \<and> \<not> list_ex (\<lambda>l. startsWith l ''set end date of theEvent to '')
         (updateLines utcHost (Some ''Standup'') (Some ''2025-01-16T09:00:00Z'') None None None
            (Some True))"
proof -
  have p: "parseDate utcHost ''2025-01-16T09:00:00Z'' = Some 1737018000000"
    by code_simp
  show ?thesis
    using updateLines_fields [OF refl, of utcHost "Some ''Standup''" "Some ''2025-01-16T09:00:00Z''"
        None None None "Some True" "\<lambda>c. Inr []" "''e1''" "''Work''"] p
    by (simp add: truthy_def str_def)
qed

text \<open>
  C8 as stated fails for a date that does not parse: the start date is supplied,
  no line sets it, and the operation fails with \<^verbatim>\<open>No updates provided\<close> although a
  field was supplied.
\<close>

theorem updateLines_invalid_date_counterexample:
  "updateLines utcHost None (Some ''invalid'') None None None None = []
   \<and> callTool utcHost (\<lambda>c. Inr ''done'') ''calendar_update_event''
        (Some (noArgs\<lparr>arg_event_id := Some ''e1'', arg_calendar := Some ''Work'',
                      arg_start_date := Some ''invalid''\<rparr>)) =
      (\<lparr>content = [\<lparr>item_type = ''text'',
          item_text = JSON_stringify (resultJSON (failed ''No updates provided''))\<rparr>],
        isError = None\<rparr>, [])"
  by code_simp

subsection \<open>The envelope of a failed write (C9)\<close>

lemma failed_text:
  \<open>JSON_stringify (resultJSON (failed r)) =
     ''{'' @ [CHR 0x0A] @ ''  "success": false,'' @ [CHR 0x0A] @ ''  "error": '' @ quoteJSON r
       @ [CHR 0x0A] @ ''}''\<close>
  by (simp add: JSON_stringify_def resultJSON_def failed_def optMember_def showBool_def
      quoteJSON_def jsonChar_def dq_def bs_def)

text \<open>
  When the start date parses and the end date, if one is given, parses too,
  \<open>createEvent\<close> submits its script, with the default end when no end date is
  given.
\<close>

lemma createEvent_submits:
  assumes "parseDate h startDate = Some start"
    and "truthy endDate \<longrightarrow> parseDate h (str endDate) \<noteq> None"
  shows \<open>createEvent h exec summary startDate endDate allDay calendar description location url =
     (case runAppleScript exec
             (scriptText (createEventScript
                (whenTruthy calendar (\<lambda>n. ''calendar "'' @ escapeQuotes n @ ''"'') ''first calendar'')
                (escapeQuotes summary)
                (formatDateForAppleScript h (Some start))
                (formatDateForAppleScript h
                   (if truthy endDate then parseDate h (str endDate)
                    else TimeClip (start + (if (case allDay of None \<Rightarrow> False | Some b \<Rightarrow> b)
                                            then 24 * 60 * 60 * 1000 else 60 * 60 * 1000))))
                (case allDay of None \<Rightarrow> False | Some b \<Rightarrow> b) description location url)) of
        (Inr i, log) \<Rightarrow> (succeeded (Some i), log)
      | (Inl e, log) \<Rightarrow> (failed (message e), log))\<close>
proof (cases "truthy endDate")
  case True
  with assms(2) obtain e where e: "parseDate h (str endDate) = Some e"
    by auto
  from True obtain s where s: "endDate = Some s" "s \<noteq> []"
    by (cases endDate) (auto simp: truthy_def)
  with e have "whenTruthy endDate (\<lambda>s. map_option Some (parseDate h s)) d = Some (Some e)" for d
    by (simp add: whenTruthy_def str_def)
  with assms(1) True e show ?thesis
    by (simp add: createEvent_def Let_def)
next
  case False
  then have "whenTruthy endDate f d = d" for f and d :: "int option option"
    by (cases endDate) (auto simp: whenTruthy_def truthy_def)
  with assms(1) False show ?thesis
    by (simp add: createEvent_def Let_def)
qed

lemma runAppleScript_failed:
  assumes "exec (osascript script) = Inl m"
  shows "(case runAppleScript exec script of
            (Inr i, log) \<Rightarrow> (f i, log)
          | (Inl e, log) \<Rightarrow> (failed (message e), log)) =
         (failed (if str_includes m ''Not authorized'' then accessDenied else m), [osascript script])"
  using assms by (simp add: runAppleScript_def)

lemma resultText_failed:
  \<open>resultText (failed r, log) =
     (Inr (''{'' @ [CHR 0x0A] @ ''  "success": false,'' @ [CHR 0x0A] @ ''  "error": '' @ quoteJSON r
             @ [CHR 0x0A] @ ''}''), log)\<close>
  by (simp add: resultText_def failed_text)

lemma resultText_fst: "fst (resultText r) = Inr (JSON_stringify (resultJSON (fst r)))"
  by (cases r) (simp add: resultText_def)

lemma resultText_snd: "snd (resultText r) = snd r"
  by (cases r) (simp add: resultText_def)

lemma callTool_fst:
  "fst (callTool h exec name (Some a)) =
     (case fst (handleToolCall h exec name a) of
        Inr result \<Rightarrow> \<lparr>content = [\<lparr>item_type = ''text'', item_text = result\<rparr>], isError = None\<rparr>
      | Inl error \<Rightarrow>
          \<lparr>content = [\<lparr>item_type = ''text'', item_text = ''Error: '' @ message error\<rparr>],
           isError = Some True\<rparr>)"
  by (cases "handleToolCall h exec name a") (auto simp: callTool_def split: sum.splits)

lemma callTool_snd: "snd (callTool h exec name (Some a)) = snd (handleToolCall h exec name a)"
  by (cases "handleToolCall h exec name a") (auto simp: callTool_def split: sum.splits)

lemma callTool_Inr:
  "handleToolCall h exec name a = (Inr result, log) \<Longrightarrow>
   callTool h exec name (Some a) =
     (\<lparr>content = [\<lparr>item_type = ''text'', item_text = result\<rparr>], isError = None\<rparr>, log)"
  by (simp add: callTool_def)

lemma unknown_tool:
  "name \<notin> set (map fst tools) \<Longrightarrow>
   callTool h exec name arguments =
     (\<lparr>content = [\<lparr>item_type = ''text'', item_text = ''Error: Unknown tool: '' @ name\<rparr>],
       isError = Some True\<rparr>, [])"
  by (simp add: tools_def callTool_def handleToolCall_def)

text \<open>
  C9. A call of \<^verbatim>\<open>calendar_create_event\<close>, \<^verbatim>\<open>calendar_update_event\<close> or
  \<^verbatim>\<open>calendar_delete_event\<close> that passes the validation reaches the adapter
  \<^item> for a creation, when the start date parses (to \<open>start\<close>) and the end date, if
    one is given, parses too,
  \<^item> for an update, when it has at least one line,
  \<^item> for a deletion, always,

  and the command \<open>c\<close> that it submits, once, is that of its script. When the
  adapter fails on \<open>c\<close> with the message \<open>m\<close>, the envelope \<open>env\<close> that the caller gets
  has no \<open>isError\<close> member, and its text is the JSON object with
  \<^verbatim>\<open>"success": false\<close> and, as \<^verbatim>\<open>"error"\<close>, the message (the fixed one when \<open>m\<close> reports
  that the program is not authorized). A call of one of these tools that misses a
  required argument, and a call of a tool that the table does not know, get the
  envelope with \<open>isError\<close> true and the text \<^verbatim>\<open>Error: \<close> followed by the message, and
  submit nothing.
\<close>

theorem write_failure_envelope:
  \<open>(let env =
       \<lparr>content =
          [\<lparr>item_type = ''text'',
            item_text =
              ''{'' @ [CHR 0x0A] @ ''  "success": false,'' @ [CHR 0x0A] @ ''  "error": ''
                @ quoteJSON (if str_includes m ''Not authorized''
                    then ''Calendar access denied. Grant permission in System Settings > Privacy & Security > Calendars''
                    else m)
                @ [CHR 0x0A] @ ''}''\<rparr>],
        isError = None\<rparr>
    in
     (let c = osascript (scriptText (createEventScript
                (whenTruthy (arg_calendar a) (\<lambda>n. ''calendar "'' @ escapeQuotes n @ ''"'')
                   ''first calendar'')
                (escapeQuotes (str (arg_summary a)))
                (formatDateForAppleScript h (Some start))
                (formatDateForAppleScript h
                   (if truthy (arg_end_date a) then parseDate h (str (arg_end_date a))
                    else TimeClip (start + (if (case arg_all_day a of None \<Rightarrow> False | Some b \<Rightarrow> b)
                                            then 24 * 60 * 60 * 1000 else 60 * 60 * 1000))))
                (case arg_all_day a of None \<Rightarrow> False | Some b \<Rightarrow> b)
                (arg_description a) (arg_location a) (arg_url a)))
      in truthy (arg_summary a) \<and> truthy (arg_start_date a)
         \<and> parseDate h (str (arg_start_date a)) = Some start
         \<and> (truthy (arg_end_date a) \<longrightarrow> parseDate h (str (arg_end_date a)) \<noteq> None)
         \<and> exec c = Inl m
         \<longrightarrow> callTool h exec ''calendar_create_event'' (Some a) = (env, [c]))
   \<and> (let c = osascript (scriptText (updateEventScript (str (arg_event_id a)) (str (arg_calendar a))
                (updateLines h (arg_summary a) (arg_start_date a) (arg_end_date a)
                   (arg_description a) (arg_location a) (arg_all_day a))))
      in truthy (arg_event_id a) \<and> truthy (arg_calendar a)
         \<and> updateLines h (arg_summary a) (arg_start_date a) (arg_end_date a)
              (arg_description a) (arg_location a) (arg_all_day a) \<noteq> []
         \<and> exec c = Inl m
         \<longrightarrow> callTool h exec ''calendar_update_event'' (Some a) = (env, [c]))
   \<and> (let c = osascript (scriptText (deleteEventScript (str (arg_event_id a)) (str (arg_calendar a))))
      in truthy (arg_event_id a) \<and> truthy (arg_calendar a) \<and> exec c = Inl m
         \<longrightarrow> callTool h exec ''calendar_delete_event'' (Some a) = (env, [c])))
   \<and> (\<forall>name b k. (name = ''calendar_create_event'' \<or> name = ''calendar_update_event''
                    \<or> name = ''calendar_delete_event'')
         \<and> k \<in> set (required name) \<and> \<not> truthy (stringArg b k) \<longrightarrow>
         (\<exists>e. callTool h exec name (Some b) =
            (\<lparr>content = [\<lparr>item_type = ''text'', item_text = ''Error: '' @ e\<rparr>],
              isError = Some True\<rparr>, [])))
   \<and> (\<forall>u x. u \<notin> set (map fst tools) \<longrightarrow>
         callTool h exec u x =
           (\<lparr>content = [\<lparr>item_type = ''text'', item_text = ''Error: Unknown tool: '' @ u\<rparr>],
             isError = Some True\<rparr>, []))\<close>
proof -
  let ?r = "if str_includes m ''Not authorized'' then accessDenied else m"
  have create: "callTool h exec ''calendar_create_event'' (Some a) =
      (\<lparr>content = [\<lparr>item_type = ''text'', item_text = t\<rparr>], isError = None\<rparr>, [c])"
    if v: "truthy (arg_summary a)" "truthy (arg_start_date a)"
      and s: "parseDate h (str (arg_start_date a)) = Some start"
      and e: "truthy (arg_end_date a) \<longrightarrow> parseDate h (str (arg_end_date a)) \<noteq> None"
      and c: \<open>c = osascript (scriptText (createEventScript
                (whenTruthy (arg_calendar a) (\<lambda>n. ''calendar "'' @ escapeQuotes n @ ''"'')
                   ''first calendar'')
                (escapeQuotes (str (arg_summary a)))
                (formatDateForAppleScript h (Some start))
                (formatDateForAppleScript h
                   (if truthy (arg_end_date a) then parseDate h (str (arg_end_date a))
                    else TimeClip (start + (if (case arg_all_day a of None \<Rightarrow> False | Some b \<Rightarrow> b)
                                            then 24 * 60 * 60 * 1000 else 60 * 60 * 1000))))
                (case arg_all_day a of None \<Rightarrow> False | Some b \<Rightarrow> b)
                (arg_description a) (arg_location a) (arg_url a)))\<close>
      and x: "exec c = Inl m"
      and t: \<open>t = ''{'' @ [CHR 0x0A] @ ''  "success": false,'' @ [CHR 0x0A] @ ''  "error": ''
                @ quoteJSON ?r @ [CHR 0x0A] @ ''}''\<close>
    for c t
  proof -
    have "createEvent h exec (str (arg_summary a)) (str (arg_start_date a)) (arg_end_date a)
        (arg_all_day a) (arg_calendar a) (arg_description a) (arg_location a) (arg_url a) =
        (failed ?r, [c])"
      unfolding createEvent_submits [OF s e] c
      by (rule runAppleScript_failed) (use x c in simp)
    with v have "handleToolCall h exec ''calendar_create_event'' a = (Inr t, [c])"
      by (simp add: handleToolCall_def resultText_failed t)
    then show ?thesis
      by (rule callTool_Inr)
  qed
  have update: "callTool h exec ''calendar_update_event'' (Some a) =
      (\<lparr>content = [\<lparr>item_type = ''text'', item_text = t\<rparr>], isError = None\<rparr>, [c])"
    if v: "truthy (arg_event_id a)" "truthy (arg_calendar a)"
      and l: "updateLines h (arg_summary a) (arg_start_date a) (arg_end_date a)
              (arg_description a) (arg_location a) (arg_all_day a) \<noteq> []"
      and c: "c = osascript (scriptText (updateEventScript (str (arg_event_id a)) (str (arg_calendar a))
                (updateLines h (arg_summary a) (arg_start_date a) (arg_end_date a)
                   (arg_description a) (arg_location a) (arg_all_day a))))"
      and x: "exec c = Inl m"
      and t: \<open>t = ''{'' @ [CHR 0x0A] @ ''  "success": false,'' @ [CHR 0x0A] @ ''  "error": ''
                @ quoteJSON ?r @ [CHR 0x0A] @ ''}''\<close>
    for c t
  proof -
    have "updateEvent h exec (str (arg_event_id a)) (str (arg_calendar a)) (arg_summary a)
        (arg_start_date a) (arg_end_date a) (arg_description a) (arg_location a) (arg_all_day a) =
        (failed ?r, [c])"
      using l x unfolding c by (simp add: updateEvent_def Let_def runAppleScript_def)
    with v have "handleToolCall h exec ''calendar_update_event'' a = (Inr t, [c])"
      by (simp add: handleToolCall_def resultText_failed t)
    then show ?thesis
      by (rule callTool_Inr)
  qed
  have delete: "callTool h exec ''calendar_delete_event'' (Some a) =
      (\<lparr>content = [\<lparr>item_type = ''text'', item_text = t\<rparr>], isError = None\<rparr>, [c])"
    if v: "truthy (arg_event_id a)" "truthy (arg_calendar a)"
      and c: "c = osascript (scriptText (deleteEventScript (str (arg_event_id a)) (str (arg_calendar a))))"
      and x: "exec c = Inl m"
      and t: \<open>t = ''{'' @ [CHR 0x0A] @ ''  "success": false,'' @ [CHR 0x0A] @ ''  "error": ''
                @ quoteJSON ?r @ [CHR 0x0A] @ ''}''\<close>
    for c t
  proof -
    have "deleteEvent exec (str (arg_event_id a)) (str (arg_calendar a)) = (failed ?r, [c])"
      using x unfolding c by (simp add: deleteEvent_def runAppleScript_def)
    with v have "handleToolCall h exec ''calendar_delete_event'' a = (Inr t, [c])"
      by (simp add: handleToolCall_def resultText_failed t)
    then show ?thesis
      by (rule callTool_Inr)
  qed
  have validation: "\<exists>e. callTool h exec name (Some b) =
            (\<lparr>content = [\<lparr>item_type = ''text'', item_text = ''Error: '' @ e\<rparr>],
              isError = Some True\<rparr>, [])"
    if "k \<in> set (required name)" "\<not> truthy (stringArg b k)" for name b k
    using validation_throws [OF that, of h exec] by blast
  show ?thesis
    unfolding Let_def
    apply (intro conjI impI allI)
    subgoal by (rule create) (simp_all add: accessDenied_def)
    subgoal by (rule update) (simp_all add: accessDenied_def)
    subgoal by (rule delete) (simp_all add: accessDenied_def)
    subgoal for name b k using validation [of k name b] by blast
    subgoal for u x by (rule unknown_tool)
    done
qed

theorem write_failure_envelope_witness:
  \<open>(\<exists>ls. callTool utcHost (\<lambda>c. Inl ''boom'') ''calendar_create_event''
            (Some (noArgs\<lparr>arg_summary := Some ''Standup'',
                          arg_start_date := Some ''2025-02-01T09:00:00Z''\<rparr>)) =
          (\<lparr>content =
              [\<lparr>item_type = ''text'',
                item_text =
                  ''{'' @ [CHR 0x0A] @ ''  "success": false,'' @ [CHR 0x0A] @ ''  "error": "boom"''
                    @ [CHR 0x0A] @ ''}''\<rparr>],
            isError = None\<rparr>,
           [osascript (scriptText ls)])
        \<and> ls ! 2 =
            ''      set newEvent to make new event at end of events of first calendar with properties {summary:"Standup", start date:date "January 15, 2025 at 10:00:00 AM", end date:date "January 15, 2025 at 10:00:00 AM", allday event:false}'')
   \<and> (\<exists>ls. callTool utcHost (\<lambda>c. Inl ''boom'') ''calendar_update_event''
            (Some (noArgs\<lparr>arg_event_id := Some ''e1'', arg_calendar := Some ''Work'',
                          arg_summary := Some ''Retro''\<rparr>)) =
          (\<lparr>content =
              [\<lparr>item_type = ''text'',
                item_text =
                  ''{'' @ [CHR 0x0A] @ ''  "success": false,'' @ [CHR 0x0A] @ ''  "error": "boom"''
                    @ [CHR 0x0A] @ ''}''\<rparr>],
            isError = None\<rparr>,
           [osascript (scriptText ls)])
        \<and> ls ! 4 = ''      set summary of theEvent to "Retro"'')
   \<and> (\<exists>ls. callTool utcHost (\<lambda>c. Inl ''boom'') ''calendar_delete_event''
            (Some (noArgs\<lparr>arg_event_id := Some ''e1'', arg_calendar := Some ''Work''\<rparr>)) =
          (\<lparr>content =
              [\<lparr>item_type = ''text'',
                item_text =
                  ''{'' @ [CHR 0x0A] @ ''  "success": false,'' @ [CHR 0x0A] @ ''  "error": "boom"''
                    @ [CHR 0x0A] @ ''}''\<rparr>],
            isError = None\<rparr>,
           [osascript (scriptText ls)])
        \<and> ls ! 4 = ''      delete theEvent'')\<close>
proof -
  let ?exec = "(\<lambda>c. Inl ''boom'') :: adapter"
  let ?a1 = "noArgs\<lparr>arg_summary := Some ''Standup'', arg_start_date := Some ''2025-02-01T09:00:00Z''\<rparr>"
  let ?a2 = "noArgs\<lparr>arg_event_id := Some ''e1'', arg_calendar := Some ''Work'',
                          arg_summary := Some ''Retro''\<rparr>"
  let ?a3 = "noArgs\<lparr>arg_event_id := Some ''e1'', arg_calendar := Some ''Work''\<rparr>"
  have p: "parseDate utcHost ''2025-02-01T09:00:00Z'' = Some 1738400400000"
    by code_simp
  have q: "quoteJSON ''boom'' = [CHR 0x22] @ ''boom'' @ [CHR 0x22]"
    by (simp add: quoteJSON_def jsonChar_def dq_def bs_def)
  have u: "updateLines utcHost (Some ''Retro'') None None None None None =
      [''set summary of theEvent to '' @ [CHR 0x22] @ ''Retro'' @ [CHR 0x22]]"
    by code_simp
  have 1: "\<exists>ls. callTool utcHost ?exec ''calendar_create_event'' (Some ?a1) =
          (\<lparr>content =
              [\<lparr>item_type = ''text'',
                item_text =
                  ''{'' @ [CHR 0x0A] @ ''  '' @ [CHR 0x22] @ ''success'' @ [CHR 0x22] @ '': false,''
                    @ [CHR 0x0A] @ ''  '' @ [CHR 0x22] @ ''error'' @ [CHR 0x22] @ '': ''
                    @ [CHR 0x22] @ ''boom'' @ [CHR 0x22] @ [CHR 0x0A] @ ''}''\<rparr>],
            isError = None\<rparr>,
           [osascript (scriptText ls)])
        \<and> ls ! 2 =
            ''      set newEvent to make new event at end of events of first calendar with properties {summary:''
              @ [CHR 0x22] @ ''Standup'' @ [CHR 0x22] @ '', start date:date '' @ [CHR 0x22]
              @ ''January 15, 2025 at 10:00:00 AM'' @ [CHR 0x22] @ '', end date:date '' @ [CHR 0x22]
              @ ''January 15, 2025 at 10:00:00 AM'' @ [CHR 0x22] @ '', allday event:false}''"
    using write_failure_envelope [of "''boom''" ?a1 utcHost 1738400400000 ?exec] p q
    by (auto simp: Let_def noArgs_def truthy_def str_def createEventScript_def whenTruthy_def
        formatDateForAppleScript_def utcHost_def TimeClip_def escapeQuotes_def replaceAll_def
        showBool_def dq_def)
  have 2: "\<exists>ls. callTool utcHost ?exec ''calendar_update_event'' (Some ?a2) =
          (\<lparr>content =
              [\<lparr>item_type = ''text'',
                item_text =
                  ''{'' @ [CHR 0x0A] @ ''  '' @ [CHR 0x22] @ ''success'' @ [CHR 0x22] @ '': false,''
                    @ [CHR 0x0A] @ ''  '' @ [CHR 0x22] @ ''error'' @ [CHR 0x22] @ '': ''
                    @ [CHR 0x22] @ ''boom'' @ [CHR 0x22] @ [CHR 0x0A] @ ''}''\<rparr>],
            isError = None\<rparr>,
           [osascript (scriptText ls)])
        \<and> ls ! 4 = ''      set summary of theEvent to '' @ [CHR 0x22] @ ''Retro'' @ [CHR 0x22]"
    using write_failure_envelope [of "''boom''" ?a2 utcHost 0 ?exec] q u
    by (auto simp: Let_def noArgs_def truthy_def str_def updateEventScript_def)
  have 3: "\<exists>ls. callTool utcHost ?exec ''calendar_delete_event'' (Some ?a3) =
          (\<lparr>content =
              [\<lparr>item_type = ''text'',
                item_text =
                  ''{'' @ [CHR 0x0A] @ ''  '' @ [CHR 0x22] @ ''success'' @ [CHR 0x22] @ '': false,''
                    @ [CHR 0x0A] @ ''  '' @ [CHR 0x22] @ ''error'' @ [CHR 0x22] @ '': ''
                    @ [CHR 0x22] @ ''boom'' @ [CHR 0x22] @ [CHR 0x0A] @ ''}''\<rparr>],
            isError = None\<rparr>,
           [osascript (scriptText ls)])
        \<and> ls ! 4 = ''      delete theEvent''"
    using write_failure_envelope [of "''boom''" ?a3 utcHost 0 ?exec] q
    by (auto simp: Let_def noArgs_def truthy_def str_def deleteEventScript_def)
  from 1 2 3 show ?thesis
    by simp
qed

subsection \<open>The window of \<open>getEvents\<close> (C10)\<close>

lemma eventsWindow_eq:
  "eventsWindow h startDate endDate =
     (if (truthy startDate \<and> parseDate h (str startDate) = None)
         \<or> (truthy endDate \<and> parseDate h (str endDate) = None)
      then Inl (Error ''Invalid date format'')
      else Inr (if truthy startDate then parseDate h (str startDate) else Some (now h),
                if truthy endDate then parseDate h (str endDate)
                else TimeClip (now h + 30 * 24 * 60 * 60 * 1000)))"
proof -
  have s: "whenTruthy startDate (\<lambda>s. map_option Some (parseDate h s)) (Some (Some (now h))) =
      (if truthy startDate then map_option Some (parseDate h (str startDate))
       else Some (Some (now h)))"
    by (cases startDate) (simp_all add: whenTruthy_def truthy_def str_def)
  have e: "whenTruthy endDate (\<lambda>s. map_option Some (parseDate h s))
        (Some (TimeClip (now h + 30 * 24 * 60 * 60 * 1000))) =
      (if truthy endDate then map_option Some (parseDate h (str endDate))
       else Some (TimeClip (now h + 30 * 24 * 60 * 60 * 1000)))"
    by (cases endDate) (simp_all add: whenTruthy_def truthy_def str_def)
  show ?thesis
    unfolding eventsWindow_def s e
    by (cases "parseDate h (str startDate)"; cases "parseDate h (str endDate)") simp_all
qed

lemma truthy_iff: "truthy x \<longleftrightarrow> (\<exists>s. x = Some s \<and> s \<noteq> [])"
  by (cases x) (simp_all add: truthy_def)

lemma not_truthy_iff: "\<not> truthy x \<longleftrightarrow> x = None \<or> x = Some []"
  by (cases x) (simp_all add: truthy_def)

text \<open>
  C10, as amended. When the \<^verbatim>\<open>start_date\<close> or the \<^verbatim>\<open>end_date\<close> of a
  \<^verbatim>\<open>calendar_get_events\<close> call is supplied, is not the empty string and does not
  parse as a date, \<open>getEvents\<close> throws \<^verbatim>\<open>Invalid date format\<close> before anything is
  submitted, and the caller gets the error envelope with the text
  \<^verbatim>\<open>Error: Invalid date format\<close>. In every other call the operation submits one
  command, the script of \<open>getEvents\<close> for the window of the call: the window
  starts at the clock's time when \<^verbatim>\<open>start_date\<close> is absent or empty, and only
  then, and at the date that \<^verbatim>\<open>start_date\<close> parses to otherwise; it ends 30 days
  after the clock's time when \<^verbatim>\<open>end_date\<close> is absent or empty, and only then, and
  at the date that \<^verbatim>\<open>end_date\<close> parses to otherwise. The two dates of the window
  are the texts of the fourth and the fifth line of the script.
\<close>

theorem getEvents_invalid_date:
  \<open>((\<exists>s. arg_start_date a = Some s \<and> s \<noteq> [] \<and> parseDate h s = None)
      \<or> (\<exists>s. arg_end_date a = Some s \<and> s \<noteq> [] \<and> parseDate h s = None)
     \<longrightarrow> getEvents h exec (arg_calendar a) (arg_start_date a) (arg_end_date a) (arg_limit a) =
           (Inl (Error ''Invalid date format''), [])
       \<and> callTool h exec ''calendar_get_events'' (Some a) =
           (\<lparr>content = [\<lparr>item_type = ''text'', item_text = ''Error: Invalid date format''\<rparr>],
             isError = Some True\<rparr>, []))
   \<and> (\<not> ((\<exists>s. arg_start_date a = Some s \<and> s \<noteq> [] \<and> parseDate h s = None)
          \<or> (\<exists>s. arg_end_date a = Some s \<and> s \<noteq> [] \<and> parseDate h s = None))
     \<longrightarrow> snd (callTool h exec ''calendar_get_events'' (Some a)) =
           [osascript (scriptText (getEventsScript (arg_calendar a)
              (formatDateForAppleScript h
                 (if arg_start_date a = None \<or> arg_start_date a = Some [] then Some (now h)
                  else parseDate h (str (arg_start_date a))))
              (formatDateForAppleScript h
                 (if arg_end_date a = None \<or> arg_end_date a = Some []
                  then TimeClip (now h + 30 * 24 * 60 * 60 * 1000)
                  else parseDate h (str (arg_end_date a))))
              (case arg_limit a of None \<Rightarrow> 100 | Some n \<Rightarrow> n)))])
   \<and> getEventsScript calendar rangeStart rangeEnd limit ! 3 =
        ''      set startDate to date "'' @ rangeStart @ ''"''
   \<and> getEventsScript calendar rangeStart rangeEnd limit ! 4 =
        ''      set endDate to date "'' @ rangeEnd @ ''"''\<close>
proof -
  let ?bad = "(\<exists>s. arg_start_date a = Some s \<and> s \<noteq> [] \<and> parseDate h s = None)
      \<or> (\<exists>s. arg_end_date a = Some s \<and> s \<noteq> [] \<and> parseDate h s = None)"
  have bad: "?bad \<longleftrightarrow> (truthy (arg_start_date a) \<and> parseDate h (str (arg_start_date a)) = None)
         \<or> (truthy (arg_end_date a) \<and> parseDate h (str (arg_end_date a)) = None)"
    by (auto simp: truthy_iff str_def)
  have 1: "getEvents h exec (arg_calendar a) (arg_start_date a) (arg_end_date a) (arg_limit a) =
           (Inl (Error ''Invalid date format''), [])
       \<and> callTool h exec ''calendar_get_events'' (Some a) =
           (\<lparr>content = [\<lparr>item_type = ''text'', item_text = ''Error: Invalid date format''\<rparr>],
             isError = Some True\<rparr>, [])" if ?bad
  proof -
    from that bad have "eventsWindow h (arg_start_date a) (arg_end_date a) =
        Inl (Error ''Invalid date format'')"
      unfolding eventsWindow_eq by simp
    then have g: "getEvents h exec (arg_calendar a) (arg_start_date a) (arg_end_date a) (arg_limit a) =
           (Inl (Error ''Invalid date format''), [])"
      by (simp add: getEvents_eq)
    then have "handleToolCall h exec ''calendar_get_events'' a =
        (Inl (Error ''Invalid date format''), [])"
      by (simp add: handleToolCall_def eventsText_def)
    then have "callTool h exec ''calendar_get_events'' (Some a) =
           (\<lparr>content = [\<lparr>item_type = ''text'', item_text = ''Error: Invalid date format''\<rparr>],
             isError = Some True\<rparr>, [])"
      by (simp add: callTool_def)
    with g show ?thesis by simp
  qed
  have 2: "snd (callTool h exec ''calendar_get_events'' (Some a)) =
           [osascript (scriptText (getEventsScript (arg_calendar a)
              (formatDateForAppleScript h
                 (if arg_start_date a = None \<or> arg_start_date a = Some [] then Some (now h)
                  else parseDate h (str (arg_start_date a))))
              (formatDateForAppleScript h
                 (if arg_end_date a = None \<or> arg_end_date a = Some []
                  then TimeClip (now h + 30 * 24 * 60 * 60 * 1000)
                  else parseDate h (str (arg_end_date a))))
              (case arg_limit a of None \<Rightarrow> 100 | Some n \<Rightarrow> n)))]" if "\<not> ?bad"
  proof -
    from that bad have w: "eventsWindow h (arg_start_date a) (arg_end_date a) =
        Inr (if truthy (arg_start_date a) then parseDate h (str (arg_start_date a)) else Some (now h),
             if truthy (arg_end_date a) then parseDate h (str (arg_end_date a))
             else TimeClip (now h + 30 * 24 * 60 * 60 * 1000))"
      unfolding eventsWindow_eq by simp
    have s: "(if truthy x then p else d) = (if x = None \<or> x = Some [] then d else p)"
      for x and p d :: "int option"
      using not_truthy_iff [of x] by auto
    have "snd (getEvents h exec (arg_calendar a) (arg_start_date a) (arg_end_date a) (arg_limit a)) =
        [osascript (scriptText (getEventsScript (arg_calendar a)
              (formatDateForAppleScript h
                 (if truthy (arg_start_date a) then parseDate h (str (arg_start_date a))
                  else Some (now h)))
              (formatDateForAppleScript h
                 (if truthy (arg_end_date a) then parseDate h (str (arg_end_date a))
                  else TimeClip (now h + 30 * 24 * 60 * 60 * 1000)))
              (case arg_limit a of None \<Rightarrow> 100 | Some n \<Rightarrow> n)))]"
      unfolding getEvents_eq w by simp
    then show ?thesis
      unfolding s by (simp add: callTool_snd handleToolCall_def eventsText_snd)
  qed
  have 3: \<open>getEventsScript calendar rangeStart rangeEnd limit ! 3 =
        ''      set startDate to date "'' @ rangeStart @ ''"''\<close>
    \<open>getEventsScript calendar rangeStart rangeEnd limit ! 4 =
        ''      set endDate to date "'' @ rangeEnd @ ''"''\<close>
    by (simp_all add: getEventsScript_def)
  from 1 2 3 show ?thesis
    by blast
qed

text \<open>
  Three calls on a host that prints a date as \<open>toISOString\<close> does, to tell the dates
  apart, with the clock at 2025-01-15T10:00:00Z: a start date that is no date, a
  start date alone, and an end date alone.
\<close>

theorem getEvents_invalid_date_witness:
  \<open>callTool (utcHost\<lparr>localeString := isoString\<rparr>) (\<lambda>c. Inr []) ''calendar_get_events''
      (Some (noArgs\<lparr>arg_start_date := Some ''tomorrow''\<rparr>)) =
     (\<lparr>content = [\<lparr>item_type = ''text'', item_text = ''Error: Invalid date format''\<rparr>],
       isError = Some True\<rparr>, [])
   \<and> (\<exists>ls. snd (callTool (utcHost\<lparr>localeString := isoString\<rparr>) (\<lambda>c. Inr [])
                  ''calendar_get_events''
                  (Some (noArgs\<lparr>arg_start_date := Some ''2025-02-01''\<rparr>))) =
              [osascript (scriptText ls)]
          \<and> ls ! 3 = ''      set startDate to date "2025-02-01T00:00:00.000Z"''
          \<and> ls ! 4 = ''      set endDate to date "2025-02-14T10:00:00.000Z"'')
   \<and> (\<exists>ls. snd (callTool (utcHost\<lparr>localeString := isoString\<rparr>) (\<lambda>c. Inr [])
                  ''calendar_get_events''
                  (Some (noArgs\<lparr>arg_end_date := Some ''2025-02-01''\<rparr>))) =
              [osascript (scriptText ls)]
          \<and> ls ! 3 = ''      set startDate to date "2025-01-15T10:00:00.000Z"''
          \<and> ls ! 4 = ''      set endDate to date "2025-02-01T00:00:00.000Z"'')\<close>
proof -
  let ?h = "utcHost\<lparr>localeString := isoString\<rparr>"
  let ?exec = "(\<lambda>c. Inr []) :: adapter"
  have p: "parseDate ?h ''tomorrow'' = None"
    "parseDate ?h ''2025-02-01'' = Some 1738368000000"
    by code_simp+
  have i: "isoString 1738368000000 = ''2025-02-01T00:00:00.000Z''"
    "isoString 1739527200000 = ''2025-02-14T10:00:00.000Z''"
    "isoString 1736935200000 = ''2025-01-15T10:00:00.000Z''"
    by code_simp+
  have n: "now ?h = 1736935200000" "localeString ?h = isoString"
    by (simp_all add: utcHost_def)
  have 1: "callTool ?h ?exec ''calendar_get_events''
      (Some (noArgs\<lparr>arg_start_date := Some ''tomorrow''\<rparr>)) =
     (\<lparr>content = [\<lparr>item_type = ''text'', item_text = ''Error: Invalid date format''\<rparr>],
       isError = Some True\<rparr>, [])"
    using getEvents_invalid_date [of "noArgs\<lparr>arg_start_date := Some ''tomorrow''\<rparr>" ?h ?exec] p
    by simp
  have 2: "\<exists>ls. snd (callTool ?h ?exec ''calendar_get_events''
                  (Some (noArgs\<lparr>arg_start_date := Some ''2025-02-01''\<rparr>))) =
              [osascript (scriptText ls)]
          \<and> ls ! 3 = ''      set startDate to date '' @ [CHR 0x22] @ ''2025-02-01T00:00:00.000Z'' @ [CHR 0x22]
          \<and> ls ! 4 = ''      set endDate to date '' @ [CHR 0x22] @ ''2025-02-14T10:00:00.000Z'' @ [CHR 0x22]"
    using getEvents_invalid_date [of "noArgs\<lparr>arg_start_date := Some ''2025-02-01''\<rparr>" ?h ?exec
        None "isoString 1738368000000" "isoString 1739527200000" 100] p
    by (auto simp: noArgs_def str_def formatDateForAppleScript_def TimeClip_def n i)
  have 3: "\<exists>ls. snd (callTool ?h ?exec ''calendar_get_events''
                  (Some (noArgs\<lparr>arg_end_date := Some ''2025-02-01''\<rparr>))) =
              [osascript (scriptText ls)]
          \<and> ls ! 3 = ''      set startDate to date '' @ [CHR 0x22] @ ''2025-01-15T10:00:00.000Z'' @ [CHR 0x22]
          \<and> ls ! 4 = ''      set endDate to date '' @ [CHR 0x22] @ ''2025-02-01T00:00:00.000Z'' @ [CHR 0x22]"
    using getEvents_invalid_date [of "noArgs\<lparr>arg_end_date := Some ''2025-02-01''\<rparr>" ?h ?exec
        None "isoString 1736935200000" "isoString 1738368000000" 100] p
    by (auto simp: noArgs_def str_def formatDateForAppleScript_def TimeClip_def n i)
  from 1 2 3 show ?thesis
    by simp
qed

text \<open>
  C10 as stated fails for the empty string: it is supplied and it is not a date,
  yet \<open>getEvents\<close> does not throw; the window starts at the clock's time, the
  default, the script is submitted, and the call returns the list of events.
\<close>

theorem getEvents_empty_date_counterexample:
  \<open>arg_start_date (noArgs\<lparr>arg_start_date := Some ''''\<rparr>) = Some ''''
   \<and> parseDate (utcHost\<lparr>localeString := isoString\<rparr>) '''' = None
   \<and> eventsWindow (utcHost\<lparr>localeString := isoString\<rparr>) (Some '''') None =
       Inr (Some (now utcHost), Some (now utcHost + 2592000000))
   \<and> fst (callTool (utcHost\<lparr>localeString := isoString\<rparr>) (\<lambda>c. Inr []) ''calendar_get_events''
        (Some (noArgs\<lparr>arg_start_date := Some ''''\<rparr>))) =
      \<lparr>content = [\<lparr>item_type = ''text'', item_text = ''[]''\<rparr>], isError = None\<rparr>
   \<and> snd (callTool (utcHost\<lparr>localeString := isoString\<rparr>) (\<lambda>c. Inr []) ''calendar_get_events''
        (Some (noArgs\<lparr>arg_start_date := Some ''''\<rparr>))) =
      [osascript (scriptText (getEventsScript None ''2025-01-15T10:00:00.000Z''
          ''2025-02-14T10:00:00.000Z'' 100))]\<close>
  by (intro conjI; code_simp)

end
